theory Spec2Isabelle
  imports Complex_Main
begin

section \<open>Outcomes of a call\<close>

text \<open>
  A call of a library function either returns, or ends the process through \<open>die()\<close>
  (\<open>Die\<close> with the message), or does something the C language leaves undefined
  (\<open>Undefined\<close>: an access outside an array, a call through a NULL function pointer,
  a signed overflow, the use of an indeterminate value).  A call that runs forever is the
  value \<open>None\<close> of the functions that can.
\<close>

datatype error = Die string | Undefined

definition bindE :: "error + 'a \<Rightarrow> ('a \<Rightarrow> error + 'b) \<Rightarrow> error + 'b" where
  "bindE m f = (case m of Inl e \<Rightarrow> Inl e | Inr x \<Rightarrow> f x)"

subsection \<open>C integers and arrays\<close>

definition INT_MAX :: int where
  "INT_MAX = 2147483647"

definition INT_MIN :: int where
  "INT_MIN = - 2147483648"

text \<open>The value of an \<open>int\<close> expression: outside the range of \<open>int\<close> it is undefined.\<close>

definition c_int :: "int \<Rightarrow> error + int" where
  "c_int x = (if INT_MIN \<le> x \<and> x \<le> INT_MAX then Inr x else Inl Undefined)"

text \<open>C's \<open>/\<close> truncates towards zero.\<close>

definition c_div :: "int \<Rightarrow> int \<Rightarrow> int" where
  "c_div a b = sgn a * sgn b * (\<bar>a\<bar> div \<bar>b\<bar>)"

text \<open>The conversion of an \<open>int\<close> to \<open>unsigned int\<close>.\<close>

definition to_unsigned :: "int \<Rightarrow> nat" where
  "to_unsigned x = nat (x mod 4294967296)"

text \<open>\<open>a[i]\<close> read and written; an array is the list of its cells.\<close>

definition load :: "'a list \<Rightarrow> int \<Rightarrow> error + 'a" where
  "load xs i = (if 0 \<le> i \<and> i < int (length xs) then Inr (xs ! nat i) else Inl Undefined)"

definition store :: "'a list \<Rightarrow> int \<Rightarrow> 'a \<Rightarrow> error + 'a list" where
  "store xs i v = (if 0 \<le> i \<and> i < int (length xs) then Inr (xs[nat i := v]) else Inl Undefined)"

section \<open>Data model\<close>

type_synonym eptr = nat

text \<open>
  A function pointer names the function it points to: one of the library's own functions,
  by its name, or a function of the caller.  A NULL pointer is \<open>None\<close>.
\<close>

datatype funcptr = GAUL string | User nat

text \<open>
  \<open>entity\<close>: the fitness, the chromosomes (\<open>None\<close> is NULL; the engine never looks inside)
  and the phenome list \<open>data\<close> (the empty list is the NULL list; an item is a pointer or NULL).
\<close>

record 'c entity =
  fitness :: real
  chromosome :: "'c option"
  data :: "nat option list"

text \<open>
  \<open>entity_chunk\<close>: the atoms handed out and not yet given back, and the contents of the
  memory at each address.  \<open>mem_chunk_alloc\<close> hands out an atom that is not in use.
\<close>

record 'c mem_chunk =
  atoms :: "eptr list"
  cell :: "eptr \<Rightarrow> 'c entity"

record 'c population =
  size_pop :: int
  stable_size :: int
  max_size :: int
  orig_size :: int
  num_chromosomes :: int
  len_chromosomes :: int
  data_pop :: "nat option"
  free_index :: int
  island :: int
  generation :: int
  crossover_ratio :: real
  mutation_ratio :: real
  migration_ratio :: real
  scheme :: int
  elitism :: int
  entity_array :: "eptr option list"
  entity_iarray :: "eptr option list"
  entity_chunk :: "'c mem_chunk"
  tabu_params :: "nat option"
  sa_params :: "nat option"
  climbing_params :: "nat option"
  simplex_params :: "nat option"
  gradient_params :: "nat option"
  search_params :: "nat option"
  generation_hook :: "funcptr option"
  iteration_hook :: "funcptr option"
  data_destructor :: "funcptr option"
  data_ref_incrementor :: "funcptr option"
  chromosome_constructor :: "funcptr option"
  chromosome_destructor :: "funcptr option"
  chromosome_replicate :: "funcptr option"
  chromosome_to_bytes :: "funcptr option"
  chromosome_from_bytes :: "funcptr option"
  chromosome_to_string :: "funcptr option"
  evaluate :: "funcptr option"
  seed :: "funcptr option"
  adapt :: "funcptr option"
  select_one :: "funcptr option"
  select_two :: "funcptr option"
  mutate :: "funcptr option"
  crossover :: "funcptr option"
  replace :: "funcptr option"

text \<open>
  The constants of the headers that are not part of the sources at hand
  (\<open>ga_core.h\<close>, \<open>table_util.h\<close>, the build configuration) are parameters, and so is
  the object representation of the host: the bytes of an \<open>int\<close>, of an \<open>unsigned int\<close>
  and of a \<open>double\<close>, which \<open>fwrite\<close> and \<open>fread\<close> copy as they are, and the number of
  bytes of an \<open>int\<close> (an \<open>unsigned int\<close> has as many) and of a \<open>double\<close>.  The memory of
  the host is a parameter too: the largest \<open>size_t\<close>, the sizes of the population structure
  and of an entity pointer, and \<open>memory_for n\<close>, which says whether \<open>s_malloc\<close> or
  \<open>s_realloc\<close> hands out a block when it is asked for \<open>n\<close> bytes.
\<close>

record header =
  VERSION_STRING :: string
  BUILD_DATE_STRING :: string
  GA_MIN_FITNESS :: real
  GA_SCHEME_DARWIN :: int
  GA_ELITISM_UNKNOWN :: int
  TABLE_ERROR_INDEX :: nat
  int_rep :: "int \<Rightarrow> string"
  int_val :: "string \<Rightarrow> int"
  uint_rep :: "nat \<Rightarrow> string"
  uint_val :: "string \<Rightarrow> nat"
  double_rep :: "real \<Rightarrow> string"
  double_val :: "string \<Rightarrow> real"
  sizeof_int :: nat
  sizeof_double :: nat
  SIZE_MAX :: nat
  sizeof_population :: nat
  sizeof_entity_ptr :: nat
  memory_for :: "nat \<Rightarrow> bool"

text \<open>
  What the function behind a pointer does when the engine calls it through a callback slot.
  By the operator contract a callback works on the entity it is given: it reads the
  population and returns the entity as it leaves it.
\<close>

record 'c code =
  call_constructor :: "funcptr \<Rightarrow> 'c population \<Rightarrow> 'c entity \<Rightarrow> 'c entity"
  call_destructor :: "funcptr \<Rightarrow> 'c population \<Rightarrow> 'c entity \<Rightarrow> 'c entity"
  call_replicate :: "funcptr \<Rightarrow> 'c population \<Rightarrow> 'c entity \<Rightarrow> 'c entity \<Rightarrow> int \<Rightarrow> 'c entity"
  call_to_bytes :: "funcptr \<Rightarrow> 'c population \<Rightarrow> 'c entity \<Rightarrow> string"
  call_from_bytes :: "funcptr \<Rightarrow> 'c population \<Rightarrow> 'c entity \<Rightarrow> string \<Rightarrow> 'c entity"
  call_evaluate :: "funcptr \<Rightarrow> 'c population \<Rightarrow> 'c entity \<Rightarrow> 'c entity"
  call_seed :: "funcptr \<Rightarrow> 'c population \<Rightarrow> 'c entity \<Rightarrow> bool \<times> 'c entity"

section \<open>The entity pool\<close>

subsection \<open>Memory\<close>

primrec fresh_atom :: "eptr list \<Rightarrow> eptr" where
  "fresh_atom [] = 0"
| "fresh_atom (a # as) = max (Suc a) (fresh_atom as)"

definition mem_chunk_alloc :: "'c mem_chunk \<Rightarrow> eptr \<times> 'c mem_chunk" where
  "mem_chunk_alloc c = (let a = fresh_atom (atoms c) in (a, c\<lparr>atoms := a # atoms c\<rparr>))"

definition mem_chunk_free :: "'c mem_chunk \<Rightarrow> eptr \<Rightarrow> 'c mem_chunk" where
  "mem_chunk_free c a = c\<lparr>atoms := removeAll a (atoms c)\<rparr>"

text \<open>The entity behind a pointer, and the assignment to it.\<close>

definition peek :: "'c population \<Rightarrow> eptr \<Rightarrow> 'c entity" where
  "peek pop e = cell (entity_chunk pop) e"

definition poke :: "'c population \<Rightarrow> eptr \<Rightarrow> 'c entity \<Rightarrow> 'c population" where
  "poke pop e v = pop\<lparr>entity_chunk := (entity_chunk pop)\<lparr>cell := (cell (entity_chunk pop))(e := v)\<rparr>\<rparr>"

text \<open>
  The cells of a block that \<open>s_malloc\<close> or \<open>s_realloc\<close> has just handed out hold
  indeterminate values.  The model fills them with a pointer that is not NULL, so that nothing
  relies on fresh memory being NULL.
\<close>

definition indeterminate :: "eptr option" where
  "indeterminate = Some 0"

definition s_malloc :: "nat \<Rightarrow> eptr option list" where
  "s_malloc n = replicate n indeterminate"

definition s_realloc :: "eptr option list \<Rightarrow> nat \<Rightarrow> eptr option list" where
  "s_realloc xs n = take n xs @ replicate (n - length xs) indeterminate"

text \<open>
  The argument \<open>n*sizeof(entity*)\<close> of a request for \<open>n\<close> cells is computed in
  \<open>size_t\<close>, where it wraps around; the block has \<open>n\<close> cells when it has not wrapped.
\<close>

definition cells_request :: "header \<Rightarrow> int \<Rightarrow> nat" where
  "cells_request h n = nat ((n * int (sizeof_entity_ptr h)) mod (int (SIZE_MAX h) + 1))"

definition cells_fit :: "header \<Rightarrow> int \<Rightarrow> bool" where
  "cells_fit h n \<longleftrightarrow> 0 \<le> n \<and> n * int (sizeof_entity_ptr h) \<le> int (SIZE_MAX h)"

text \<open>
  The loop that wipes the entity arrays:
  \<open>for (i = lo; i < hi; i++) { entity_array[i] = NULL; entity_iarray[i] = NULL; }\<close>
\<close>

function wipe_entity_arrays ::
  "int \<Rightarrow> int \<Rightarrow> eptr option list \<Rightarrow> eptr option list
     \<Rightarrow> error + eptr option list \<times> eptr option list" where
  "wipe_entity_arrays i hi arr iarr =
     (if i < hi then
        (case store arr i None of
           Inl e \<Rightarrow> Inl e
         | Inr arr' \<Rightarrow>
             (case store iarr i None of
                Inl e \<Rightarrow> Inl e
              | Inr iarr' \<Rightarrow> wipe_entity_arrays (i + 1) hi arr' iarr'))
      else Inr (arr, iarr))"
  by pat_completeness auto
termination
  by (relation "measure (\<lambda>(i, hi, arr, iarr). nat (hi - i))") auto

declare wipe_entity_arrays.simps [simp del]

subsection \<open>Looking entities up\<close>

text \<open>\<open>ga_get_entity_id\<close>: the loop \<open>while (id < pop->max_size)\<close> from \<open>ident\<close> on (the source's \<open>id\<close>).\<close>

function ga_get_entity_id_from :: "'c population \<Rightarrow> eptr \<Rightarrow> int \<Rightarrow> error + int" where
  "ga_get_entity_id_from pop e ident =
     (if ident < max_size pop then
        (case load (entity_array pop) ident of
           Inl err \<Rightarrow> Inl err
         | Inr x \<Rightarrow> if x = Some e then Inr ident else ga_get_entity_id_from pop e (ident + 1))
      else Inr (- 1))"
  by pat_completeness auto
termination
  by (relation "measure (\<lambda>(pop, e, ident). nat (max_size pop - ident))") auto

declare ga_get_entity_id_from.simps [simp del]

definition ga_get_entity_id :: "'c population \<Rightarrow> eptr option \<Rightarrow> error + int" where
  "ga_get_entity_id pop e =
     (case e of
        None \<Rightarrow> Inl (Die ''Null pointer to entity structure passed.'')
      | Some e' \<Rightarrow> ga_get_entity_id_from pop e' 0)"

text \<open>
  \<open>ga_get_entity_from_id\<close>: the identifier is an \<open>unsigned int\<close>, so the comparison with
  \<open>pop->max_size\<close> is made in \<open>unsigned int\<close>.
\<close>

definition ga_get_entity_from_id :: "'c population \<Rightarrow> nat \<Rightarrow> error + eptr option" where
  "ga_get_entity_from_id pop ident =
     (if ident > to_unsigned (max_size pop) then Inr None
      else load (entity_array pop) (int ident))"

subsection \<open>Allocating and releasing entities\<close>

definition ga_entity_setup ::
  "header \<Rightarrow> 'c code \<Rightarrow> 'c population \<Rightarrow> eptr option \<Rightarrow> error + bool \<times> 'c population" where
  "ga_entity_setup h cm pop joe =
     (case joe of
        None \<Rightarrow> Inl (Die ''Null pointer to entity structure passed.'')
      | Some j \<Rightarrow>
          (case chromosome_constructor pop of
             None \<Rightarrow> Inl (Die ''Chromosome constructor not defined.'')
           | Some f \<Rightarrow>
               let pop1 = poke pop j ((peek pop j)\<lparr>chromosome := None\<rparr>);
                   pop2 = poke pop1 j (call_constructor cm f pop1 (peek pop1 j));
                   pop3 = poke pop2 j ((peek pop2 j)\<lparr>data := []\<rparr>);
                   pop4 = poke pop3 j ((peek pop3 j)\<lparr>fitness := GA_MIN_FITNESS h\<rparr>)
               in Inr (True, pop4)))"

text \<open>
  The first block of \<open>ga_get_free_entity\<close>: when \<open>max_size == size+1\<close> both arrays are
  reallocated to \<open>(max_size*3)/2\<close> cells, the new cells are wiped, and the cursor is set to
  the last cell.  The result of \<open>s_realloc\<close> is not checked: when the host has no block of
  that size, or the size has wrapped around and the block is too short, the assignments that
  follow go through NULL or past the block.  A negative count is a size that no host grants.
\<close>

definition ga_get_free_entity_room :: "header \<Rightarrow> 'c population \<Rightarrow> error + 'c population" where
  "ga_get_free_entity_room h pop =
     bindE (c_int (size_pop pop + 1)) (\<lambda>size1.
       if max_size pop = size1 then
         bindE (c_int (max_size pop * 3)) (\<lambda>max3.
           let new_max_size = c_div max3 2 in
           if new_max_size < 0 then Inl Undefined
           else if \<not> memory_for h (cells_request h new_max_size) then Inl Undefined
           else if \<not> cells_fit h new_max_size then Inl Undefined
           else
             bindE (wipe_entity_arrays (max_size pop) new_max_size
                      (s_realloc (entity_array pop) (nat new_max_size))
                      (s_realloc (entity_iarray pop) (nat new_max_size))) (\<lambda>(arr, iarr).
               bindE (c_int (new_max_size - 1)) (\<lambda>fi.
                 Inr (pop\<lparr>entity_array := arr, entity_iarray := iarr,
                          max_size := new_max_size, free_index := fi\<rparr>))))
       else Inr pop)"

text \<open>
  The search for an unused index:
  \<open>while (entity_array[free_index] != NULL) { if (free_index == 0) free_index = max_size; free_index--; }\<close>
  It does not end when every cell it visits is in use.
\<close>

partial_function (option) find_unused ::
  "eptr option list \<Rightarrow> int \<Rightarrow> int \<Rightarrow> (error + int) option" where
  "find_unused arr max_sz fi =
     (if \<not> (0 \<le> fi \<and> fi < int (length arr)) then Some (Inl Undefined)
      else if arr ! nat fi = None then Some (Inr fi)
      else find_unused arr max_sz ((if fi = 0 then max_sz else fi) - 1))"

definition ga_get_free_entity ::
  "header \<Rightarrow> 'c code \<Rightarrow> 'c population \<Rightarrow> (error + eptr \<times> 'c population) option" where
  "ga_get_free_entity h cm pop =
     (case ga_get_free_entity_room h pop of
        Inl e \<Rightarrow> Some (Inl e)
      | Inr pop1 \<Rightarrow>
          (case find_unused (entity_array pop1) (max_size pop1) (free_index pop1) of
             None \<Rightarrow> None
           | Some (Inl e) \<Rightarrow> Some (Inl e)
           | Some (Inr fi) \<Rightarrow>
               Some
                 (let (new, chunk) = mem_chunk_alloc (entity_chunk pop1);
                      pop2 = pop1\<lparr>free_index := fi, entity_chunk := chunk\<rparr>
                  in bindE (store (entity_array pop2) (free_index pop2) (Some new)) (\<lambda>arr.
                     bindE (ga_entity_setup h cm (pop2\<lparr>entity_array := arr\<rparr>) (Some new)) (\<lambda>(ok, pop3).
                     bindE (store (entity_iarray pop3) (size_pop pop3) (Some new)) (\<lambda>iarr.
                     bindE (c_int (size_pop pop3 + 1)) (\<lambda>size1.
                       Inr (new, pop3\<lparr>entity_iarray := iarr, size_pop := size1\<rparr>))))))))"

text \<open>
  \<open>destruct_list\<close> hands every item of a phenome list to \<open>data_destructor\<close> and frees the
  list.  The items are objects of the caller, outside the population.
\<close>

definition destruct_list :: "'c population \<Rightarrow> nat option list \<Rightarrow> error + unit" where
  "destruct_list pop list =
     (if list = [] then Inl (Die ''Null pointer to list passed.'') else Inr ())"

text \<open>
  The loop of \<open>ga_entity_dereference_by_rank\<close> that closes the gap:
  \<open>for (i = rank; i < pop->size; i++) entity_iarray[i] = entity_iarray[i+1];\<close>
\<close>

function shift_ranks :: "int \<Rightarrow> int \<Rightarrow> eptr option list \<Rightarrow> error + eptr option list" where
  "shift_ranks i n iarr =
     (if i < n then
        (case load iarr (i + 1) of
           Inl e \<Rightarrow> Inl e
         | Inr x \<Rightarrow>
             (case store iarr i x of
                Inl e \<Rightarrow> Inl e
              | Inr iarr' \<Rightarrow> shift_ranks (i + 1) n iarr'))
      else Inr iarr)"
  by pat_completeness auto
termination
  by (relation "measure (\<lambda>(i, n, iarr). nat (n - i))") auto

declare shift_ranks.simps [simp del]

definition ga_entity_dereference_by_rank ::
  "'c code \<Rightarrow> 'c population \<Rightarrow> int \<Rightarrow> error + bool \<times> 'c population" where
  "ga_entity_dereference_by_rank cm pop rank =
     bindE (load (entity_iarray pop) rank) (\<lambda>dying.
       case dying of
         None \<Rightarrow> Inl (Die ''Invalid entity rank'')
       | Some d \<Rightarrow>
           bindE (if data (peek pop d) \<noteq> []
                  then bindE (destruct_list pop (data (peek pop d)))
                         (\<lambda>u. Inr (poke pop d ((peek pop d)\<lparr>data := []\<rparr>)))
                  else Inr pop) (\<lambda>pop1.
           bindE (c_int (size_pop pop1 - 1)) (\<lambda>size1.
           let pop2 = pop1\<lparr>size_pop := size1\<rparr> in
           bindE (if chromosome (peek pop2 d) \<noteq> None
                  then (case chromosome_destructor pop2 of
                          None \<Rightarrow> Inl Undefined
                        | Some f \<Rightarrow> Inr (poke pop2 d (call_destructor cm f pop2 (peek pop2 d))))
                  else Inr pop2) (\<lambda>pop3.
           bindE (shift_ranks rank (size_pop pop3) (entity_iarray pop3)) (\<lambda>iarr.
           bindE (store iarr (size_pop pop3) None) (\<lambda>iarr'.
           let pop4 = pop3\<lparr>entity_iarray := iarr'\<rparr> in
           bindE (ga_get_entity_id pop4 dying) (\<lambda>i.
           bindE (ga_get_entity_id pop4 dying) (\<lambda>ident.
           bindE (store (entity_array pop4) ident None) (\<lambda>arr.
             Inr (True, pop4\<lparr>entity_array := arr,
                              entity_chunk := mem_chunk_free (entity_chunk pop4) d\<rparr>))))))))))"

section \<open>The population table\<close>

text \<open>
  Modelled from the spec: the table of \<open>table_util.c\<close> (\<open>table_new\<close>, \<open>table_add\<close>,
  \<open>table_get_data\<close>, \<open>table_lookup_index\<close>, \<open>table_remove_index\<close>,
  \<open>table_count_items\<close>), which is not part of the sources at hand.  The spec: "atomic
  insertion returning a fresh small integer identifier.  Identifiers may be reused after
  removal"; "lookup by id and reverse lookup by population reference must both be supported".
  A table is the list of its slots; an identifier is the index of a slot, and a new item takes
  the first slot that is not in use.
\<close>

type_synonym pptr = nat

definition table_new :: "'a option list" where
  "table_new = []"

primrec table_first_unused :: "'a option list \<Rightarrow> nat" where
  "table_first_unused [] = 0"
| "table_first_unused (x # xs) = (if x = None then 0 else Suc (table_first_unused xs))"

definition table_add :: "'a option list \<Rightarrow> 'a \<Rightarrow> nat \<times> 'a option list" where
  "table_add t d =
     (let i = table_first_unused t
      in (i, if i < length t then t[i := Some d] else t @ [Some d]))"

definition table_get_data :: "'a option list \<Rightarrow> nat \<Rightarrow> 'a option" where
  "table_get_data t i = (if i < length t then t ! i else None)"

primrec table_index_from :: "header \<Rightarrow> 'a option list \<Rightarrow> 'a \<Rightarrow> nat \<Rightarrow> nat" where
  "table_index_from h [] d i = TABLE_ERROR_INDEX h"
| "table_index_from h (x # xs) d i = (if x = Some d then i else table_index_from h xs d (Suc i))"

definition table_lookup_index :: "header \<Rightarrow> 'a option list \<Rightarrow> 'a \<Rightarrow> nat" where
  "table_lookup_index h t d = table_index_from h t d 0"

definition table_remove_index :: "'a option list \<Rightarrow> nat \<Rightarrow> 'a option \<times> 'a option list" where
  "table_remove_index t i = (table_get_data t i, if i < length t then t[i := None] else t)"

definition table_count_items :: "'a option list \<Rightarrow> nat" where
  "table_count_items t = length (filter (\<lambda>x. x \<noteq> None) t)"

text \<open>
  The state of the process outside a population: the static \<open>pop_table\<close> (NULL until the
  first population is made) and the population structures that \<open>s_malloc\<close> has handed out,
  each at its address.
\<close>

record 'c world =
  pop_table :: "pptr option list option"
  pop_heap :: "(pptr \<times> 'c population) list"

text \<open>
  The block under \<open>pop_table_lock\<close> in \<open>ga_population_new\<close>:
  \<open>if ( !pop_table ) pop_table=table_new(); pop_id = table_add(pop_table, (vpointer) newpop);\<close>
\<close>

definition pop_table_add :: "'c world \<Rightarrow> pptr \<Rightarrow> nat \<times> 'c world" where
  "pop_table_add w newpop =
     (let t = (case pop_table w of None \<Rightarrow> table_new | Some t \<Rightarrow> t);
          (pop_id, t') = table_add t newpop
      in (pop_id, w\<lparr>pop_table := Some t'\<rparr>))"

definition ga_get_population_from_id :: "'c world \<Rightarrow> nat \<Rightarrow> pptr option" where
  "ga_get_population_from_id w ident =
     (case pop_table w of None \<Rightarrow> None | Some t \<Rightarrow> table_get_data t ident)"

definition ga_get_population_id :: "header \<Rightarrow> 'c world \<Rightarrow> pptr option \<Rightarrow> nat" where
  "ga_get_population_id h w pop =
     (case (pop_table w, pop) of
        (Some t, Some p) \<Rightarrow> table_lookup_index h t p
      | _ \<Rightarrow> TABLE_ERROR_INDEX h)"

definition ga_resurect :: "header \<Rightarrow> 'c world \<Rightarrow> pptr option \<Rightarrow> error + nat \<times> 'c world" where
  "ga_resurect h w pop =
     (case pop of
        None \<Rightarrow> Inl (Die ''Null pointer to population structure passed.'')
      | Some p \<Rightarrow>
          (case pop_table w of
             None \<Rightarrow> Inr (TABLE_ERROR_INDEX h, w)
           | Some t \<Rightarrow> (let (ident, t') = table_add t p in Inr (ident, w\<lparr>pop_table := Some t'\<rparr>))))"

section \<open>Making a population\<close>

definition mem_chunk_new :: "'c mem_chunk" where
  "mem_chunk_new = \<lparr>atoms = [], cell = (\<lambda>a. \<lparr>fitness = 0, chromosome = None, data = []\<rparr>)\<rparr>"

text \<open>
  \<open>ga_population_new\<close>, as it is in the newer \<open>ga_core.c\<close>.  Each of the three
  \<open>s_malloc\<close> calls is followed by \<open>die("Unable to allocate memory")\<close> for a NULL result;
  the two arrays are asked for with the same size.  A negative count converts to a size that
  no host grants.  When the size has wrapped around, the block is too short for the loop that
  wipes it.  The structure gets an address that no live structure has.
\<close>

definition ga_population_new ::
  "header \<Rightarrow> 'c world \<Rightarrow> int \<Rightarrow> int \<Rightarrow> int \<Rightarrow> error + pptr \<times> 'c world" where
  "ga_population_new h w stable_size' num_chromosome len_chromosome =
     (if \<not> memory_for h (sizeof_population h) then Inl (Die ''Unable to allocate memory'')
      else
     bindE (c_int (stable_size' * 4)) (\<lambda>max_size'.
     bindE (c_int (max_size' - 1)) (\<lambda>free_index'.
     if max_size' < 0 \<or> \<not> memory_for h (cells_request h max_size')
     then Inl (Die ''Unable to allocate memory'')
     else if \<not> cells_fit h max_size' then Inl Undefined
     else
       bindE (wipe_entity_arrays 0 max_size' (s_malloc (nat max_size')) (s_malloc (nat max_size')))
         (\<lambda>(arr, iarr).
           let newpop =
                 \<lparr>size_pop = 0,
                  stable_size = stable_size',
                  max_size = max_size',
                  orig_size = 0,
                  num_chromosomes = num_chromosome,
                  len_chromosomes = len_chromosome,
                  data_pop = None,
                  free_index = free_index',
                  island = - 1,
                  generation = 0,
                  crossover_ratio = 1,
                  mutation_ratio = 1,
                  migration_ratio = 1,
                  scheme = GA_SCHEME_DARWIN h,
                  elitism = GA_ELITISM_UNKNOWN h,
                  entity_array = arr,
                  entity_iarray = iarr,
                  entity_chunk = mem_chunk_new,
                  tabu_params = None,
                  sa_params = None,
                  climbing_params = None,
                  simplex_params = None,
                  gradient_params = None,
                  search_params = None,
                  generation_hook = None,
                  iteration_hook = None,
                  data_destructor = None,
                  data_ref_incrementor = None,
                  chromosome_constructor = None,
                  chromosome_destructor = None,
                  chromosome_replicate = None,
                  chromosome_to_bytes = None,
                  chromosome_from_bytes = None,
                  chromosome_to_string = None,
                  evaluate = None,
                  seed = None,
                  adapt = None,
                  select_one = None,
                  select_two = None,
                  mutate = None,
                  crossover = None,
                  replace = None\<rparr>;
               p = fresh_atom (map fst (pop_heap w));
               (pop_id, w') = pop_table_add (w\<lparr>pop_heap := (p, newpop) # pop_heap w\<rparr>) p
           in Inr (p, w')))))"

text \<open>
  \<open>ga_population_new\<close>, as it is in the older \<open>ga_core.c\<close> (\<open>src/src/ga_core.c\<close>).  It
  assigns the sizes, the cursor, the three ratios, the arrays, the chunk and the eighteen
  callbacks, and nothing else: whatever else the structure holds is what the block held when
  \<open>s_malloc\<close> handed it out, here \<open>block\<close>.
\<close>

definition ga_population_new_older ::
  "header \<Rightarrow> 'c population \<Rightarrow> 'c world \<Rightarrow> int \<Rightarrow> int \<Rightarrow> int \<Rightarrow> error + pptr \<times> 'c world" where
  "ga_population_new_older h block w stable_size' num_chromosome len_chromosome =
     (if \<not> memory_for h (sizeof_population h) then Inl (Die ''Unable to allocate memory'')
      else
     bindE (c_int (stable_size' * 4)) (\<lambda>max_size'.
     bindE (c_int (max_size' - 1)) (\<lambda>free_index'.
     if max_size' < 0 \<or> \<not> memory_for h (cells_request h max_size')
     then Inl (Die ''Unable to allocate memory'')
     else if \<not> cells_fit h max_size' then Inl Undefined
     else
       bindE (wipe_entity_arrays 0 max_size' (s_malloc (nat max_size')) (s_malloc (nat max_size')))
         (\<lambda>(arr, iarr).
           let newpop =
                 block
                 \<lparr>size_pop := 0,
                  stable_size := stable_size',
                  max_size := max_size',
                  orig_size := 0,
                  num_chromosomes := num_chromosome,
                  len_chromosomes := len_chromosome,
                  data_pop := None,
                  free_index := free_index',
                  crossover_ratio := 1,
                  mutation_ratio := 1,
                  migration_ratio := 1,
                  entity_array := arr,
                  entity_iarray := iarr,
                  entity_chunk := mem_chunk_new,
                  generation_hook := None,
                  iteration_hook := None,
                  data_destructor := None,
                  data_ref_incrementor := None,
                  chromosome_constructor := None,
                  chromosome_destructor := None,
                  chromosome_replicate := None,
                  chromosome_to_bytes := None,
                  chromosome_from_bytes := None,
                  chromosome_to_string := None,
                  evaluate := None,
                  seed := None,
                  adapt := None,
                  select_one := None,
                  select_two := None,
                  mutate := None,
                  crossover := None,
                  replace := None\<rparr>;
               p = fresh_atom (map fst (pop_heap w));
               (pop_id, w') = pop_table_add (w\<lparr>pop_heap := (p, newpop) # pop_heap w\<rparr>) p
           in Inr (p, w')))))"

section \<open>Seeding\<close>

definition ga_entity_seed ::
  "'c code \<Rightarrow> 'c population option \<Rightarrow> eptr \<Rightarrow> error + bool \<times> 'c population" where
  "ga_entity_seed cm pop adam =
     (case pop of
        None \<Rightarrow> Inl (Die ''Null pointer to population structure passed.'')
      | Some p \<Rightarrow>
          (case seed p of
             None \<Rightarrow> Inl (Die ''Population seeding function is not defined.'')
           | Some f \<Rightarrow>
               (let (ok, e) = call_seed cm f p (peek p adam) in Inr (ok, poke p adam e))))"

text \<open>
  The loop of \<open>ga_population_seed\<close>, \<open>n\<close> rounds of it:
  \<open>adam = ga_get_free_entity(pop); pop->seed(pop, adam);\<close>
  Nothing in a round assigns to \<open>pop->stable_size\<close>, so the number of rounds is fixed when
  the loop is entered.
\<close>

primrec ga_population_seed_loop ::
  "header \<Rightarrow> 'c code \<Rightarrow> nat \<Rightarrow> 'c population \<Rightarrow> (error + 'c population) option" where
  "ga_population_seed_loop h cm 0 pop = Some (Inr pop)"
| "ga_population_seed_loop h cm (Suc n) pop =
     (case ga_get_free_entity h cm pop of
        None \<Rightarrow> None
      | Some (Inl e) \<Rightarrow> Some (Inl e)
      | Some (Inr (adam, pop1)) \<Rightarrow>
          (case seed pop1 of
             None \<Rightarrow> Some (Inl Undefined)
           | Some f \<Rightarrow>
               ga_population_seed_loop h cm n
                 (poke pop1 adam (snd (call_seed cm f pop1 (peek pop1 adam))))))"

definition ga_population_seed ::
  "header \<Rightarrow> 'c code \<Rightarrow> 'c population option \<Rightarrow> (error + bool \<times> 'c population) option" where
  "ga_population_seed h cm pop =
     (case pop of
        None \<Rightarrow> Some (Inl (Die ''Null pointer to population structure passed.''))
      | Some p \<Rightarrow>
          (case seed p of
             None \<Rightarrow> Some (Inl (Die ''Population seeding function is not defined.''))
           | Some f \<Rightarrow>
               (case ga_population_seed_loop h cm (nat (stable_size p)) p of
                  None \<Rightarrow> None
                | Some (Inl e) \<Rightarrow> Some (Inl e)
                | Some (Inr p') \<Rightarrow> Some (Inr (True, p')))))"

section \<open>Snapshots\<close>

subsection \<open>The function lookup table\<close>

definition lookup_names :: "string list" where
  "lookup_names =
   [
    ''ga_select_one_random'', ''ga_select_two_random'', ''ga_select_one_every'',
     ''ga_select_two_every'', ''ga_select_one_randomrank'', ''ga_select_two_randomrank'',
     ''ga_select_one_bestof2'', ''ga_select_two_bestof2'', ''ga_select_one_roulette'',
     ''ga_select_two_roulette'', ''ga_select_one_roulette_rebased'',
     ''ga_select_two_roulette_rebased'', ''ga_select_one_sus'', ''ga_select_two_sus'',
     ''ga_crossover_integer_singlepoints'', ''ga_crossover_integer_doublepoints'',
     ''ga_crossover_integer_mixing'', ''ga_crossover_integer_allele_mixing'',
     ''ga_crossover_boolean_singlepoints'', ''ga_crossover_boolean_doublepoints'',
     ''ga_crossover_boolean_mixing'', ''ga_crossover_boolean_allele_mixing'',
     ''ga_crossover_char_mixing'', ''ga_crossover_char_allele_mixing'',
     ''ga_crossover_double_mixing'', ''ga_crossover_double_allele_mixing'',
     ''ga_crossover_char_singlepoints'', ''ga_crossover_char_doublepoints'',
     ''ga_crossover_bitstring_singlepoints'', ''ga_crossover_bitstring_doublepoints'',
     ''ga_crossover_bitstring_mixing'', ''ga_crossover_bitstring_allele_mixing'',
     ''ga_mutate_integer_singlepoint_drift'', ''ga_mutate_integer_singlepoint_randomize'',
     ''ga_mutate_integer_multipoint'', ''ga_mutate_integer_allpoint'',
     ''ga_mutate_boolean_singlepoint'', ''ga_mutate_boolean_multipoint'',
     ''ga_mutate_char_singlepoint_drift'', ''ga_mutate_char_singlepoint_randomize'',
     ''ga_mutate_char_multipoint'', ''ga_mutate_printable_singlepoint_drift'',
     ''ga_mutate_printable_singlepoint_randomize'', ''ga_mutate_printable_multipoint'',
     ''ga_mutate_bitstring_singlepoint'', ''ga_mutate_double_singlepoint_randomize'',
     ''ga_mutate_double_singlepoint_drift'', ''ga_seed_boolean_random'',
     ''ga_seed_integer_random'', ''ga_seed_integer_zero'', ''ga_seed_double_random'',
     ''ga_seed_double_zero'', ''ga_seed_char_random'', ''ga_seed_printable_random'',
     ''ga_seed_bitstring_random'', ''ga_replace_by_fitness'',
     ''ga_chromosome_integer_allocate'', ''ga_chromosome_integer_deallocate'',
     ''ga_chromosome_integer_replicate'', ''ga_chromosome_integer_to_bytes'',
     ''ga_chromosome_integer_from_bytes'', ''ga_chromosome_integer_to_string'',
     ''ga_chromosome_boolean_allocate'', ''ga_chromosome_boolean_deallocate'',
     ''ga_chromosome_boolean_replicate'', ''ga_chromosome_boolean_to_bytes'',
     ''ga_chromosome_boolean_from_bytes'', ''ga_chromosome_boolean_to_string'',
     ''ga_chromosome_double_allocate'', ''ga_chromosome_double_deallocate'',
     ''ga_chromosome_double_replicate'', ''ga_chromosome_double_to_bytes'',
     ''ga_chromosome_double_from_bytes'', ''ga_chromosome_double_to_string'',
     ''ga_chromosome_char_allocate'', ''ga_chromosome_char_deallocate'',
     ''ga_chromosome_char_replicate'', ''ga_chromosome_char_to_bytes'',
     ''ga_chromosome_char_from_bytes'', ''ga_chromosome_char_to_string'',
     ''ga_chromosome_bitstring_allocate'', ''ga_chromosome_bitstring_deallocate'',
     ''ga_chromosome_bitstring_replicate'', ''ga_chromosome_bitstring_to_bytes'',
     ''ga_chromosome_bitstring_from_bytes'', ''ga_chromosome_bitstring_to_string''
   ]"

text \<open>The static array \<open>lookup\<close>: a NULL entry, one entry for each function, a NULL entry.\<close>

definition lookup :: "(string option \<times> funcptr option) list" where
  "lookup = (None, None) # map (\<lambda>n. (Some n, Some (GAUL n))) lookup_names @ [(None, None)]"




definition ga_funclookup_id_to_ptr :: "int \<Rightarrow> error + funcptr option" where
  "ga_funclookup_id_to_ptr ident =
     (if ident < 0 then Inr None else bindE (load lookup ident) (\<lambda>entry. Inr (snd entry)))"

subsection \<open>Files\<close>

text \<open>
  The files that can be opened for reading, each with its bytes, and the names that can be
  opened for writing.  A stream that is read is the list of the bytes still to come.
\<close>

record filesystem =
  contents :: "string \<Rightarrow> string option"
  writable :: "string \<Rightarrow> bool"

definition NUL :: char where
  "NUL = CHR 0x00"

subsection \<open>Writing\<close>




definition format_str_002 :: string where
  "format_str_002 = ''FORMAT: GAUL POPULATION 002''"

definition format_str_001 :: string where
  "format_str_001 = ''FORMAT: GAUL POPULATION 001''"

text \<open>
  The 64 bytes of program info: the buffer is zeroed and \<open>snprintf(buffer, 64, "%s %s", ...)\<close>
  writes at most 63 characters.
\<close>

definition version_field :: "header \<Rightarrow> string" where
  "version_field h =
     (let s = take 63 (VERSION_STRING h @ '' '' @ BUILD_DATE_STRING h)
      in s @ replicate (64 - length s) NUL)"



section \<open>Reading a snapshot\<close>

text \<open>
  \<open>fread\<close> of \<open>n\<close> bytes from what is left of a stream.  Up to the trailer, every object
  that the readers fill this way is used afterwards, and it was either not initialised before
  or is followed by the read of one that was not (\<open>size\<close>, the \<open>id\<close> array, \<open>len\<close>, the
  chromosome buffer): a read that comes up short leaves an indeterminate value that is then
  used.  The result of \<open>fread\<close> is never looked at.
\<close>

definition fread :: "nat \<Rightarrow> string \<Rightarrow> error + string \<times> string" where
  "fread n s = (if n \<le> length s then Inr (take n s, drop n s) else Inl Undefined)"

definition read_int :: "header \<Rightarrow> string \<Rightarrow> error + int \<times> string" where
  "read_int h s = bindE (fread (sizeof_int h) s) (\<lambda>(b, s'). Inr (int_val h b, s'))"

definition read_uint :: "header \<Rightarrow> string \<Rightarrow> error + nat \<times> string" where
  "read_uint h s = bindE (fread (sizeof_int h) s) (\<lambda>(b, s'). Inr (uint_val h b, s'))"

definition read_double :: "header \<Rightarrow> string \<Rightarrow> error + real \<times> string" where
  "read_double h s = bindE (fread (sizeof_double h) s) (\<lambda>(b, s'). Inr (double_val h b, s'))"

text \<open>\<open>fread(id, sizeof(int), n, fp)\<close>: \<open>n\<close> ints, one after the other.\<close>

primrec read_ints :: "header \<Rightarrow> nat \<Rightarrow> string \<Rightarrow> error + int list \<times> string" where
  "read_ints h 0 s = Inr ([], s)"
| "read_ints h (Suc n) s =
     bindE (read_int h s) (\<lambda>(x, s').
     bindE (read_ints h n s') (\<lambda>(xs, s''). Inr (x # xs, s'')))"

text \<open>
  \<open>gaul_read_entity\<close>.  The buffer of \<open>len\<close> bytes comes from \<open>s_malloc\<close>, whose result is
  not checked, and \<open>pop->chromosome_from_bytes\<close> is called without a check either.  The
  entity that the function returns is not used by its callers.
\<close>

definition gaul_read_entity ::
  "header \<Rightarrow> 'c code \<Rightarrow> 'c population \<Rightarrow> string \<Rightarrow> (error + 'c population \<times> string) option" where
  "gaul_read_entity h cm pop s =
     (case ga_get_free_entity h cm pop of
        None \<Rightarrow> None
      | Some (Inl e) \<Rightarrow> Some (Inl e)
      | Some (Inr (entity, pop1)) \<Rightarrow>
          Some
            (bindE (read_double h s) (\<lambda>(fitness', s1).
             bindE (read_uint h s1) (\<lambda>(len, s2).
               if \<not> memory_for h len then Inl Undefined
               else
                 bindE (fread len s2) (\<lambda>(buffer, s3).
                   (case chromosome_from_bytes pop1 of
                      None \<Rightarrow> Inl Undefined
                    | Some f \<Rightarrow>
                        let pop2 = poke pop1 entity ((peek pop1 entity)\<lparr>fitness := fitness'\<rparr>);
                            pop3 = poke pop2 entity
                                     (call_from_bytes cm f pop2 (peek pop2 entity) buffer)
                        in Inr (pop3, s3)))))))"

text \<open>The loop \<open>for (i=0; i<size; i++) gaul_read_entity(fp, pop);\<close>, \<open>n\<close> rounds of it.\<close>

primrec read_entities ::
  "header \<Rightarrow> 'c code \<Rightarrow> nat \<Rightarrow> 'c population \<Rightarrow> string \<Rightarrow> (error + 'c population \<times> string) option" where
  "read_entities h cm 0 pop s = Some (Inr (pop, s))"
| "read_entities h cm (Suc n) pop s =
     (case gaul_read_entity h cm pop s of
        None \<Rightarrow> None
      | Some (Inl e) \<Rightarrow> Some (Inl e)
      | Some (Inr (pop1, s1)) \<Rightarrow> read_entities h cm n pop1 s1)"

text \<open>The eighteen assignments \<open>pop->... = ga_funclookup_id_to_ptr(id[i])\<close>.\<close>

definition set_hooks :: "'c population \<Rightarrow> int list \<Rightarrow> error + 'c population" where
  "set_hooks pop ids =
     bindE (bindE (load ids 0) ga_funclookup_id_to_ptr) (\<lambda>f0.
     bindE (bindE (load ids 1) ga_funclookup_id_to_ptr) (\<lambda>f1.
     bindE (bindE (load ids 2) ga_funclookup_id_to_ptr) (\<lambda>f2.
     bindE (bindE (load ids 3) ga_funclookup_id_to_ptr) (\<lambda>f3.
     bindE (bindE (load ids 4) ga_funclookup_id_to_ptr) (\<lambda>f4.
     bindE (bindE (load ids 5) ga_funclookup_id_to_ptr) (\<lambda>f5.
     bindE (bindE (load ids 6) ga_funclookup_id_to_ptr) (\<lambda>f6.
     bindE (bindE (load ids 7) ga_funclookup_id_to_ptr) (\<lambda>f7.
     bindE (bindE (load ids 8) ga_funclookup_id_to_ptr) (\<lambda>f8.
     bindE (bindE (load ids 9) ga_funclookup_id_to_ptr) (\<lambda>f9.
     bindE (bindE (load ids 10) ga_funclookup_id_to_ptr) (\<lambda>f10.
     bindE (bindE (load ids 11) ga_funclookup_id_to_ptr) (\<lambda>f11.
     bindE (bindE (load ids 12) ga_funclookup_id_to_ptr) (\<lambda>f12.
     bindE (bindE (load ids 13) ga_funclookup_id_to_ptr) (\<lambda>f13.
     bindE (bindE (load ids 14) ga_funclookup_id_to_ptr) (\<lambda>f14.
     bindE (bindE (load ids 15) ga_funclookup_id_to_ptr) (\<lambda>f15.
     bindE (bindE (load ids 16) ga_funclookup_id_to_ptr) (\<lambda>f16.
     bindE (bindE (load ids 17) ga_funclookup_id_to_ptr) (\<lambda>f17.
       Inr (pop\<lparr>generation_hook := f0,
                iteration_hook := f1,
                data_destructor := f2,
                data_ref_incrementor := f3,
                chromosome_constructor := f4,
                chromosome_destructor := f5,
                chromosome_replicate := f6,
                chromosome_to_bytes := f7,
                chromosome_from_bytes := f8,
                chromosome_to_string := f9,
                evaluate := f10,
                seed := f11,
                adapt := f12,
                select_one := f13,
                select_two := f14,
                mutate := f15,
                crossover := f16,
                replace := f17\<rparr>)))))))))))))))))))"

text \<open>
  The footer: \<open>fread(buffer, sizeof(char), 4, fp); strcmp("END", buffer)\<close>.  \<open>buffer\<close> is the
  array that took the 64 bytes of program info before; the bytes that a short read does not
  reach are still those.
\<close>

definition trailer_matches :: "string \<Rightarrow> string \<Rightarrow> bool" where
  "trailer_matches buffer s =
     (let got = take 4 s in take 4 (got @ drop (length got) buffer) = ''END'' @ [NUL])"

text \<open>
  The two readers, each in two parts: the body, from the program info up to the last entity,
  and the function, which opens the file, compares the format tag, runs the body and compares
  the footer.  The body gives the population, the world, \<open>buffer\<close> and what is left of the
  stream, so that the state in which the function dies on a bad footer can be spoken of.
  \<open>strcmp\<close> of the tag with the bytes read into a zeroed array is 0 when the file starts with
  the tag.  \<open>ga_population_new\<close> never returns NULL: the check after it cannot fail.
\<close>

definition ga_population_read_001_body ::
  "header \<Rightarrow> 'c code \<Rightarrow> 'c world \<Rightarrow> string
     \<Rightarrow> (error + pptr \<times> 'c world \<times> string \<times> string) option" where
  "ga_population_read_001_body h cm w s0 =
     (case
        bindE (fread 64 s0) (\<lambda>(buffer, s1).
        bindE (read_int h s1) (\<lambda>(size', s2).
        bindE (read_int h s2) (\<lambda>(stable_size', s3).
        bindE (read_int h s3) (\<lambda>(num_chromosomes', s4).
        bindE (read_int h s4) (\<lambda>(len_chromosomes', s5).
        bindE (ga_population_new h w stable_size' num_chromosomes' len_chromosomes') (\<lambda>(p, w1).
        bindE (case map_of (pop_heap w1) p of None \<Rightarrow> Inl Undefined | Some pop \<Rightarrow> Inr pop) (\<lambda>pop.
        bindE (read_double h s5) (\<lambda>(crossover_ratio', s6).
        bindE (read_double h s6) (\<lambda>(mutation_ratio', s7).
        bindE (read_double h s7) (\<lambda>(migration_ratio', s8).
        bindE (read_int h s8) (\<lambda>(scheme', s9).
        bindE (read_int h s9) (\<lambda>(elitism', s10).
        bindE (read_ints h 18 s10) (\<lambda>(ids, s12).
        bindE (set_hooks (pop\<lparr>crossover_ratio := crossover_ratio',
                               mutation_ratio := mutation_ratio',
                               migration_ratio := migration_ratio',
                               scheme := scheme',
                               elitism := elitism'\<rparr>) ids) (\<lambda>pop1.
          Inr (buffer, size', p, w1, pop1, s12)))))))))))))))
      of
        Inl e \<Rightarrow> Some (Inl e)
      | Inr (buffer, size', p, w1, pop1, s12) \<Rightarrow>
          (case read_entities h cm (nat size') pop1 s12 of
             None \<Rightarrow> None
           | Some (Inl e) \<Rightarrow> Some (Inl e)
           | Some (Inr (pop2, rest)) \<Rightarrow>
               Some (Inr (p, w1\<lparr>pop_heap := (p, pop2) # pop_heap w1\<rparr>, buffer, rest))))"

definition ga_population_read_001 ::
  "header \<Rightarrow> 'c code \<Rightarrow> filesystem \<Rightarrow> 'c world \<Rightarrow> string option
     \<Rightarrow> (error + pptr option \<times> 'c world) option" where
  "ga_population_read_001 h cm fs w fname =
     (case fname of
        None \<Rightarrow> Some (Inl (Die ''Null pointer to filename passed.''))
      | Some name \<Rightarrow>
          (case contents fs name of
             None \<Rightarrow> Some (Inl (Die (''Unable to open population file '' @ [CHR 0x22] @ name
                                      @ [CHR 0x22] @ '' for input.'')))
           | Some bytes \<Rightarrow>
               if take (length format_str_001) bytes \<noteq> format_str_001
               then Some (Inl (Die ''Incompatible format for population file.''))
               else
                 (case ga_population_read_001_body h cm w (drop (length format_str_001) bytes) of
                    None \<Rightarrow> None
                  | Some (Inl e) \<Rightarrow> Some (Inl e)
                  | Some (Inr (p, w', buffer, rest)) \<Rightarrow>
                      if \<not> trailer_matches buffer rest
                      then Some (Inl (Die ''Corrupt population file?''))
                      else Some (Inr (Some p, w')))))"

definition ga_population_read_body ::
  "header \<Rightarrow> 'c code \<Rightarrow> 'c world \<Rightarrow> string
     \<Rightarrow> (error + pptr \<times> 'c world \<times> string \<times> string) option" where
  "ga_population_read_body h cm w s0 =
     (case
        bindE (fread 64 s0) (\<lambda>(buffer, s1).
        bindE (read_int h s1) (\<lambda>(size', s2).
        bindE (read_int h s2) (\<lambda>(stable_size', s3).
        bindE (read_int h s3) (\<lambda>(num_chromosomes', s4).
        bindE (read_int h s4) (\<lambda>(len_chromosomes', s5).
        bindE (ga_population_new h w stable_size' num_chromosomes' len_chromosomes') (\<lambda>(p, w1).
        bindE (case map_of (pop_heap w1) p of None \<Rightarrow> Inl Undefined | Some pop \<Rightarrow> Inr pop) (\<lambda>pop.
        bindE (read_double h s5) (\<lambda>(crossover_ratio', s6).
        bindE (read_double h s6) (\<lambda>(mutation_ratio', s7).
        bindE (read_double h s7) (\<lambda>(migration_ratio', s8).
        bindE (read_int h s8) (\<lambda>(scheme', s9).
        bindE (read_int h s9) (\<lambda>(elitism', s10).
        bindE (read_int h s10) (\<lambda>(island', s11).
        bindE (read_ints h 18 s11) (\<lambda>(ids, s12).
        bindE (set_hooks (pop\<lparr>crossover_ratio := crossover_ratio',
                               mutation_ratio := mutation_ratio',
                               migration_ratio := migration_ratio',
                               scheme := scheme',
                               elitism := elitism',
                               island := island'\<rparr>) ids) (\<lambda>pop1.
          Inr (buffer, size', p, w1, pop1, s12))))))))))))))))
      of
        Inl e \<Rightarrow> Some (Inl e)
      | Inr (buffer, size', p, w1, pop1, s12) \<Rightarrow>
          (case read_entities h cm (nat size') pop1 s12 of
             None \<Rightarrow> None
           | Some (Inl e) \<Rightarrow> Some (Inl e)
           | Some (Inr (pop2, rest)) \<Rightarrow>
               Some (Inr (p, w1\<lparr>pop_heap := (p, pop2) # pop_heap w1\<rparr>, buffer, rest))))"

definition ga_population_read ::
  "header \<Rightarrow> 'c code \<Rightarrow> filesystem \<Rightarrow> 'c world \<Rightarrow> string option
     \<Rightarrow> (error + pptr option \<times> 'c world) option" where
  "ga_population_read h cm fs w fname =
     (case fname of
        None \<Rightarrow> Some (Inl (Die ''Null pointer to filename passed.''))
      | Some name \<Rightarrow>
          (case contents fs name of
             None \<Rightarrow> Some (Inl (Die (''Unable to open population file '' @ [CHR 0x22] @ name
                                      @ [CHR 0x22] @ '' for input.'')))
           | Some bytes \<Rightarrow>
               if take (length format_str_002) bytes \<noteq> format_str_002
               then ga_population_read_001 h cm fs w fname
               else
                 (case ga_population_read_body h cm w (drop (length format_str_002) bytes) of
                    None \<Rightarrow> None
                  | Some (Inl e) \<Rightarrow> Some (Inl e)
                  | Some (Inr (p, w', buffer, rest)) \<Rightarrow>
                      if \<not> trailer_matches buffer rest
                      then Some (Inl (Die ''Corrupt population file?''))
                      else Some (Inr (Some p, w')))))"

section \<open>The invariant of the pool and the scan, as the spec words them\<close>

text \<open>
  The size/rank invariant of the spec: the id index has exactly \<open>size\<close> cells that are not
  NULL; the cells \<open>0..size-1\<close> of the rank index hold those entities, each of them once and
  with no NULL between them; the cells of the rank index from \<open>size\<close> on are NULL.  With it
  go the facts about the memory that C takes for granted: both arrays have \<open>max_size\<close> cells
  and every pointer in the id index is an atom of the population's chunk that is in use.
\<close>

definition live_slots :: "'c population \<Rightarrow> eptr option list" where
  "live_slots pop = filter (\<lambda>x. x \<noteq> None) (entity_array pop)"

definition ranked :: "'c population \<Rightarrow> eptr option list" where
  "ranked pop = take (nat (size_pop pop)) (entity_iarray pop)"

definition pool_inv :: "'c population \<Rightarrow> bool" where
  "pool_inv pop \<longleftrightarrow>
     0 \<le> size_pop pop \<and> size_pop pop \<le> max_size pop \<and> max_size pop \<le> INT_MAX
     \<and> length (entity_array pop) = nat (max_size pop)
     \<and> length (entity_iarray pop) = nat (max_size pop)
     \<and> length (live_slots pop) = nat (size_pop pop)
     \<and> None \<notin> set (ranked pop)
     \<and> distinct (ranked pop)
     \<and> set (ranked pop) = set (live_slots pop)
     \<and> (\<forall>x \<in> set (drop (nat (size_pop pop)) (entity_iarray pop)). x = None)
     \<and> (\<forall>e. Some e \<in> set (entity_array pop) \<longrightarrow> e \<in> set (atoms (entity_chunk pop)))"

text \<open>
  The scan of the spec, "backwards from the cursor, wrapping, to find an empty slot":
  \<open>scan_down arr n\<close> is the first empty cell met going down from \<open>n\<close> to 0, and
  \<open>scan_wrapping\<close> goes on from the last cell when there is none.
\<close>

primrec scan_down :: "eptr option list \<Rightarrow> nat \<Rightarrow> nat option" where
  "scan_down arr 0 = (if arr ! 0 = None then Some 0 else None)"
| "scan_down arr (Suc n) = (if arr ! Suc n = None then Some (Suc n) else scan_down arr n)"

definition scan_wrapping :: "eptr option list \<Rightarrow> nat \<Rightarrow> nat option" where
  "scan_wrapping arr cursor =
     (case scan_down arr cursor of
        Some k \<Rightarrow> Some k
      | None \<Rightarrow> scan_down arr (length arr - 1))"

text \<open>
  The snapshot of the spec.  The record of the entity at rank \<open>k\<close>: its fitness, the length
  \<open>L\<close> of its buffer, and the \<open>L\<close> bytes that \<open>chromosome_to_bytes\<close> produced.  And the whole
  file: the magic, the version field, the four counts, the three rates, scheme, elitism and
  island, the callback identifiers, the records in rank order, and the trailer.
\<close>

definition snapshot_record :: "header \<Rightarrow> 'c code \<Rightarrow> 'c population \<Rightarrow> funcptr \<Rightarrow> nat \<Rightarrow> string" where
  "snapshot_record h cm pop f k =
     (let e = the (entity_iarray pop ! k);
          buffer = call_to_bytes cm f pop (peek pop e)
      in double_rep h (fitness (peek pop e)) @ uint_rep h (length buffer) @ buffer)"

definition snapshot :: "header \<Rightarrow> 'c code \<Rightarrow> 'c population \<Rightarrow> funcptr \<Rightarrow> int list \<Rightarrow> string" where
  "snapshot h cm pop f ids =
     ''FORMAT: GAUL POPULATION 002''
     @ version_field h
     @ int_rep h (size_pop pop) @ int_rep h (stable_size pop)
     @ int_rep h (num_chromosomes pop) @ int_rep h (len_chromosomes pop)
     @ double_rep h (crossover_ratio pop) @ double_rep h (mutation_ratio pop)
     @ double_rep h (migration_ratio pop)
     @ int_rep h (scheme pop) @ int_rep h (elitism pop) @ int_rep h (island pop)
     @ concat (map (int_rep h) ids)
     @ concat (map (snapshot_record h cm pop f) [0..<nat (size_pop pop)])
     @ ''END'' @ [NUL]"

section \<open>Example values\<close>

definition le_bytes :: "nat \<Rightarrow> nat \<Rightarrow> string" where
  "le_bytes n x = map (\<lambda>k. char_of (x div 256 ^ k)) [0..<n]"

definition le_val :: "string \<Rightarrow> nat" where
  "le_val s = foldr (\<lambda>c v. of_char c + 256 * v) s 0"

definition example_header :: header where
  "example_header =
     \<lparr>VERSION_STRING = ''0.1842-0'',
      BUILD_DATE_STRING = ''01/07/03'',
      GA_MIN_FITNESS = - 1000000,
      GA_SCHEME_DARWIN = 0,
      GA_ELITISM_UNKNOWN = 0,
      TABLE_ERROR_INDEX = 4294967295,
      int_rep = (\<lambda>x. le_bytes 4 (nat (x mod 4294967296))),
      int_val = (\<lambda>s. let v = int (le_val s) in if v < 2147483648 then v else v - 4294967296),
      uint_rep = le_bytes 4,
      uint_val = le_val,
      double_rep = (\<lambda>x. le_bytes 8 (nat (\<lfloor>x\<rfloor> mod 18446744073709551616))),
      double_val = (\<lambda>s. let v = int (le_val s)
                          in real_of_int (if v < 9223372036854775808 then v
                                          else v - 18446744073709551616)),
      sizeof_int = 4,
      sizeof_double = 8,
      SIZE_MAX = 18446744073709551615,
      sizeof_population = 400,
      sizeof_entity_ptr = 8,
      memory_for = (\<lambda>n. n \<le> 4294967296)\<rparr>"

definition example_population :: "int list list population" where
  "example_population =
     \<lparr>size_pop = 0,
      stable_size = 1,
      max_size = 4,
      orig_size = 0,
      num_chromosomes = 1,
      len_chromosomes = 4,
      data_pop = None,
      free_index = 3,
      island = - 1,
      generation = 0,
      crossover_ratio = 1,
      mutation_ratio = 1,
      migration_ratio = 1,
      scheme = 0,
      elitism = 0,
      entity_array = [None, None, None, None],
      entity_iarray = [None, None, None, None],
      entity_chunk = mem_chunk_new,
      tabu_params = None,
      sa_params = None,
      climbing_params = None,
      simplex_params = None,
      gradient_params = None,
      search_params = None,
      generation_hook = None,
      iteration_hook = None,
      data_destructor = None,
      data_ref_incrementor = None,
      chromosome_constructor = Some (GAUL ''ga_chromosome_integer_allocate''),
      chromosome_destructor = Some (GAUL ''ga_chromosome_integer_deallocate''),
      chromosome_replicate = Some (GAUL ''ga_chromosome_integer_replicate''),
      chromosome_to_bytes = Some (GAUL ''ga_chromosome_integer_to_bytes''),
      chromosome_from_bytes = Some (GAUL ''ga_chromosome_integer_from_bytes''),
      chromosome_to_string = None,
      evaluate = Some (User 0),
      seed = Some (User 1),
      adapt = None,
      select_one = None,
      select_two = None,
      mutate = None,
      crossover = None,
      replace = None\<rparr>"

text \<open>
  Callbacks for the examples: integer chromosomes, a fitness that adds the alleles up, and a
  seed function that fills in zeros and reports failure.
\<close>

definition example_code :: "int list list code" where
  "example_code =
     \<lparr>call_constructor = (\<lambda>f pop e.
        e\<lparr>chromosome := Some (replicate (nat (num_chromosomes pop))
                               (replicate (nat (len_chromosomes pop)) 0))\<rparr>),
      call_destructor = (\<lambda>f pop e. e\<lparr>chromosome := None\<rparr>),
      call_replicate = (\<lambda>f pop src dest i.
        dest\<lparr>chromosome :=
          (case (chromosome dest, chromosome src) of
             (Some d, Some s) \<Rightarrow> Some (d[nat i := s ! nat i])
           | _ \<Rightarrow> chromosome dest)\<rparr>),
      call_to_bytes = (\<lambda>f pop e.
        (case chromosome e of
           None \<Rightarrow> []
         | Some cs \<Rightarrow> concat (map (\<lambda>c. concat (map (int_rep example_header) c)) cs))),
      call_from_bytes = (\<lambda>f pop e bytes.
        e\<lparr>chromosome := Some [map (\<lambda>k. int_val example_header (take 4 (drop (4 * k) bytes)))
                                [0..<nat (len_chromosomes pop)]]\<rparr>),
      call_evaluate = (\<lambda>f pop e.
        e\<lparr>fitness := (case chromosome e of
                         None \<Rightarrow> 0
                       | Some cs \<Rightarrow> real_of_int (sum_list (concat cs)))\<rparr>),
      call_seed = (\<lambda>f pop e. (False, e))\<rparr>"

definition callback_slots :: "'c population \<Rightarrow> funcptr option list" where
  "callback_slots pop =
     [generation_hook pop, iteration_hook pop, data_destructor pop, data_ref_incrementor pop,
      chromosome_constructor pop, chromosome_destructor pop, chromosome_replicate pop,
      chromosome_to_bytes pop, chromosome_from_bytes pop, chromosome_to_string pop,
      evaluate pop, seed pop, adapt pop, select_one pop, select_two pop, mutate pop,
      crossover pop, replace pop]"

definition empty_world :: "'c world" where
  "empty_world = \<lparr>pop_table = None, pop_heap = []\<rparr>"

text \<open>The example population with one entity in it, and with three.\<close>

definition example_pool1 :: "int list list population" where
  "example_pool1 =
     example_population
       \<lparr>size_pop := 1,
        entity_array := [None, None, None, Some 0],
        entity_iarray := [Some 0, None, None, None],
        entity_chunk :=
          \<lparr>atoms = [0],
           cell = (cell mem_chunk_new)(0 := \<lparr>fitness = - 1000000, chromosome = Some [[0, 0, 0, 0]],
                                              data = []\<rparr>)\<rparr>\<rparr>"

definition example_pool3 :: "int list list population" where
  "example_pool3 =
     example_population
       \<lparr>size_pop := 3,
        free_index := 1,
        entity_array := [None, Some 2, Some 1, Some 0],
        entity_iarray := [Some 0, Some 1, Some 2, None],
        entity_chunk :=
          \<lparr>atoms = [2, 1, 0],
           cell = (cell mem_chunk_new)
             (0 := \<lparr>fitness = - 1000000, chromosome = Some [[0, 0, 0, 0]], data = []\<rparr>,
              1 := \<lparr>fitness = - 1000000, chromosome = Some [[0, 0, 0, 0]], data = []\<rparr>,
              2 := \<lparr>fitness = - 1000000, chromosome = Some [[0, 0, 0, 0]], data = []\<rparr>)\<rparr>\<rparr>"

text \<open>
  A block as \<open>s_malloc\<close> may hand it out for a population structure: it holds what was
  there before.  And the world after the older \<open>ga_population_new\<close> has been given that
  block in the empty world, for a stable size of 1.
\<close>

definition example_block :: "int list list population" where
  "example_block = example_pool3\<lparr>island := 7, generation := 3, scheme := 2, elitism := 5\<rparr>"

definition example_older_pop :: "int list list population" where
  "example_older_pop =
     example_block
       \<lparr>size_pop := 0,
        stable_size := 1,
        max_size := 4,
        orig_size := 0,
        num_chromosomes := 1,
        len_chromosomes := 4,
        data_pop := None,
        free_index := 3,
        crossover_ratio := 1,
        mutation_ratio := 1,
        migration_ratio := 1,
        entity_array := [None, None, None, None],
        entity_iarray := [None, None, None, None],
        entity_chunk := mem_chunk_new,
        generation_hook := None,
        iteration_hook := None,
        data_destructor := None,
        data_ref_incrementor := None,
        chromosome_constructor := None,
        chromosome_destructor := None,
        chromosome_replicate := None,
        chromosome_to_bytes := None,
        chromosome_from_bytes := None,
        chromosome_to_string := None,
        evaluate := None,
        seed := None,
        adapt := None,
        select_one := None,
        select_two := None,
        mutate := None,
        crossover := None,
        replace := None\<rparr>"

definition example_older_world :: "int list list world" where
  "example_older_world = \<lparr>pop_table = Some [Some 0], pop_heap = [(0, example_older_pop)]\<rparr>"

text \<open>
  A pool with every slot taken, and the part of a result of \<open>ga_get_free_entity\<close> that the
  examples look at: the entity, \<open>max_size\<close>, \<open>size\<close> and the two arrays.
\<close>

definition example_pool_full :: "int list list population" where
  "example_pool_full =
     example_pool1\<lparr>max_size := 1, free_index := 0,
                    entity_array := [Some 0], entity_iarray := [Some 0]\<rparr>"

definition shape_of_result ::
  "(error + eptr \<times> 'c population) option
   \<Rightarrow> (error + eptr \<times> int \<times> int \<times> eptr option list \<times> eptr option list) option" where
  "shape_of_result r =
     map_option (map_sum id (\<lambda>(e, p). (e, max_size p, size_pop p, entity_array p, entity_iarray p))) r"



text \<open>
  The snapshot of the pool with one entity, as \<open>ga_population_write\<close> writes it, a snapshot
  of the empty pool with no callback, the same in the older format, and five files: the first
  snapshot, the second and the third, each also with its last byte changed, and a file that
  is no snapshot.
\<close>

definition example_file :: string where
  "example_file =
     snapshot example_header example_code example_pool1 (GAUL ''ga_chromosome_integer_to_bytes'')
       [0, 0, 0, 0, 57, 58, 59, 60, 61, 62, - 1, - 1, 0, 0, 0, 0, 0, 0]"

definition example_file0 :: string where
  "example_file0 =
     snapshot example_header example_code example_population
       (GAUL ''ga_chromosome_integer_to_bytes'')
       [0, 0, 0, 0, 0, 0, 0, 0, 0, 0, 0, 0, 0, 0, 0, 0, 0, 0]"

definition example_info :: string where
  "example_info =
     version_field example_header
     @ int_rep example_header 0 @ int_rep example_header 1
     @ int_rep example_header 1 @ int_rep example_header 4
     @ double_rep example_header 1 @ double_rep example_header 1 @ double_rep example_header 1
     @ int_rep example_header 0 @ int_rep example_header 0"

definition example_ids0 :: string where
  "example_ids0 =
     concat (map (int_rep example_header) [0, 0, 0, 0, 0, 0, 0, 0, 0, 0, 0, 0, 0, 0, 0, 0, 0, 0])"

definition example_old_file0 :: string where
  "example_old_file0 = format_str_001 @ example_info @ example_ids0 @ ''END'' @ [NUL]"

definition example_files :: filesystem where
  "example_files =
     \<lparr>contents = [''pop.dat'' \<mapsto> example_file,
                  ''cut.dat'' \<mapsto> butlast example_file0 @ ''X'',
                  ''old.dat'' \<mapsto> example_old_file0,
                  ''oldcut.dat'' \<mapsto> butlast example_old_file0 @ ''X'',
                  ''junk.dat'' \<mapsto> ''hello''],
      writable = (\<lambda>n. False)\<rparr>"

text \<open>
  What the examples look at in a result: the message of a \<open>die\<close>; and, for the body of a
  reader, the population, what identifier 0 of the table is bound to, and whether the footer
  matches.
\<close>

definition died_with :: "(error + 'a) option \<Rightarrow> string \<Rightarrow> bool" where
  "died_with r m = (case r of Some (Inl (Die m')) \<Rightarrow> m' = m | _ \<Rightarrow> False)"

definition body_population ::
  "(error + pptr \<times> 'c world \<times> string \<times> string) option \<Rightarrow> pptr option \<times> pptr option \<times> bool" where
  "body_population r =
     (case r of
        Some (Inr (p, w', buffer, rest)) \<Rightarrow>
          (Some p, ga_get_population_from_id w' 0, trailer_matches buffer rest)
      | _ \<Rightarrow> (None, None, False))"

section \<open>Properties of the population table and of new populations\<close>

lemma wipe_entity_arrays_eq:
  "0 \<le> i \<Longrightarrow> i \<le> hi \<Longrightarrow> length arr = nat hi \<Longrightarrow> length iarr = nat hi \<Longrightarrow>
   wipe_entity_arrays i hi arr iarr =
     Inr (take (nat i) arr @ replicate (nat (hi - i)) None,
          take (nat i) iarr @ replicate (nat (hi - i)) None)"
proof (induction i hi arr iarr rule: wipe_entity_arrays.induct)
  case (1 i hi arr iarr)
  show ?case
  proof (cases "i < hi")
    case True
    have s1: "store arr i None = Inr (arr[nat i := None])"
      using True 1(2,4) by (simp add: store_def)
    have s2: "store iarr i None = Inr (iarr[nat i := None])"
      using True 1(2,5) by (simp add: store_def)
    have ih: "wipe_entity_arrays (i + 1) hi (arr[nat i := None]) (iarr[nat i := None]) =
       Inr (take (nat (i + 1)) (arr[nat i := None]) @ replicate (nat (hi - (i + 1))) None,
            take (nat (i + 1)) (iarr[nat i := None]) @ replicate (nat (hi - (i + 1))) None)"
      using "1.IH"[OF True s1 s2] True 1(2,4,5) by simp
    have n: "nat (i + 1) = Suc (nat i)" "nat (hi - i) = Suc (nat (hi - (i + 1)))"
      using True 1(2) by auto
    have lt: "nat i < length arr" "nat i < length iarr"
      using True 1(2,4,5) by auto
    have t: "\<And>xs :: eptr option list. nat i < length xs \<Longrightarrow>
        take (Suc (nat i)) (xs[nat i := None]) = take (nat i) xs @ [None]"
      by (simp add: take_Suc_conv_app_nth)
    show ?thesis
      by (subst wipe_entity_arrays.simps) (simp add: True s1 s2 ih n t lt replicate_app_Cons_same del: wipe_entity_arrays.simps)
  next
    case False
    then have "i = hi" using 1(3) by simp
    then show ?thesis using 1 by (subst wipe_entity_arrays.simps) simp
  qed
qed

lemma wipe_fresh:
  "0 \<le> n \<Longrightarrow> wipe_entity_arrays 0 n (s_malloc (nat n)) (s_malloc (nat n)) =
     Inr (replicate (nat n) None, replicate (nat n) None)"
  using wipe_entity_arrays_eq[of 0 n "s_malloc (nat n)" "s_malloc (nat n)"]
  by (simp add: s_malloc_def)

lemma fresh_atom_gt: "a \<in> set as \<Longrightarrow> a < fresh_atom as"
  by (induction as) auto

lemma fresh_atom_notin: "fresh_atom as \<notin> set as"
  using fresh_atom_gt by blast

lemma table_first_unused_le: "table_first_unused t \<le> length t"
  by (induction t) auto

lemma table_first_unused_None:
  "table_first_unused t < length t \<Longrightarrow> t ! table_first_unused t = None"
  by (induction t) auto

lemma table_add_get_new:
  "table_add t d = (i, t') \<Longrightarrow> table_get_data t' i = Some d"
  using table_first_unused_le[of t]
  by (auto simp: table_add_def table_get_data_def Let_def nth_append split: if_splits)

lemma table_add_fresh:
  "table_add t d = (i, t') \<Longrightarrow> table_get_data t i = None"
  using table_first_unused_None[of t]
  by (auto simp: table_add_def table_get_data_def Let_def)

lemma table_add_get_old:
  "table_add t d = (i, t') \<Longrightarrow> k \<noteq> i \<Longrightarrow> table_get_data t' k = table_get_data t k"
  using table_first_unused_le[of t]
  by (auto simp: table_add_def table_get_data_def Let_def nth_append split: if_splits)

lemma pop_table_add_new:
  "pop_table_add w p = (i, w') \<Longrightarrow> ga_get_population_from_id w' i = Some p"
  by (auto simp: pop_table_add_def ga_get_population_from_id_def Let_def
        split: prod.splits option.splits dest: table_add_get_new)

lemma pop_table_add_old:
  assumes "ga_get_population_from_id w i = Some p" "pop_table_add w q = (j, w')"
  shows "j \<noteq> i \<and> ga_get_population_from_id w' i = Some p"
proof -
  obtain t where t: "pop_table w = Some t" "table_get_data t i = Some p"
    using assms(1) by (auto simp: ga_get_population_from_id_def split: option.splits)
  obtain t' where t': "table_add t q = (j, t')" "pop_table w' = Some t'"
    using assms(2) t(1) by (auto simp: pop_table_add_def Let_def split: prod.splits)
  have "j \<noteq> i" using table_add_fresh[OF t'(1)] t(2) by auto
  moreover have "table_get_data t' i = Some p"
    using table_add_get_old[OF t'(1), of i] \<open>j \<noteq> i\<close> t(2) by simp
  ultimately show ?thesis using t'(2) by (simp add: ga_get_population_from_id_def)
qed

lemma pop_table_add_heap: "pop_table_add w p = (i, w') \<Longrightarrow> pop_heap w' = pop_heap w"
  by (auto simp: pop_table_add_def Let_def split: prod.splits)

lemma ga_population_new_Inr:
  assumes "ga_population_new h w ss nc lc = Inr (p, w')"
  shows "0 \<le> ss \<and> ss * 4 \<le> INT_MAX \<and> p = fresh_atom (map fst (pop_heap w))
     \<and> (\<exists>i. pop_table_add (w\<lparr>pop_heap := (p,
                 \<lparr>size_pop = 0,
                  stable_size = ss,
                  max_size = ss * 4,
                  orig_size = 0,
                  num_chromosomes = nc,
                  len_chromosomes = lc,
                  data_pop = None,
                  free_index = ss * 4 - 1,
                  island = - 1,
                  generation = 0,
                  crossover_ratio = 1,
                  mutation_ratio = 1,
                  migration_ratio = 1,
                  scheme = GA_SCHEME_DARWIN h,
                  elitism = GA_ELITISM_UNKNOWN h,
                  entity_array = replicate (nat (ss * 4)) None,
                  entity_iarray = replicate (nat (ss * 4)) None,
                  entity_chunk = mem_chunk_new,
                  tabu_params = None,
                  sa_params = None,
                  climbing_params = None,
                  simplex_params = None,
                  gradient_params = None,
                  search_params = None,
                  generation_hook = None,
                  iteration_hook = None,
                  data_destructor = None,
                  data_ref_incrementor = None,
                  chromosome_constructor = None,
                  chromosome_destructor = None,
                  chromosome_replicate = None,
                  chromosome_to_bytes = None,
                  chromosome_from_bytes = None,
                  chromosome_to_string = None,
                  evaluate = None,
                  seed = None,
                  adapt = None,
                  select_one = None,
                  select_two = None,
                  mutate = None,
                  crossover = None,
                  replace = None\<rparr>) # pop_heap w\<rparr>) p = (i, w'))"
proof -
  from assms have r: "INT_MIN \<le> ss * 4" "ss * 4 \<le> INT_MAX"
    by (auto simp: ga_population_new_def bindE_def c_int_def split: if_splits)
  from assms r have nn: "0 \<le> ss * 4"
    by (auto simp: ga_population_new_def bindE_def c_int_def split: if_splits)
  show ?thesis
    using assms r nn wipe_fresh[OF nn]
    by (auto simp: ga_population_new_def bindE_def c_int_def Let_def split: if_splits prod.splits)
qed

lemma ga_population_new_older_Inr:
  assumes "ga_population_new_older h block w ss nc lc = Inr (p, w')"
  shows "0 \<le> ss \<and> ss * 4 \<le> INT_MAX \<and> p = fresh_atom (map fst (pop_heap w))
     \<and> (\<exists>i. pop_table_add (w\<lparr>pop_heap := (p,
                 block
                 \<lparr>size_pop := 0,
                  stable_size := ss,
                  max_size := ss * 4,
                  orig_size := 0,
                  num_chromosomes := nc,
                  len_chromosomes := lc,
                  data_pop := None,
                  free_index := ss * 4 - 1,
                  crossover_ratio := 1,
                  mutation_ratio := 1,
                  migration_ratio := 1,
                  entity_array := replicate (nat (ss * 4)) None,
                  entity_iarray := replicate (nat (ss * 4)) None,
                  entity_chunk := mem_chunk_new,
                  generation_hook := None,
                  iteration_hook := None,
                  data_destructor := None,
                  data_ref_incrementor := None,
                  chromosome_constructor := None,
                  chromosome_destructor := None,
                  chromosome_replicate := None,
                  chromosome_to_bytes := None,
                  chromosome_from_bytes := None,
                  chromosome_to_string := None,
                  evaluate := None,
                  seed := None,
                  adapt := None,
                  select_one := None,
                  select_two := None,
                  mutate := None,
                  crossover := None,
                  replace := None\<rparr>) # pop_heap w\<rparr>) p = (i, w'))"
proof -
  from assms have r: "INT_MIN \<le> ss * 4" "ss * 4 \<le> INT_MAX"
    by (auto simp: ga_population_new_older_def bindE_def c_int_def split: if_splits)
  from assms r have nn: "0 \<le> ss * 4"
    by (auto simp: ga_population_new_older_def bindE_def c_int_def split: if_splits)
  show ?thesis
    using assms r nn wipe_fresh[OF nn]
    by (auto simp: ga_population_new_older_def bindE_def c_int_def Let_def split: if_splits prod.splits)
qed

lemma example_header_memory [simp]:
  "memory_for example_header n \<longleftrightarrow> n \<le> 4294967296"
  "SIZE_MAX example_header = 18446744073709551615"
  "sizeof_entity_ptr example_header = 8"
  "sizeof_population example_header = 400"
  by (simp_all add: example_header_def)

lemma example_cells:
  assumes "0 \<le> n" "n \<le> 1000"
  shows "memory_for example_header (cells_request example_header n)"
    "cells_fit example_header n"
  using assms by (simp_all add: cells_request_def cells_fit_def)

lemma ga_population_new_total:
  assumes "memory_for h (sizeof_population h)" "0 \<le> ss" "ss * 4 \<le> INT_MAX"
    "memory_for h (cells_request h (ss * 4))" "cells_fit h (ss * 4)"
  shows "\<exists>p w'. ga_population_new h w ss nc lc = Inr (p, w')"
proof -
  have nn: "0 \<le> ss * 4" using assms by simp
  have "INT_MIN \<le> ss * 4 - 1" "ss * 4 - 1 \<le> INT_MAX" "INT_MIN \<le> ss * 4"
    using assms by (auto simp: INT_MIN_def INT_MAX_def)
  then show ?thesis
    using assms wipe_fresh[OF nn]
    by (auto simp: ga_population_new_def bindE_def c_int_def Let_def split: prod.splits)
qed

lemma example_older_new:
  "ga_population_new_older example_header example_block (empty_world :: int list list world) 1 1 4
     = Inr (0, example_older_world)"
proof -
  have w: "wipe_entity_arrays 0 4 (s_malloc (nat 4)) (s_malloc (nat 4))
      = Inr ([None, None, None, None], [None, None, None, None])"
    using wipe_fresh[of 4] by (simp add: numeral_eq_Suc)
  show ?thesis
    using w example_cells[of 4]
    by (simp add: ga_population_new_older_def bindE_def c_int_def INT_MAX_def INT_MIN_def
        pop_table_add_def empty_world_def table_new_def table_add_def
        example_older_world_def example_older_pop_def)
qed

lemma ga_population_new_no_memory:
  assumes "\<not> memory_for h (sizeof_population h)"
  shows "ga_population_new h w ss nc lc = Inl (Die ''Unable to allocate memory'')"
  using assms by (simp add: ga_population_new_def)

text \<open>
  C2.  The population that \<open>ga_population_new\<close> of the newer \<open>ga_core.c\<close> returns has size 0,
  the stable size and the chromosome counts it was given, \<open>max_size = 4 * stable_size\<close>, the
  three ratios 1.0, scheme Darwin, elitism unknown, generation 0, island -1, every cell of
  both entity arrays NULL and every callback slot NULL, and it is in the population table.
  The function returns when the host grants the structure and the two arrays, for a stable
  size from 0 up to a quarter of \<open>INT_MAX\<close>, and it dies when the host does not grant the
  structure.  The population that the older copy returns has the same sizes, counts, ratios,
  arrays and callback slots and is in the table too, but its scheme, elitism, generation and
  island are what the block held before.
\<close>

theorem ga_population_new_initial:
  "(memory_for h (sizeof_population h) \<and> 0 \<le> ss \<and> ss * 4 \<le> INT_MAX
      \<and> memory_for h (cells_request h (ss * 4)) \<and> cells_fit h (ss * 4) \<longrightarrow>
      (\<exists>p w'. ga_population_new h w ss nc lc = Inr (p, w'))) \<and>
   (\<not> memory_for h (sizeof_population h) \<longrightarrow>
      ga_population_new h w ss nc lc = Inl (Die ''Unable to allocate memory'')) \<and>
   (\<forall>p w'. ga_population_new h w ss nc lc = Inr (p, w') \<longrightarrow>
      (\<exists>pop. map_of (pop_heap w') p = Some pop
         \<and> size_pop pop = 0 \<and> stable_size pop = ss
         \<and> num_chromosomes pop = nc \<and> len_chromosomes pop = lc
         \<and> max_size pop = 4 * ss
         \<and> crossover_ratio pop = 1 \<and> mutation_ratio pop = 1 \<and> migration_ratio pop = 1
         \<and> scheme pop = GA_SCHEME_DARWIN h \<and> elitism pop = GA_ELITISM_UNKNOWN h
         \<and> generation pop = 0 \<and> island pop = - 1
         \<and> entity_array pop = replicate (nat (4 * ss)) None
         \<and> entity_iarray pop = replicate (nat (4 * ss)) None
         \<and> callback_slots pop = replicate 18 None)
      \<and> (\<exists>i. ga_get_population_from_id w' i = Some p)) \<and>
   (\<forall>p w'. ga_population_new_older h block w ss nc lc = Inr (p, w') \<longrightarrow>
      (\<exists>pop. map_of (pop_heap w') p = Some pop
         \<and> size_pop pop = 0 \<and> stable_size pop = ss
         \<and> num_chromosomes pop = nc \<and> len_chromosomes pop = lc
         \<and> max_size pop = 4 * ss
         \<and> crossover_ratio pop = 1 \<and> mutation_ratio pop = 1 \<and> migration_ratio pop = 1
         \<and> scheme pop = scheme block \<and> elitism pop = elitism block
         \<and> generation pop = generation block \<and> island pop = island block
         \<and> entity_array pop = replicate (nat (4 * ss)) None
         \<and> entity_iarray pop = replicate (nat (4 * ss)) None
         \<and> callback_slots pop = replicate 18 None)
      \<and> (\<exists>i. ga_get_population_from_id w' i = Some p))"
proof (intro conjI allI impI)
  assume "memory_for h (sizeof_population h) \<and> 0 \<le> ss \<and> ss * 4 \<le> INT_MAX
      \<and> memory_for h (cells_request h (ss * 4)) \<and> cells_fit h (ss * 4)"
  then show "\<exists>p w'. ga_population_new h w ss nc lc = Inr (p, w')"
    using ga_population_new_total by blast
next
  assume "\<not> memory_for h (sizeof_population h)"
  then show "ga_population_new h w ss nc lc = Inl (Die ''Unable to allocate memory'')"
    by (rule ga_population_new_no_memory)
next
  fix p w'
  assume a: "ga_population_new h w ss nc lc = Inr (p, w')"
  from ga_population_new_Inr[OF a] obtain i newpop where
    n: "pop_table_add (w\<lparr>pop_heap := (p, newpop) # pop_heap w\<rparr>) p = (i, w')"
    and f: "size_pop newpop = 0" "stable_size newpop = ss"
         "num_chromosomes newpop = nc" "len_chromosomes newpop = lc"
         "max_size newpop = 4 * ss"
         "crossover_ratio newpop = 1" "mutation_ratio newpop = 1" "migration_ratio newpop = 1"
         "scheme newpop = GA_SCHEME_DARWIN h" "elitism newpop = GA_ELITISM_UNKNOWN h"
         "generation newpop = 0" "island newpop = - 1"
         "entity_array newpop = replicate (nat (4 * ss)) None"
         "entity_iarray newpop = replicate (nat (4 * ss)) None"
         "callback_slots newpop = replicate 18 None"
    by (auto simp: callback_slots_def mult.commute numeral_eq_Suc)
  have "map_of (pop_heap w') p = Some newpop"
    using pop_table_add_heap[OF n] by simp
  then show "\<exists>pop. map_of (pop_heap w') p = Some pop
         \<and> size_pop pop = 0 \<and> stable_size pop = ss
         \<and> num_chromosomes pop = nc \<and> len_chromosomes pop = lc
         \<and> max_size pop = 4 * ss
         \<and> crossover_ratio pop = 1 \<and> mutation_ratio pop = 1 \<and> migration_ratio pop = 1
         \<and> scheme pop = GA_SCHEME_DARWIN h \<and> elitism pop = GA_ELITISM_UNKNOWN h
         \<and> generation pop = 0 \<and> island pop = - 1
         \<and> entity_array pop = replicate (nat (4 * ss)) None
         \<and> entity_iarray pop = replicate (nat (4 * ss)) None
         \<and> callback_slots pop = replicate 18 None"
    using f by blast
  show "\<exists>i. ga_get_population_from_id w' i = Some p"
    using pop_table_add_new[OF n] by blast
next
  fix p w'
  assume a: "ga_population_new_older h block w ss nc lc = Inr (p, w')"
  from ga_population_new_older_Inr[OF a] obtain i newpop where
    n: "pop_table_add (w\<lparr>pop_heap := (p, newpop) # pop_heap w\<rparr>) p = (i, w')"
    and f: "size_pop newpop = 0" "stable_size newpop = ss"
         "num_chromosomes newpop = nc" "len_chromosomes newpop = lc"
         "max_size newpop = 4 * ss"
         "crossover_ratio newpop = 1" "mutation_ratio newpop = 1" "migration_ratio newpop = 1"
         "scheme newpop = scheme block" "elitism newpop = elitism block"
         "generation newpop = generation block" "island newpop = island block"
         "entity_array newpop = replicate (nat (4 * ss)) None"
         "entity_iarray newpop = replicate (nat (4 * ss)) None"
         "callback_slots newpop = replicate 18 None"
    by (auto simp: callback_slots_def mult.commute numeral_eq_Suc)
  have "map_of (pop_heap w') p = Some newpop"
    using pop_table_add_heap[OF n] by simp
  then show "\<exists>pop. map_of (pop_heap w') p = Some pop
         \<and> size_pop pop = 0 \<and> stable_size pop = ss
         \<and> num_chromosomes pop = nc \<and> len_chromosomes pop = lc
         \<and> max_size pop = 4 * ss
         \<and> crossover_ratio pop = 1 \<and> mutation_ratio pop = 1 \<and> migration_ratio pop = 1
         \<and> scheme pop = scheme block \<and> elitism pop = elitism block
         \<and> generation pop = generation block \<and> island pop = island block
         \<and> entity_array pop = replicate (nat (4 * ss)) None
         \<and> entity_iarray pop = replicate (nat (4 * ss)) None
         \<and> callback_slots pop = replicate 18 None"
    using f by blast
  show "\<exists>i. ga_get_population_from_id w' i = Some p"
    using pop_table_add_new[OF n] by blast
qed

theorem ga_population_new_initial_witness:
  "(\<exists>p w'. ga_population_new example_header (empty_world :: int list list world) 30 1 10 = Inr (p, w')
     \<and> (\<exists>pop. map_of (pop_heap w') p = Some pop \<and> size_pop pop = 0 \<and> max_size pop = 120
           \<and> island pop = - 1 \<and> callback_slots pop = replicate 18 None)
     \<and> (\<exists>i. ga_get_population_from_id w' i = Some p))
   \<and> ga_population_new (example_header\<lparr>memory_for := (\<lambda>n. False)\<rparr>)
         (empty_world :: int list list world) 30 1 10 = Inl (Die ''Unable to allocate memory'')
   \<and> ga_population_new_older example_header example_block
         (empty_world :: int list list world) 1 1 4 = Inr (0, example_older_world)
   \<and> (\<exists>pop. map_of (pop_heap example_older_world) 0 = Some pop \<and> size_pop pop = 0
           \<and> max_size pop = 4 \<and> island pop = 7 \<and> callback_slots pop = replicate 18 None)"
proof -
  let ?w = "empty_world :: int list list world"
  have h: "memory_for example_header (sizeof_population example_header) \<and> (0::int) \<le> 30
      \<and> (30::int) * 4 \<le> INT_MAX
      \<and> memory_for example_header (cells_request example_header (30 * 4))
      \<and> cells_fit example_header (30 * 4)"
    using example_cells[of 120] by (simp add: INT_MAX_def)
  from ga_population_new_initial[of example_header 30 ?w 1 10] h
  obtain p w' where
    n: "ga_population_new example_header ?w 30 1 10 = Inr (p, w')"
    by blast
  from ga_population_new_initial[of example_header 30 ?w 1 10] n
  have a: "\<exists>p w'. ga_population_new example_header ?w 30 1 10 = Inr (p, w')
     \<and> (\<exists>pop. map_of (pop_heap w') p = Some pop \<and> size_pop pop = 0 \<and> max_size pop = 120
           \<and> island pop = - 1 \<and> callback_slots pop = replicate 18 None)
     \<and> (\<exists>i. ga_get_population_from_id w' i = Some p)"
    by fastforce
  have b: "ga_population_new (example_header\<lparr>memory_for := (\<lambda>n. False)\<rparr>) ?w 30 1 10
      = Inl (Die ''Unable to allocate memory'')"
    using ga_population_new_initial[of "example_header\<lparr>memory_for := (\<lambda>n. False)\<rparr>" 30 ?w 1 10]
    by simp
  have c: "ga_population_new_older example_header example_block ?w 1 1 4
      = Inr (0, example_older_world)"
    by (rule example_older_new)
  from ga_population_new_initial[where h = example_header and block = example_block
      and w = ?w and ss = 1 and nc = 1 and lc = 4] c
  have d: "\<exists>pop. map_of (pop_heap example_older_world) 0 = Some pop \<and> size_pop pop = 0
           \<and> max_size pop = 4 \<and> island pop = 7 \<and> callback_slots pop = replicate 18 None"
    by (fastforce simp: example_block_def)
  show ?thesis using a b c d by blast
qed

theorem ga_population_new_older_counterexample:
  "ga_population_new_older example_header example_block (empty_world :: int list list world) 1 1 4
     = Inr (0, example_older_world)
   \<and> map_of (pop_heap example_older_world) 0 = Some example_older_pop
   \<and> island example_older_pop = 7 \<and> island example_older_pop \<noteq> - 1
   \<and> generation example_older_pop = 3 \<and> generation example_older_pop \<noteq> 0
   \<and> scheme example_older_pop = 2 \<and> scheme example_older_pop \<noteq> GA_SCHEME_DARWIN example_header
   \<and> elitism example_older_pop = 5
   \<and> elitism example_older_pop \<noteq> GA_ELITISM_UNKNOWN example_header"
  using example_older_new
  by (simp add: example_older_world_def example_older_pop_def example_block_def
      example_header_def)

lemma ga_get_population_from_id_heap [simp]:
  "ga_get_population_from_id (w\<lparr>pop_heap := x\<rparr>) i = ga_get_population_from_id w i"
  by (simp add: ga_get_population_from_id_def)

lemma pop_table_add_heap_upd:
  "pop_table_add (w\<lparr>pop_heap := x\<rparr>) p = (i, w') \<Longrightarrow>
   \<exists>w''. pop_table_add w p = (i, w'') \<and> pop_table w' = pop_table w''"
  by (auto simp: pop_table_add_def Let_def split: prod.splits)

lemma ga_population_new_registered:
  assumes "ga_population_new h w ss nc lc = Inr (p, w')"
  shows "p \<in> fst ` set (pop_heap w')" "p \<notin> fst ` set (pop_heap w)"
    "\<exists>i. ga_get_population_from_id w' i = Some p"
    "\<And>q k. ga_get_population_from_id w k = Some q \<Longrightarrow> ga_get_population_from_id w' k = Some q"
    "set (pop_heap w) \<subseteq> set (pop_heap w')"
proof -
  from ga_population_new_Inr[OF assms] obtain i newpop where
    p: "p = fresh_atom (map fst (pop_heap w))"
    and n: "pop_table_add (w\<lparr>pop_heap := (p, newpop) # pop_heap w\<rparr>) p = (i, w')"
    by blast
  have hp: "pop_heap w' = (p, newpop) # pop_heap w"
    using pop_table_add_heap[OF n] by simp
  show "p \<in> fst ` set (pop_heap w')" using hp by simp
  show "p \<notin> fst ` set (pop_heap w)" using p fresh_atom_notin[of "map fst (pop_heap w)"] by simp
  show "\<exists>i. ga_get_population_from_id w' i = Some p" using pop_table_add_new[OF n] by blast
  show "set (pop_heap w) \<subseteq> set (pop_heap w')" using hp by auto
  fix q k
  assume "ga_get_population_from_id w k = Some q"
  then have "ga_get_population_from_id (w\<lparr>pop_heap := (p, newpop) # pop_heap w\<rparr>) k = Some q"
    by simp
  from pop_table_add_old[OF this n]
  show "ga_get_population_from_id w' k = Some q" by simp
qed

text \<open>
  C9.  Registry round trip: looking up the identifier that the registration of \<open>p\<close>
  returned gives \<open>p\<close>; registering \<open>q\<close> while \<open>p\<close> is in the table gives \<open>q\<close> an
  identifier other than that of \<open>p\<close> and leaves \<open>p\<close> where it was; two populations made one
  after the other by \<open>ga_population_new\<close> are distinct and have distinct identifiers.
\<close>

theorem registry_round_trip:
  "(pop_table_add w p = (i, w') \<longrightarrow> ga_get_population_from_id w' i = Some p) \<and>
   (ga_get_population_from_id w i = Some p \<and> pop_table_add w q = (j, w') \<longrightarrow>
      j \<noteq> i \<and> ga_get_population_from_id w' i = Some p \<and> ga_get_population_from_id w' j = Some q) \<and>
   (ga_population_new h w ss nc lc = Inr (p, w1) \<and> ga_population_new h w1 ss' nc' lc' = Inr (q, w2) \<longrightarrow>
      p \<noteq> q \<and> (\<exists>i j. i \<noteq> j \<and> ga_get_population_from_id w2 i = Some p
                       \<and> ga_get_population_from_id w2 j = Some q))"
proof (intro conjI impI)
  assume "pop_table_add w p = (i, w')"
  then show "ga_get_population_from_id w' i = Some p" by (rule pop_table_add_new)
next
  assume a: "ga_get_population_from_id w i = Some p \<and> pop_table_add w q = (j, w')"
  then show "j \<noteq> i" using pop_table_add_old by blast
  from a show "ga_get_population_from_id w' i = Some p" using pop_table_add_old by blast
  from a show "ga_get_population_from_id w' j = Some q" using pop_table_add_new by blast
next
  assume a: "ga_population_new h w ss nc lc = Inr (p, w1) \<and>
             ga_population_new h w1 ss' nc' lc' = Inr (q, w2)"
  then have n1: "ga_population_new h w ss nc lc = Inr (p, w1)"
    and n2: "ga_population_new h w1 ss' nc' lc' = Inr (q, w2)" by auto
  show pq: "p \<noteq> q"
    using ga_population_new_registered(1)[OF n1] ga_population_new_registered(2)[OF n2] by auto
  obtain i where i: "ga_get_population_from_id w1 i = Some p"
    using ga_population_new_registered(3)[OF n1] by blast
  have i2: "ga_get_population_from_id w2 i = Some p"
    using ga_population_new_registered(4)[OF n2 i] .
  obtain j where j: "ga_get_population_from_id w2 j = Some q"
    using ga_population_new_registered(3)[OF n2] by blast
  have "i \<noteq> j" using i2 j pq by auto
  then show "\<exists>i j. i \<noteq> j \<and> ga_get_population_from_id w2 i = Some p
                       \<and> ga_get_population_from_id w2 j = Some q"
    using i2 j by blast
qed

theorem registry_round_trip_witness:
  "pop_table_add (empty_world :: int list list world) 7 =
     (0, \<lparr>pop_table = Some [Some 7], pop_heap = []\<rparr>)
   \<and> ga_get_population_from_id (\<lparr>pop_table = Some [Some 7], pop_heap = []\<rparr> :: int list list world) 0 = Some 7
   \<and> pop_table_add (\<lparr>pop_table = Some [Some 7], pop_heap = []\<rparr> :: int list list world) 9 =
     (1, \<lparr>pop_table = Some [Some 7, Some 9], pop_heap = []\<rparr>)
   \<and> ga_get_population_from_id (\<lparr>pop_table = Some [Some 7, Some 9], pop_heap = []\<rparr> :: int list list world) 0 = Some 7
   \<and> ga_get_population_from_id (\<lparr>pop_table = Some [Some 7, Some 9], pop_heap = []\<rparr> :: int list list world) 1 = Some 9
   \<and> (\<exists>p q w1 w2. ga_population_new example_header (empty_world :: int list list world) 1 1 4 = Inr (p, w1)
        \<and> ga_population_new example_header w1 2 1 4 = Inr (q, w2) \<and> p \<noteq> q
        \<and> (\<exists>i j. i \<noteq> j \<and> ga_get_population_from_id w2 i = Some p
                       \<and> ga_get_population_from_id w2 j = Some q))"
proof -
  let ?w0 = "empty_world :: int list list world"
  let ?w1 = "\<lparr>pop_table = Some [Some 7], pop_heap = []\<rparr> :: int list list world"
  let ?w2 = "\<lparr>pop_table = Some [Some 7, Some 9], pop_heap = []\<rparr> :: int list list world"
  have a: "pop_table_add ?w0 7 = (0, ?w1)"
    by (simp add: pop_table_add_def empty_world_def table_new_def table_add_def)
  have b: "pop_table_add ?w1 9 = (1, ?w2)"
    by (simp add: pop_table_add_def table_add_def)
  have c: "ga_get_population_from_id ?w1 0 = Some 7"
    using registry_round_trip[of ?w0 7 0 ?w1] a by simp
  have d: "ga_get_population_from_id ?w2 0 = Some 7 \<and> ga_get_population_from_id ?w2 1 = Some 9"
    using registry_round_trip[of ?w1 7 0 ?w2 9 1] b c by simp
  obtain p w1 where n1: "ga_population_new example_header ?w0 1 1 4 = Inr (p, w1)"
    using ga_population_new_total[of example_header 1 ?w0 1 4] example_cells[of 4]
    by (auto simp: INT_MAX_def)
  obtain q w2 where n2: "ga_population_new example_header w1 2 1 4 = Inr (q, w2)"
    using ga_population_new_total[of example_header 2 w1 1 4] example_cells[of 8]
    by (auto simp: INT_MAX_def)
  have e: "p \<noteq> q \<and> (\<exists>i j. i \<noteq> j \<and> ga_get_population_from_id w2 i = Some p
                       \<and> ga_get_population_from_id w2 j = Some q)"
    using registry_round_trip[where h = example_header and w = ?w0 and ss = 1 and nc = 1
        and lc = 4 and p = p and ?w1.0 = w1 and ss' = 2 and nc' = 1 and lc' = 4 and q = q
        and ?w2.0 = w2] n1 n2 by blast
  show ?thesis using a b c d e n1 n2 by blast
qed

text \<open>
  C10.  On a population whose id array has \<open>max_size\<close> cells, \<open>ga_get_entity_from_id\<close>
  returns NULL on its guard when the identifier is greater than \<open>max_size\<close>; an identifier
  equal to \<open>max_size\<close> passes the guard and reads the cell at \<open>max_size\<close>, one past the
  last, which is outside the array; the read is inside the array exactly for identifiers
  below \<open>max_size\<close>.
\<close>

theorem ga_get_entity_from_id_bounds:
  assumes "0 \<le> max_size pop" "max_size pop \<le> INT_MAX"
    and "length (entity_array pop) = nat (max_size pop)"
  shows "(int ident > max_size pop \<longrightarrow> ga_get_entity_from_id pop ident = Inr None)
     \<and> (int ident = max_size pop \<longrightarrow>
          ga_get_entity_from_id pop ident = load (entity_array pop) (max_size pop)
          \<and> ga_get_entity_from_id pop ident = Inl Undefined)
     \<and> (int ident < max_size pop \<longrightarrow>
          ga_get_entity_from_id pop ident = Inr (entity_array pop ! ident))
     \<and> ((ga_get_entity_from_id pop ident = Inl Undefined) = (int ident = max_size pop))"
proof -
  have u: "to_unsigned (max_size pop) = nat (max_size pop)"
    using assms(1,2) by (simp add: to_unsigned_def INT_MAX_def)
  show ?thesis
    using assms u by (auto simp: ga_get_entity_from_id_def load_def)
qed

theorem ga_get_entity_from_id_bounds_witness:
  "ga_get_entity_from_id example_population 5 = Inr None
   \<and> ga_get_entity_from_id example_population 4 = Inl Undefined
   \<and> ga_get_entity_from_id (example_population\<lparr>entity_array := [None, None, None, Some 0]\<rparr>) 3
       = Inr (Some 0)"
proof -
  have a: "0 \<le> max_size example_population" "max_size example_population \<le> INT_MAX"
    "length (entity_array example_population) = nat (max_size example_population)"
    by (simp_all add: example_population_def INT_MAX_def)
  let ?p = "example_population\<lparr>entity_array := [None, None, None, Some 0]\<rparr>"
  have b: "0 \<le> max_size ?p" "max_size ?p \<le> INT_MAX"
    "length (entity_array ?p) = nat (max_size ?p)"
    by (simp_all add: example_population_def INT_MAX_def)
  have m: "int 5 > max_size example_population" "int 4 = max_size example_population"
    "int 3 < max_size ?p" "entity_array ?p ! 3 = Some 0"
    by (simp_all add: example_population_def)
  have "ga_get_entity_from_id example_population 5 = Inr None"
    using ga_get_entity_from_id_bounds[OF a, of 5] m(1) by blast
  moreover have "ga_get_entity_from_id example_population 4 = Inl Undefined"
    using ga_get_entity_from_id_bounds[OF a, of 4] m(2) by blast
  moreover have "ga_get_entity_from_id ?p 3 = Inr (Some 0)"
    using ga_get_entity_from_id_bounds[OF b, of 3] m(3,4) by metis
  ultimately show ?thesis by blast
qed

section \<open>Properties of the entity pool\<close>

subsection \<open>The scan for an unused index\<close>

lemma scan_down_Some:
  "scan_down arr n = Some k \<Longrightarrow> k \<le> n \<and> arr ! k = None \<and> (\<forall>j. k < j \<and> j \<le> n \<longrightarrow> arr ! j \<noteq> None)"
proof (induction n)
  case 0
  then show ?case by (auto split: if_splits)
next
  case (Suc n)
  show ?case
  proof (cases "arr ! Suc n = None")
    case True
    with Suc.prems show ?thesis by auto
  next
    case False
    with Suc.prems have "scan_down arr n = Some k" by simp
    from Suc.IH[OF this] False show ?thesis
      by (metis le_Suc_eq)
  qed
qed

lemma scan_down_None:
  "scan_down arr n = None \<longleftrightarrow> (\<forall>j \<le> n. arr ! j \<noteq> None)"
proof (induction n)
  case 0
  then show ?case by auto
next
  case (Suc n)
  then show ?case by (auto simp: le_Suc_eq)
qed

lemma find_unused_step:
  assumes "n < length arr" "arr ! n \<noteq> None"
  shows "find_unused arr m (int n) = find_unused arr m ((if n = 0 then m else int n) - 1)"
proof -
  have c: "0 \<le> int n \<and> int n < int (length arr)" using assms(1) by simp
  have d: "arr ! nat (int n) \<noteq> None" using assms(2) by simp
  have e: "(int n = 0) = (n = 0)" by simp
  show ?thesis
    by (subst find_unused.simps) (simp only: c d e simp_thms if_True if_False)
qed

lemma find_unused_found:
  assumes "n < length arr" "arr ! n = None"
  shows "find_unused arr m (int n) = Some (Inr (int n))"
proof -
  have c: "0 \<le> int n \<and> int n < int (length arr)" using assms(1) by simp
  have d: "arr ! nat (int n) = None" using assms(2) by simp
  show ?thesis
    by (subst find_unused.simps) (simp only: c d simp_thms if_True if_False)
qed

lemma find_unused_down_Some:
  assumes "scan_down arr n = Some k" "n < length arr"
  shows "find_unused arr m (int n) = Some (Inr (int k))"
  using assms
proof (induction n)
  case 0
  then have "k = 0" "arr ! 0 = None" by (auto split: if_splits)
  then show ?case using find_unused_found[of 0 arr m] 0(2) by simp
next
  case (Suc n)
  show ?case
  proof (cases "arr ! Suc n = None")
    case True
    with Suc.prems have "k = Suc n" by simp
    then show ?thesis using find_unused_found[OF Suc.prems(2) True, of m] by simp
  next
    case False
    with Suc.prems have s: "scan_down arr n = Some k" by simp
    have "find_unused arr m (int n) = Some (Inr (int k))"
      using Suc.IH[OF s] Suc.prems(2) by simp
    moreover have "find_unused arr m (int (Suc n)) = find_unused arr m (int n)"
      using find_unused_step[OF Suc.prems(2) False, of m] by simp
    ultimately show ?thesis by simp
  qed
qed

lemma find_unused_down_None:
  assumes "scan_down arr n = None" "n < length arr"
  shows "find_unused arr m (int n) = find_unused arr m (m - 1)"
  using assms
proof (induction n)
  case 0
  then have "arr ! 0 \<noteq> None" by (auto split: if_splits)
  then show ?case using find_unused_step[of 0 arr m] 0(2) by simp
next
  case (Suc n)
  from Suc.prems have f: "arr ! Suc n \<noteq> None" and s: "scan_down arr n = None"
    by (auto split: if_splits)
  have "find_unused arr m (int (Suc n)) = find_unused arr m (int n)"
    using find_unused_step[OF Suc.prems(2) f, of m] by simp
  then show ?case using Suc.IH[OF s] Suc.prems(2) by simp
qed

lemma find_unused_full:
  assumes "find_unused arr m fi = Some r"
    and "\<forall>j < length arr. arr ! j \<noteq> None" "m = int (length arr)" "0 \<le> fi" "fi < m"
  shows False
  using assms
proof (induct rule: find_unused.raw_induct[rotated 1, consumes 1, case_names step])
  case (step f arr m fi r)
  have "nat fi < length arr" using step.prems by (auto simp: nat_less_iff)
  with step.prems(1) have nn: "arr ! nat fi \<noteq> None" by blast
  have c: "0 \<le> fi \<and> fi < int (length arr)" using step.prems by simp
  define fi' where "fi' = (if fi = 0 then m else fi) - 1"
  have fr: "f arr m fi' = Some r"
    using step.hyps(2) unfolding fi'_def by (simp only: c nn simp_thms if_True if_False)
  have b: "0 \<le> fi'" "fi' < m" using step.prems unfolding fi'_def by auto
  show ?case by (rule step.hyps(1)[OF fr step.prems(1,2) b])
qed

lemma find_unused_scan:
  assumes "m = int (length arr)" "0 \<le> fi" "fi < m"
  shows "find_unused arr m fi =
     (case scan_wrapping arr (nat fi) of None \<Rightarrow> None | Some k \<Rightarrow> Some (Inr (int k)))"
proof (cases "scan_down arr (nat fi)")
  case (Some k)
  then show ?thesis
    using find_unused_down_Some[OF Some, of m] assms by (simp add: scan_wrapping_def)
next
  case None
  have w: "find_unused arr m fi = find_unused arr m (m - 1)"
    using find_unused_down_None[OF None, of m] assms by simp
  have l: "nat (m - 1) = length arr - 1" "length arr - 1 < length arr" "int (length arr - 1) = m - 1"
    using assms by auto
  show ?thesis
  proof (cases "scan_down arr (length arr - 1)")
    case (Some k)
    then show ?thesis
      using find_unused_down_Some[OF Some l(2), of m] w None l by (simp add: scan_wrapping_def)
  next
    case None2: None
    then have full: "\<forall>j < length arr. arr ! j \<noteq> None"
      by (auto simp: scan_down_None)
    have "find_unused arr m fi = None"
    proof (cases "find_unused arr m fi")
      case (Some r)
      from find_unused_full[OF Some full assms] show ?thesis ..
    qed simp
    then show ?thesis using None None2 by (simp add: scan_wrapping_def)
  qed
qed

subsection \<open>Making room, and counting the cells in use\<close>

lemma c_div_2: "0 \<le> a \<Longrightarrow> c_div a 2 = a div 2"
  by (cases "a = 0") (simp_all add: c_div_def)

lemma wipe_grown:
  assumes "0 \<le> m" "m \<le> n" "length arr = nat m" "length iarr = nat m"
  shows "wipe_entity_arrays m n (s_realloc arr (nat n)) (s_realloc iarr (nat n)) =
     Inr (arr @ replicate (nat (n - m)) None, iarr @ replicate (nat (n - m)) None)"
proof -
  have l: "length (s_realloc arr (nat n)) = nat n" "length (s_realloc iarr (nat n)) = nat n"
    using assms by (auto simp: s_realloc_def)
  have t: "take (nat m) (s_realloc arr (nat n)) = arr" "take (nat m) (s_realloc iarr (nat n)) = iarr"
    using assms by (auto simp: s_realloc_def)
  show ?thesis
    using wipe_entity_arrays_eq[OF assms(1,2) l] t by simp
qed

lemma ga_get_free_entity_room_Inr:
  assumes "ga_get_free_entity_room h pop = Inr pop1"
    and "0 \<le> max_size pop" "length (entity_array pop) = nat (max_size pop)"
    "length (entity_iarray pop) = nat (max_size pop)"
  shows "(max_size pop \<noteq> size_pop pop + 1 \<longrightarrow> pop1 = pop) \<and>
     (max_size pop = size_pop pop + 1 \<longrightarrow>
        max_size pop * 3 \<le> INT_MAX \<and>
        pop1 = pop\<lparr>entity_array := entity_array pop
                       @ replicate (nat ((max_size pop * 3) div 2 - max_size pop)) None,
                     entity_iarray := entity_iarray pop
                       @ replicate (nat ((max_size pop * 3) div 2 - max_size pop)) None,
                     max_size := (max_size pop * 3) div 2,
                     free_index := (max_size pop * 3) div 2 - 1\<rparr>)"
proof (cases "max_size pop = size_pop pop + 1")
  case False
  then show ?thesis
    using assms(1) by (auto simp: ga_get_free_entity_room_def bindE_def c_int_def split: if_splits)
next
  case True
  define n where "n = (max_size pop * 3) div 2"
  have r: "INT_MIN \<le> size_pop pop + 1" "size_pop pop + 1 \<le> INT_MAX"
    "INT_MIN \<le> max_size pop * 3" "max_size pop * 3 \<le> INT_MAX"
    using assms(1) True
    by (auto simp: ga_get_free_entity_room_def bindE_def c_int_def split: if_splits)
  have d: "c_div (max_size pop * 3) 2 = n"
    using assms(2) by (simp add: c_div_2 n_def)
  have mn: "max_size pop \<le> n" "0 \<le> n" using assms(2) by (auto simp: n_def)
  have w: "wipe_entity_arrays (max_size pop) n (s_realloc (entity_array pop) (nat n))
             (s_realloc (entity_iarray pop) (nat n)) =
           Inr (entity_array pop @ replicate (nat (n - max_size pop)) None,
                entity_iarray pop @ replicate (nat (n - max_size pop)) None)"
    by (rule wipe_grown[OF assms(2) mn(1) assms(3,4)])
  have "pop1 = pop\<lparr>entity_array := entity_array pop @ replicate (nat (n - max_size pop)) None,
                     entity_iarray := entity_iarray pop @ replicate (nat (n - max_size pop)) None,
                     max_size := n, free_index := n - 1\<rparr>"
    using assms(1) True r d w mn
    by (auto simp: ga_get_free_entity_room_def bindE_def c_int_def Let_def split: if_splits)
  then show ?thesis using True r by (simp add: n_def)
qed

lemma filter_set_None:
  assumes "i < length xs" "xs ! i = Some d"
  shows "length (filter (\<lambda>x. x \<noteq> None) (xs[i := None])) + 1 = length (filter (\<lambda>x. x \<noteq> None) xs)"
    and "set (filter (\<lambda>x. x \<noteq> None) (xs[i := None])) \<subseteq> set (filter (\<lambda>x. x \<noteq> None) xs)"
    and "distinct (filter (\<lambda>x. x \<noteq> None) xs) \<Longrightarrow>
         set (filter (\<lambda>x. x \<noteq> None) (xs[i := None])) = set (filter (\<lambda>x. x \<noteq> None) xs) - {Some d}"
proof -
  have x: "xs = take i xs @ Some d # drop (Suc i) xs"
    using assms by (metis id_take_nth_drop)
  have u: "xs[i := None] = take i xs @ None # drop (Suc i) xs"
    using assms by (simp add: upd_conv_take_nth_drop)
  have fx: "filter (\<lambda>x. x \<noteq> None) xs =
      filter (\<lambda>x. x \<noteq> None) (take i xs) @ Some d # filter (\<lambda>x. x \<noteq> None) (drop (Suc i) xs)"
    by (subst x) simp
  have fu: "filter (\<lambda>x. x \<noteq> None) (xs[i := None]) =
      filter (\<lambda>x. x \<noteq> None) (take i xs) @ filter (\<lambda>x. x \<noteq> None) (drop (Suc i) xs)"
    by (subst u) simp
  show "length (filter (\<lambda>x. x \<noteq> None) (xs[i := None])) + 1 = length (filter (\<lambda>x. x \<noteq> None) xs)"
    unfolding fx fu by simp
  show "set (filter (\<lambda>x. x \<noteq> None) (xs[i := None])) \<subseteq> set (filter (\<lambda>x. x \<noteq> None) xs)"
    unfolding fx fu by auto
  assume "distinct (filter (\<lambda>x. x \<noteq> None) xs)"
  then show "set (filter (\<lambda>x. x \<noteq> None) (xs[i := None])) = set (filter (\<lambda>x. x \<noteq> None) xs) - {Some d}"
    unfolding fx fu by auto
qed

lemma filter_set_Some:
  assumes "i < length xs" "xs ! i = None"
  shows "length (filter (\<lambda>x. x \<noteq> None) (xs[i := Some e])) = Suc (length (filter (\<lambda>x. x \<noteq> None) xs))"
    and "set (filter (\<lambda>x. x \<noteq> None) (xs[i := Some e])) = insert (Some e) (set (filter (\<lambda>x. x \<noteq> None) xs))"
proof -
  have x: "xs = take i xs @ None # drop (Suc i) xs"
    using assms by (metis id_take_nth_drop)
  have u: "xs[i := Some e] = take i xs @ Some e # drop (Suc i) xs"
    using assms by (simp add: upd_conv_take_nth_drop)
  have fx: "filter (\<lambda>x. x \<noteq> None) xs =
      filter (\<lambda>x. x \<noteq> None) (take i xs) @ filter (\<lambda>x. x \<noteq> None) (drop (Suc i) xs)"
    by (subst x) simp
  have fu: "filter (\<lambda>x. x \<noteq> None) (xs[i := Some e]) =
      filter (\<lambda>x. x \<noteq> None) (take i xs) @ Some e # filter (\<lambda>x. x \<noteq> None) (drop (Suc i) xs)"
    by (subst u) simp
  show "length (filter (\<lambda>x. x \<noteq> None) (xs[i := Some e])) = Suc (length (filter (\<lambda>x. x \<noteq> None) xs))"
    unfolding fx fu by simp
  show "set (filter (\<lambda>x. x \<noteq> None) (xs[i := Some e])) = insert (Some e) (set (filter (\<lambda>x. x \<noteq> None) xs))"
    unfolding fx fu by auto
qed

lemma pool_inv_room:
  assumes "pool_inv pop" "ga_get_free_entity_room h pop = Inr pop1"
  shows "pool_inv pop1" "size_pop pop1 = size_pop pop" "entity_chunk pop1 = entity_chunk pop"
    "max_size pop \<le> max_size pop1"
proof -
  have b: "0 \<le> max_size pop" "length (entity_array pop) = nat (max_size pop)"
    "length (entity_iarray pop) = nat (max_size pop)"
    using assms(1) by (auto simp: pool_inv_def)
  note r = ga_get_free_entity_room_Inr[OF assms(2) b]
  show "pool_inv pop1"
  proof (cases "max_size pop = size_pop pop + 1")
    case False
    then show ?thesis using r assms(1) by simp
  next
    case True
    define n where "n = (max_size pop * 3) div 2"
    have p1: "pop1 = pop\<lparr>entity_array := entity_array pop @ replicate (nat (n - max_size pop)) None,
                     entity_iarray := entity_iarray pop @ replicate (nat (n - max_size pop)) None,
                     max_size := n, free_index := n - 1\<rparr>"
      and m3: "max_size pop * 3 \<le> INT_MAX"
      using r True by (auto simp: n_def)
    have mn: "max_size pop \<le> n" "n \<le> INT_MAX" using b(1) m3 by (auto simp: n_def)
    have sz: "nat (size_pop pop) \<le> length (entity_iarray pop)"
      using assms(1) by (auto simp: pool_inv_def)
    show ?thesis
      using assms(1) mn sz unfolding p1 pool_inv_def live_slots_def ranked_def
      by (auto simp: nat_diff_distrib)
  qed
  show "size_pop pop1 = size_pop pop" "entity_chunk pop1 = entity_chunk pop"
    "max_size pop \<le> max_size pop1"
    using r b(1) by (cases "max_size pop = size_pop pop + 1"; auto)+
qed

subsection \<open>What \<open>ga_get_free_entity\<close> does when it returns\<close>

lemma ga_get_free_entity_Inr:
  assumes "ga_get_free_entity h cm pop = Some (Inr (e, pop'))"
  shows "\<exists>pop1 fi f ent0 popc.
      ga_get_free_entity_room h pop = Inr pop1
    \<and> find_unused (entity_array pop1) (max_size pop1) (free_index pop1) = Some (Inr fi)
    \<and> 0 \<le> fi \<and> fi < int (length (entity_array pop1))
    \<and> 0 \<le> size_pop pop1 \<and> size_pop pop1 < int (length (entity_iarray pop1))
    \<and> size_pop pop1 + 1 \<le> INT_MAX
    \<and> chromosome_constructor pop1 = Some f
    \<and> e = fresh_atom (atoms (entity_chunk pop1))
    \<and> atoms (entity_chunk pop') = e # atoms (entity_chunk pop1)
    \<and> (\<forall>a. a \<noteq> e \<longrightarrow> cell (entity_chunk pop') a = cell (entity_chunk pop1) a)
    \<and> chromosome ent0 = None
    \<and> peek pop' e = (call_constructor cm f popc ent0)\<lparr>data := [], fitness := GA_MIN_FITNESS h\<rparr>
    \<and> pop' = pop1\<lparr>free_index := fi,
                    entity_chunk := entity_chunk pop',
                    entity_array := (entity_array pop1)[nat fi := Some e],
                    entity_iarray := (entity_iarray pop1)[nat (size_pop pop1) := Some e],
                    size_pop := size_pop pop1 + 1\<rparr>"
proof -
  from assms obtain pop1 where r: "ga_get_free_entity_room h pop = Inr pop1"
    by (auto simp: ga_get_free_entity_def split: sum.splits)
  from assms r obtain fi where
    f: "find_unused (entity_array pop1) (max_size pop1) (free_index pop1) = Some (Inr fi)"
    by (auto simp: ga_get_free_entity_def split: sum.splits option.splits)
  define chunk where "chunk = (entity_chunk pop1)\<lparr>atoms := fresh_atom (atoms (entity_chunk pop1)) # atoms (entity_chunk pop1)\<rparr>"
  define new where "new = fresh_atom (atoms (entity_chunk pop1))"
  define pop2 where "pop2 = pop1\<lparr>free_index := fi, entity_chunk := chunk\<rparr>"
  have body: "bindE (store (entity_array pop2) (free_index pop2) (Some new)) (\<lambda>arr.
                     bindE (ga_entity_setup h cm (pop2\<lparr>entity_array := arr\<rparr>) (Some new)) (\<lambda>(ok, pop3).
                     bindE (store (entity_iarray pop3) (size_pop pop3) (Some new)) (\<lambda>iarr.
                     bindE (c_int (size_pop pop3 + 1)) (\<lambda>size1.
                       Inr (new, pop3\<lparr>entity_iarray := iarr, size_pop := size1\<rparr>))))) = Inr (e, pop')"
    using assms r f
    by (simp add: ga_get_free_entity_def mem_chunk_alloc_def Let_def pop2_def chunk_def new_def)
  from body have fi: "0 \<le> fi" "fi < int (length (entity_array pop1))"
    by (auto simp: bindE_def store_def pop2_def split: if_splits sum.splits)
  define pop2a where "pop2a = pop2\<lparr>entity_array := (entity_array pop1)[nat fi := Some new]\<rparr>"
  have s1: "store (entity_array pop2) (free_index pop2) (Some new) = Inr ((entity_array pop1)[nat fi := Some new])"
    using fi by (simp add: store_def pop2_def)
  from body s1 have body2: "bindE (ga_entity_setup h cm pop2a (Some new)) (\<lambda>(ok, pop3).
                     bindE (store (entity_iarray pop3) (size_pop pop3) (Some new)) (\<lambda>iarr.
                     bindE (c_int (size_pop pop3 + 1)) (\<lambda>size1.
                       Inr (new, pop3\<lparr>entity_iarray := iarr, size_pop := size1\<rparr>)))) = Inr (e, pop')"
    by (simp add: bindE_def pop2a_def)
  from body2 obtain g where g: "chromosome_constructor pop1 = Some g"
    by (auto simp: bindE_def ga_entity_setup_def pop2a_def pop2_def split: option.splits)
  define ent0 where "ent0 = (peek pop2a new)\<lparr>chromosome := None\<rparr>"
  define popc where "popc = poke pop2a new ent0"
  define ent where "ent = (call_constructor cm g popc ent0)\<lparr>data := [], fitness := GA_MIN_FITNESS h\<rparr>"
  define pop3 where "pop3 = poke pop2a new ent"
  have su: "ga_entity_setup h cm pop2a (Some new) = Inr (True, pop3)"
    using g
    by (simp add: ga_entity_setup_def pop2a_def pop2_def Let_def pop3_def ent_def popc_def
        ent0_def poke_def peek_def)
  from body2 su have body3:
     "bindE (store (entity_iarray pop3) (size_pop pop3) (Some new)) (\<lambda>iarr.
                     bindE (c_int (size_pop pop3 + 1)) (\<lambda>size1.
                       Inr (new, pop3\<lparr>entity_iarray := iarr, size_pop := size1\<rparr>))) = Inr (e, pop')"
    by (simp add: bindE_def)
  have p3: "entity_iarray pop3 = entity_iarray pop1" "size_pop pop3 = size_pop pop1"
    by (simp_all add: pop3_def poke_def pop2a_def pop2_def)
  from body3 have sz: "0 \<le> size_pop pop1" "size_pop pop1 < int (length (entity_iarray pop1))"
    "size_pop pop1 + 1 \<le> INT_MAX"
    by (auto simp: bindE_def store_def c_int_def p3 split: if_splits sum.splits)
  from body3 sz have res: "e = new"
    "pop' = pop3\<lparr>entity_iarray := (entity_iarray pop1)[nat (size_pop pop1) := Some new],
                   size_pop := size_pop pop1 + 1\<rparr>"
    by (auto simp: bindE_def store_def c_int_def p3 INT_MIN_def split: if_splits)
  have ch: "entity_chunk pop' = chunk\<lparr>cell := (cell chunk)(new := ent)\<rparr>"
    by (simp add: res pop3_def poke_def pop2a_def pop2_def)
  have "atoms (entity_chunk pop') = e # atoms (entity_chunk pop1)"
    by (simp add: ch chunk_def res(1) new_def)
  moreover have "\<forall>a. a \<noteq> e \<longrightarrow> cell (entity_chunk pop') a = cell (entity_chunk pop1) a"
    by (simp add: ch chunk_def res(1))
  moreover have "chromosome ent0 = None" by (simp add: ent0_def)
  moreover have "peek pop' e = (call_constructor cm g popc ent0)\<lparr>data := [], fitness := GA_MIN_FITNESS h\<rparr>"
    by (simp add: peek_def ch res(1) ent_def)
  moreover have "pop' = pop1\<lparr>free_index := fi,
                    entity_chunk := entity_chunk pop',
                    entity_array := (entity_array pop1)[nat fi := Some e],
                    entity_iarray := (entity_iarray pop1)[nat (size_pop pop1) := Some e],
                    size_pop := size_pop pop1 + 1\<rparr>"
    unfolding ch by (simp add: res pop3_def poke_def pop2a_def pop2_def)
  ultimately show ?thesis
    using r f fi sz g res(1) new_def by blast
qed

subsection \<open>\<open>ga_get_free_entity\<close> keeps the invariant\<close>

lemma scan_wrapping_Some:
  assumes "scan_wrapping arr c = Some k" "c < length arr"
  shows "k < length arr" "arr ! k = None"
proof -
  from assms(1) have "scan_down arr c = Some k \<or> scan_down arr (length arr - 1) = Some k"
    by (auto simp: scan_wrapping_def split: option.splits)
  then show "k < length arr" "arr ! k = None"
    using scan_down_Some[of arr c k] scan_down_Some[of arr "length arr - 1" k] assms(2)
    by auto
qed

lemma find_unused_Inr:
  assumes "find_unused arr (int (length arr)) c = Some (Inr fi)"
  shows "0 \<le> c \<and> c < int (length arr) \<and> 0 \<le> fi \<and> fi < int (length arr)
     \<and> scan_wrapping arr (nat c) = Some (nat fi) \<and> arr ! nat fi = None"
proof -
  have c: "0 \<le> c \<and> c < int (length arr)"
  proof (rule ccontr)
    assume "\<not> (0 \<le> c \<and> c < int (length arr))"
    then have "find_unused arr (int (length arr)) c = Some (Inl Undefined)"
      by (subst find_unused.simps) simp
    with assms show False by simp
  qed
  then have "find_unused arr (int (length arr)) c =
     (case scan_wrapping arr (nat c) of None \<Rightarrow> None | Some k \<Rightarrow> Some (Inr (int k)))"
    using find_unused_scan[of "int (length arr)" arr c] by simp
  with assms obtain k where k: "scan_wrapping arr (nat c) = Some k" "fi = int k"
    by (auto split: option.splits)
  from scan_wrapping_Some[OF k(1)] c have "k < length arr" "arr ! k = None" by auto
  then show ?thesis using c k by simp
qed

lemma pool_invD:
  assumes "pool_inv pop"
  shows "0 \<le> size_pop pop" "size_pop pop \<le> max_size pop" "max_size pop \<le> INT_MAX"
     "length (entity_array pop) = nat (max_size pop)"
     "length (entity_iarray pop) = nat (max_size pop)"
     "length (live_slots pop) = nat (size_pop pop)"
     "None \<notin> set (ranked pop)" "distinct (ranked pop)"
     "set (ranked pop) = set (live_slots pop)"
     "\<forall>x \<in> set (drop (nat (size_pop pop)) (entity_iarray pop)). x = None"
     "\<forall>e. Some e \<in> set (entity_array pop) \<longrightarrow> e \<in> set (atoms (entity_chunk pop))"
  using assms unfolding pool_inv_def by blast+

lemma pool_inv_distinct_live:
  assumes "pool_inv pop"
  shows "distinct (live_slots pop)"
proof -
  note i = pool_invD[OF assms]
  have "length (ranked pop) = nat (size_pop pop)"
    using i(1,2,5) by (simp add: ranked_def)
  then have "card (set (live_slots pop)) = length (live_slots pop)"
    using distinct_card[OF i(8)] i(6) i(9) by simp
  then show ?thesis by (rule card_distinct)
qed

lemma pool_inv_get_free_entity:
  assumes "pool_inv pop" "ga_get_free_entity h cm pop = Some (Inr (e, pop'))"
  shows "pool_inv pop'" "size_pop pop' = size_pop pop + 1"
    "e \<notin> set (atoms (entity_chunk pop))" "Some e \<notin> set (entity_array pop)"
proof -
  from ga_get_free_entity_Inr[OF assms(2)] obtain pop1 fi where
    r: "ga_get_free_entity_room h pop = Inr pop1"
    and f: "find_unused (entity_array pop1) (max_size pop1) (free_index pop1) = Some (Inr fi)"
    and s: "size_pop pop1 < int (length (entity_iarray pop1))"
    and e: "e = fresh_atom (atoms (entity_chunk pop1))"
    and a: "atoms (entity_chunk pop') = e # atoms (entity_chunk pop1)"
    and p: "pop' = pop1\<lparr>free_index := fi,
                    entity_chunk := entity_chunk pop',
                    entity_array := (entity_array pop1)[nat fi := Some e],
                    entity_iarray := (entity_iarray pop1)[nat (size_pop pop1) := Some e],
                    size_pop := size_pop pop1 + 1\<rparr>"
    by blast
  note i1 = pool_inv_room[OF assms(1) r]
  have m: "max_size pop1 = int (length (entity_array pop1))"
    using i1(1) by (simp add: pool_inv_def)
  from find_unused_Inr[OF f[unfolded m]] have
    fi: "0 \<le> fi" "nat fi < length (entity_array pop1)" "entity_array pop1 ! nat fi = None"
    by auto
  show ne: "e \<notin> set (atoms (entity_chunk pop))"
    using fresh_atom_notin[of "atoms (entity_chunk pop1)"] e i1(3) by simp
  have ne1: "Some e \<notin> set (entity_array pop1)"
    using i1(1) ne i1(3) by (auto simp: pool_inv_def)
  show "size_pop pop' = size_pop pop + 1"
    by (subst p) (simp add: i1(2))
  show "Some e \<notin> set (entity_array pop)"
    using assms(1) ne by (auto simp: pool_inv_def)
  define n where "n = nat (size_pop pop1)"
  have n: "n < length (entity_iarray pop1)" "0 \<le> size_pop pop1"
    using s i1(1) by (auto simp: n_def pool_inv_def)
  have sz: "nat (size_pop pop1 + 1) = Suc n" using n(2) by (simp add: n_def)
  have l1: "length (live_slots pop') = Suc (length (live_slots pop1))"
    "set (live_slots pop') = insert (Some e) (set (live_slots pop1))"
    using filter_set_Some[OF fi(2,3), of e]
    by (subst p, simp add: live_slots_def)+
  have r1: "ranked pop' = ranked pop1 @ [Some e]"
    by (subst p) (simp add: ranked_def sz n_def[symmetric] take_Suc_conv_app_nth n(1))
  have d1: "drop (nat (size_pop pop')) (entity_iarray pop') = drop (Suc n) (entity_iarray pop1)"
    by (subst p, subst p) (simp add: sz n_def[symmetric])
  have ds: "set (drop (Suc n) (entity_iarray pop1)) \<subseteq> set (drop n (entity_iarray pop1))"
    by (metis set_drop_subset_set_drop Suc_n_not_le_n nat_le_linear)
  have inv1: "0 \<le> size_pop pop1" "size_pop pop1 \<le> max_size pop1" "max_size pop1 \<le> INT_MAX"
     "length (entity_array pop1) = nat (max_size pop1)"
     "length (entity_iarray pop1) = nat (max_size pop1)"
     "length (live_slots pop1) = nat (size_pop pop1)"
     "None \<notin> set (ranked pop1)" "distinct (ranked pop1)"
     "set (ranked pop1) = set (live_slots pop1)"
     "\<forall>x \<in> set (drop n (entity_iarray pop1)). x = None"
     "\<forall>e. Some e \<in> set (entity_array pop1) \<longrightarrow> e \<in> set (atoms (entity_chunk pop1))"
    using pool_invD[OF i1(1)] unfolding n_def by blast+
  have ne2: "Some e \<notin> set (ranked pop1)"
    using ne1 inv1(9) by (auto simp: live_slots_def)
  have f1: "size_pop pop' = size_pop pop1 + 1" "max_size pop' = max_size pop1"
    "length (entity_array pop') = length (entity_array pop1)"
    "length (entity_iarray pop') = length (entity_iarray pop1)"
    "entity_array pop' = (entity_array pop1)[nat fi := Some e]"
    by (subst p, simp)+
  have v: "\<forall>x. Some x \<in> set (entity_array pop') \<longrightarrow> x \<in> set (atoms (entity_chunk pop'))"
  proof (intro allI impI)
    fix x assume "Some x \<in> set (entity_array pop')"
    then have "Some x \<in> insert (Some e) (set (entity_array pop1))"
      unfolding f1(5) using set_update_subset_insert by fastforce
    then show "x \<in> set (atoms (entity_chunk pop'))"
      using inv1(11) a by auto
  qed
  show "pool_inv pop'"
    unfolding pool_inv_def
    using inv1 n s f1(1-4) l1 r1 d1 ds ne2 v
    by (auto simp: sz n_def)
qed

subsection \<open>The loops of \<open>ga_entity_dereference_by_rank\<close>\<close>

lemma shift_ranks_eq:
  "0 \<le> i \<Longrightarrow> i \<le> n \<Longrightarrow> n < int (length iarr) \<Longrightarrow>
   shift_ranks i n iarr =
     Inr (take (nat i) iarr @ take (nat (n - i)) (drop (Suc (nat i)) iarr) @ drop (nat n) iarr)"
proof (induction i n iarr rule: shift_ranks.induct)
  case (1 i n iarr)
  show ?case
  proof (cases "i < n")
    case False
    then have "i = n" using 1(3) by simp
    then show ?thesis by (subst shift_ranks.simps) simp
  next
    case True
    define a where "a = nat i"
    define b where "b = nat n"
    have ab: "a < b" "b < length iarr" "Suc a < length iarr"
      using True 1(2,4) by (auto simp: a_def b_def)
    have ld: "load iarr (i + 1) = Inr (iarr ! Suc a)"
      using True 1(2,4) by (simp add: load_def a_def nat_add_distrib)
    have st: "store iarr i (iarr ! Suc a) = Inr (iarr[a := iarr ! Suc a])"
      using True 1(2,4) by (simp add: store_def a_def)
    define iarr' where "iarr' = iarr[a := iarr ! Suc a]"
    have ih: "shift_ranks (i + 1) n iarr' =
        Inr (take (nat (i + 1)) iarr' @ take (nat (n - (i + 1))) (drop (Suc (nat (i + 1))) iarr')
             @ drop (nat n) iarr')"
      using "1.IH"[OF True ld st[unfolded iarr'_def[symmetric]]] True 1(2,4)
      by (simp add: iarr'_def)
    have n1: "nat (i + 1) = Suc a" "nat (n - (i + 1)) = b - Suc a" "nat (n - i) = Suc (b - Suc a)"
      "nat n = b"
      using True 1(2) by (auto simp: a_def b_def)
    have t1: "take (Suc a) iarr' = take a iarr @ [iarr ! Suc a]"
      using ab by (simp add: iarr'_def take_Suc_conv_app_nth)
    have t2: "drop (Suc (Suc a)) iarr' = drop (Suc (Suc a)) iarr"
      by (simp add: iarr'_def)
    have t3: "drop b iarr' = drop b iarr"
      using ab by (simp add: iarr'_def)
    have t4: "drop (Suc a) iarr = iarr ! Suc a # drop (Suc (Suc a)) iarr"
      using ab by (simp add: Cons_nth_drop_Suc)
    have t5: "take (Suc (b - Suc a)) (drop (Suc a) iarr) =
        iarr ! Suc a # take (b - Suc a) (drop (Suc (Suc a)) iarr)"
      by (subst t4) simp
    have "shift_ranks i n iarr = shift_ranks (i + 1) n iarr'"
      by (subst shift_ranks.simps) (simp add: True ld st iarr'_def del: shift_ranks.simps)
    also have "\<dots> = Inr (take a iarr @ [iarr ! Suc a] @ take (b - Suc a) (drop (Suc (Suc a)) iarr)
             @ drop b iarr)"
      unfolding ih n1 t1 t2 t3 by simp
    also have "\<dots> = Inr (take a iarr @ take (Suc (b - Suc a)) (drop (Suc a) iarr) @ drop b iarr)"
      by (simp only: t5 append_Cons append_Nil)
    finally show ?thesis unfolding n1 a_def[symmetric] .
  qed
qed

lemma ga_get_entity_id_from_Inr:
  "ga_get_entity_id_from pop e i = Inr k \<Longrightarrow> 0 \<le> i \<Longrightarrow>
   k = - 1 \<or> (0 \<le> k \<and> k < int (length (entity_array pop)) \<and> entity_array pop ! nat k = Some e)"
proof (induction pop e i rule: ga_get_entity_id_from.induct)
  case (1 pop e i)
  show ?case
  proof (cases "i < max_size pop")
    case False
    then show ?thesis using 1(2) by (subst (asm) ga_get_entity_id_from.simps) simp
  next
    case True
    from 1(2) True obtain x where x: "load (entity_array pop) i = Inr x"
      by (subst (asm) ga_get_entity_id_from.simps) (auto split: sum.splits)
    then have b: "i < int (length (entity_array pop))" "x = entity_array pop ! nat i"
      by (auto simp: load_def split: if_splits)
    show ?thesis
    proof (cases "x = Some e")
      case True2: True
      then have "k = i" using 1(2) True x
        by (subst (asm) ga_get_entity_id_from.simps) simp
      then show ?thesis using b True2 1(3) by simp
    next
      case False
      then have "ga_get_entity_id_from pop e (i + 1) = Inr k"
        using 1(2) True x by (subst (asm) ga_get_entity_id_from.simps) simp
      then show ?thesis using "1.IH"[OF True x False] 1(3) by simp
    qed
  qed
qed

subsection \<open>What \<open>ga_entity_dereference_by_rank\<close> does when it returns\<close>

lemma ga_get_entity_id_from_cong:
  "max_size p = max_size q \<Longrightarrow> entity_array p = entity_array q \<Longrightarrow>
   ga_get_entity_id_from p e i = ga_get_entity_id_from q e i"
proof (induction p e i rule: ga_get_entity_id_from.induct)
  case (1 pop e i)
  show ?case
  proof (cases "i < max_size pop")
    case False
    then show ?thesis
      using 1(2) by (subst ga_get_entity_id_from.simps, subst (2) ga_get_entity_id_from.simps) simp
  next
    case True
    show ?thesis
    proof (cases "load (entity_array pop) i")
      case (Inl err)
      then show ?thesis
        using True 1(2,3)
        by (subst ga_get_entity_id_from.simps, subst (2) ga_get_entity_id_from.simps) simp
    next
      case (Inr x)
      show ?thesis
      proof (cases "x = Some e")
        case True2: True
        then show ?thesis
          using True Inr 1(2,3)
          by (subst ga_get_entity_id_from.simps, subst (2) ga_get_entity_id_from.simps) simp
      next
        case False
        have "ga_get_entity_id_from pop e (i + 1) = ga_get_entity_id_from q e (i + 1)"
          using "1.IH"[OF True Inr False 1(2,3)] .
        then show ?thesis
          using True Inr False 1(2,3)
          by (subst ga_get_entity_id_from.simps, subst (2) ga_get_entity_id_from.simps) simp
      qed
    qed
  qed
qed

lemma bindE_Inr: "bindE (Inr x) f = f x"
  by (simp add: bindE_def)

lemma bindE_Inl: "bindE (Inl e) f = Inl e"
  by (simp add: bindE_def)

lemma bindE_InrE:
  assumes "bindE m f = Inr y"
  obtains x where "m = Inr x" "f x = Inr y"
  using assms by (cases m) (simp_all add: bindE_def)

lemma ga_entity_dereference_by_rank_Inr:
  assumes "ga_entity_dereference_by_rank cm pop rank = Inr (ok, pop')"
  shows "\<exists>d iarr1 ident.
       0 \<le> rank \<and> rank < int (length (entity_iarray pop))
     \<and> entity_iarray pop ! nat rank = Some d
     \<and> shift_ranks rank (size_pop pop - 1) (entity_iarray pop) = Inr iarr1
     \<and> 0 \<le> size_pop pop - 1 \<and> size_pop pop - 1 < int (length iarr1)
     \<and> 0 \<le> ident \<and> ident < int (length (entity_array pop))
     \<and> entity_array pop ! nat ident = Some d
     \<and> ok
     \<and> atoms (entity_chunk pop') = removeAll d (atoms (entity_chunk pop))
     \<and> (\<forall>a. a \<noteq> d \<longrightarrow> cell (entity_chunk pop') a = cell (entity_chunk pop) a)
     \<and> pop' = pop\<lparr>size_pop := size_pop pop - 1,
                   entity_iarray := iarr1[nat (size_pop pop - 1) := None],
                   entity_array := (entity_array pop)[nat ident := None],
                   entity_chunk := entity_chunk pop'\<rparr>"
proof -
  from assms obtain dying where ld: "load (entity_iarray pop) rank = Inr dying"
    by (auto simp: ga_entity_dereference_by_rank_def bindE_def split: sum.splits)
  then have rk: "0 \<le> rank" "rank < int (length (entity_iarray pop))"
    "dying = entity_iarray pop ! nat rank"
    by (auto simp: load_def split: if_splits)
  from assms ld obtain d where d: "dying = Some d"
    by (cases dying) (auto simp: ga_entity_dereference_by_rank_def bindE_def)
  define pop1 where "pop1 = (if data (peek pop d) \<noteq> [] then poke pop d ((peek pop d)\<lparr>data := []\<rparr>) else pop)"
  have s1: "(if data (peek pop d) \<noteq> []
                  then bindE (destruct_list pop (data (peek pop d)))
                         (\<lambda>u. Inr (poke pop d ((peek pop d)\<lparr>data := []\<rparr>)))
                  else Inr pop) = Inr pop1"
    by (simp add: pop1_def destruct_list_def bindE_def)
  define pop2 where "pop2 = pop1\<lparr>size_pop := size_pop pop - 1\<rparr>"
  have p1: "size_pop pop1 = size_pop pop" "entity_iarray pop1 = entity_iarray pop"
    "entity_array pop1 = entity_array pop" "max_size pop1 = max_size pop"
    "atoms (entity_chunk pop1) = atoms (entity_chunk pop)"
    "\<forall>a. a \<noteq> d \<longrightarrow> cell (entity_chunk pop1) a = cell (entity_chunk pop) a"
    "pop1 = pop\<lparr>entity_chunk := entity_chunk pop1\<rparr>"
    by (simp_all add: pop1_def poke_def)
  have body: "bindE (c_int (size_pop pop1 - 1)) (\<lambda>size1.
           let pop2 = pop1\<lparr>size_pop := size1\<rparr> in
           bindE (if chromosome (peek pop2 d) \<noteq> None
                  then (case chromosome_destructor pop2 of
                          None \<Rightarrow> Inl Undefined
                        | Some f \<Rightarrow> Inr (poke pop2 d (call_destructor cm f pop2 (peek pop2 d))))
                  else Inr pop2) (\<lambda>pop3.
           bindE (shift_ranks rank (size_pop pop3) (entity_iarray pop3)) (\<lambda>iarr.
           bindE (store iarr (size_pop pop3) None) (\<lambda>iarr'.
           let pop4 = pop3\<lparr>entity_iarray := iarr'\<rparr> in
           bindE (ga_get_entity_id pop4 dying) (\<lambda>i.
           bindE (ga_get_entity_id pop4 dying) (\<lambda>ident.
           bindE (store (entity_array pop4) ident None) (\<lambda>arr.
             Inr (True, pop4\<lparr>entity_array := arr,
                              entity_chunk := mem_chunk_free (entity_chunk pop4) d\<rparr>)))))))) = Inr (ok, pop')"
    using assms unfolding ga_entity_dereference_by_rank_def
    by (simp only: ld bindE_Inr d option.case s1)
  from body obtain x0 where "c_int (size_pop pop1 - 1) = Inr x0"
    by (rule bindE_InrE)
  then have c: "INT_MIN \<le> size_pop pop - 1" "size_pop pop - 1 \<le> INT_MAX"
    by (auto simp: c_int_def p1(1) split: if_splits)
  then have ci: "c_int (size_pop pop1 - 1) = Inr (size_pop pop - 1)"
    by (simp add: c_int_def p1(1))
  define pop3 where "pop3 = (if chromosome (peek pop2 d) \<noteq> None
       then poke pop2 d (call_destructor cm (the (chromosome_destructor pop2)) pop2 (peek pop2 d))
       else pop2)"
  have body2: "bindE (if chromosome (peek pop2 d) \<noteq> None
                  then (case chromosome_destructor pop2 of
                          None \<Rightarrow> Inl Undefined
                        | Some f \<Rightarrow> Inr (poke pop2 d (call_destructor cm f pop2 (peek pop2 d))))
                  else Inr pop2) (\<lambda>pop3.
           bindE (shift_ranks rank (size_pop pop3) (entity_iarray pop3)) (\<lambda>iarr.
           bindE (store iarr (size_pop pop3) None) (\<lambda>iarr'.
           let pop4 = pop3\<lparr>entity_iarray := iarr'\<rparr> in
           bindE (ga_get_entity_id pop4 dying) (\<lambda>i.
           bindE (ga_get_entity_id pop4 dying) (\<lambda>ident.
           bindE (store (entity_array pop4) ident None) (\<lambda>arr.
             Inr (True, pop4\<lparr>entity_array := arr,
                              entity_chunk := mem_chunk_free (entity_chunk pop4) d\<rparr>))))))) = Inr (ok, pop')"
    using body by (simp only: ci bindE_Inr Let_def pop2_def[symmetric])
  have s3: "(if chromosome (peek pop2 d) \<noteq> None
                  then (case chromosome_destructor pop2 of
                          None \<Rightarrow> Inl Undefined
                        | Some f \<Rightarrow> Inr (poke pop2 d (call_destructor cm f pop2 (peek pop2 d))))
                  else Inr pop2) = Inr pop3"
  proof -
    from body2 obtain x3 where "(if chromosome (peek pop2 d) \<noteq> None
                  then (case chromosome_destructor pop2 of
                          None \<Rightarrow> Inl Undefined
                        | Some f \<Rightarrow> Inr (poke pop2 d (call_destructor cm f pop2 (peek pop2 d))))
                  else Inr pop2) = Inr x3"
      by (rule bindE_InrE)
    then show ?thesis
      by (auto simp: pop3_def split: if_splits option.splits)
  qed
  have p3: "size_pop pop3 = size_pop pop - 1" "entity_iarray pop3 = entity_iarray pop"
    "entity_array pop3 = entity_array pop" "max_size pop3 = max_size pop"
    "atoms (entity_chunk pop3) = atoms (entity_chunk pop)"
    "\<forall>a. a \<noteq> d \<longrightarrow> cell (entity_chunk pop3) a = cell (entity_chunk pop) a"
    using p1(1-6) by (simp_all add: pop3_def pop2_def poke_def)
  define c1 where "c1 = entity_chunk pop1"
  define c3 where "c3 = entity_chunk pop3"
  have q1: "pop1 = pop\<lparr>entity_chunk := c1\<rparr>"
    by (simp add: c1_def pop1_def poke_def)
  have q3: "pop3 = pop2\<lparr>entity_chunk := c3\<rparr>"
    by (simp add: c3_def pop3_def poke_def)
  have p3r: "pop3 = pop\<lparr>size_pop := size_pop pop - 1, entity_chunk := entity_chunk pop3\<rparr>"
    unfolding c3_def[symmetric] by (simp add: q3 pop2_def q1)
  have body3:
    "bindE (shift_ranks rank (size_pop pop3) (entity_iarray pop3)) (\<lambda>iarr.
           bindE (store iarr (size_pop pop3) None) (\<lambda>iarr'.
           let pop4 = pop3\<lparr>entity_iarray := iarr'\<rparr> in
           bindE (ga_get_entity_id pop4 (Some d)) (\<lambda>i.
           bindE (ga_get_entity_id pop4 (Some d)) (\<lambda>ident.
           bindE (store (entity_array pop4) ident None) (\<lambda>arr.
             Inr (True, pop4\<lparr>entity_array := arr,
                              entity_chunk := mem_chunk_free (entity_chunk pop4) d\<rparr>)))))) = Inr (ok, pop')"
    using body2 by (simp only: s3 bindE_Inr d)
  from body3 obtain iarr1 where
    sh0: "shift_ranks rank (size_pop pop3) (entity_iarray pop3) = Inr iarr1"
    and body3a: "bindE (store iarr1 (size_pop pop3) None) (\<lambda>iarr'.
           let pop4 = pop3\<lparr>entity_iarray := iarr'\<rparr> in
           bindE (ga_get_entity_id pop4 (Some d)) (\<lambda>i.
           bindE (ga_get_entity_id pop4 (Some d)) (\<lambda>ident.
           bindE (store (entity_array pop4) ident None) (\<lambda>arr.
             Inr (True, pop4\<lparr>entity_array := arr,
                              entity_chunk := mem_chunk_free (entity_chunk pop4) d\<rparr>))))) = Inr (ok, pop')"
    by (rule bindE_InrE)
  have sh: "shift_ranks rank (size_pop pop - 1) (entity_iarray pop) = Inr iarr1"
    using sh0 by (simp only: p3)
  from body3a obtain x4 where sx: "store iarr1 (size_pop pop3) None = Inr x4"
    by (rule bindE_InrE)
  then have st: "0 \<le> size_pop pop - 1" "size_pop pop - 1 < int (length iarr1)"
    and sx2: "store iarr1 (size_pop pop3) None = Inr (iarr1[nat (size_pop pop - 1) := None])"
    by (auto simp: p3 store_def split: if_splits)
  define pop4 where "pop4 = pop3\<lparr>entity_iarray := iarr1[nat (size_pop pop - 1) := None]\<rparr>"
  from body3a have body4:
    "bindE (ga_get_entity_id pop4 (Some d)) (\<lambda>i.
           bindE (ga_get_entity_id pop4 (Some d)) (\<lambda>ident.
           bindE (store (entity_array pop4) ident None) (\<lambda>arr.
             Inr (True, pop4\<lparr>entity_array := arr,
                              entity_chunk := mem_chunk_free (entity_chunk pop4) d\<rparr>)))) = Inr (ok, pop')"
    by (simp only: sx2 bindE_Inr Let_def pop4_def[symmetric])
  from body4 obtain i0 where "ga_get_entity_id pop4 (Some d) = Inr i0"
    and body4a: "bindE (ga_get_entity_id pop4 (Some d)) (\<lambda>ident.
           bindE (store (entity_array pop4) ident None) (\<lambda>arr.
             Inr (True, pop4\<lparr>entity_array := arr,
                              entity_chunk := mem_chunk_free (entity_chunk pop4) d\<rparr>))) = Inr (ok, pop')"
    by (rule bindE_InrE)
  from body4a obtain ident where idt0: "ga_get_entity_id pop4 (Some d) = Inr ident"
    and body5: "bindE (store (entity_array pop4) ident None) (\<lambda>arr.
             Inr (True, pop4\<lparr>entity_array := arr,
                              entity_chunk := mem_chunk_free (entity_chunk pop4) d\<rparr>)) = Inr (ok, pop')"
    by (rule bindE_InrE)
  have idt: "ga_get_entity_id_from pop4 d 0 = Inr ident"
    using idt0 by (simp add: ga_get_entity_id_def)
  have p4: "entity_array pop4 = entity_array pop" "max_size pop4 = max_size pop"
    by (simp_all add: pop4_def p3)
  from body5 have b5: "0 \<le> ident" "ident < int (length (entity_array pop))"
    "ok" "pop' = pop4\<lparr>entity_array := (entity_array pop)[nat ident := None],
                              entity_chunk := mem_chunk_free (entity_chunk pop4) d\<rparr>"
    by (auto simp: bindE_def store_def p4 split: if_splits)
  from ga_get_entity_id_from_Inr[OF idt] b5(1) have
    e: "entity_array pop ! nat ident = Some d"
    by (auto simp: p4)
  have ch: "entity_chunk pop' = mem_chunk_free (entity_chunk pop3) d"
    by (simp add: b5(4) pop4_def)
  have A: "atoms (entity_chunk pop') = removeAll d (atoms (entity_chunk pop))"
    by (simp add: ch mem_chunk_free_def p3)
  have B: "\<forall>a. a \<noteq> d \<longrightarrow> cell (entity_chunk pop') a = cell (entity_chunk pop) a"
    using p3(6) by (simp add: ch mem_chunk_free_def)
  have C: "pop' = pop\<lparr>size_pop := size_pop pop - 1,
                   entity_iarray := iarr1[nat (size_pop pop - 1) := None],
                   entity_array := (entity_array pop)[nat ident := None],
                   entity_chunk := entity_chunk pop'\<rparr>"
  proof -
    define c' where "c' = entity_chunk pop'"
    have cc: "c' = mem_chunk_free c3 d" by (simp add: c'_def ch c3_def)
    have "pop' = pop\<lparr>size_pop := size_pop pop - 1,
                   entity_iarray := iarr1[nat (size_pop pop - 1) := None],
                   entity_array := (entity_array pop)[nat ident := None],
                   entity_chunk := c'\<rparr>"
      by (subst b5(4)) (simp add: cc pop4_def q3 pop2_def q1)
    then show ?thesis by (simp add: c'_def)
  qed
  have r3: "entity_iarray pop ! nat rank = Some d" using rk(3) d by simp
  note facts = rk(1,2) r3 sh st b5(1-3) e A B C
  show ?thesis
    by (intro exI conjI) (rule facts)+
qed

subsection \<open>\<open>ga_entity_dereference_by_rank\<close> keeps the invariant\<close>

lemma pool_inv_dereference:
  assumes "pool_inv pop" "ga_entity_dereference_by_rank cm pop rank = Inr (ok, pop')"
  shows "pool_inv pop'"
    and "0 \<le> rank" and "rank < size_pop pop" and "size_pop pop' = size_pop pop - 1"
    and "entity_iarray pop' =
           take (nat rank) (entity_iarray pop) @ drop (Suc (nat rank)) (ranked pop)
           @ None # drop (nat (size_pop pop)) (entity_iarray pop)"
    and "\<exists>d ident. entity_iarray pop ! nat rank = Some d \<and> ident < length (entity_array pop)
           \<and> entity_array pop ! ident = Some d
           \<and> entity_array pop' = (entity_array pop)[ident := None]
           \<and> atoms (entity_chunk pop') = removeAll d (atoms (entity_chunk pop))"
proof -
  note i = pool_invD[OF assms(1)]
  from ga_entity_dereference_by_rank_Inr[OF assms(2)] obtain d iarr1 ident where
    rk: "0 \<le> rank" "rank < int (length (entity_iarray pop))"
    and dy: "entity_iarray pop ! nat rank = Some d"
    and sh: "shift_ranks rank (size_pop pop - 1) (entity_iarray pop) = Inr iarr1"
    and st: "0 \<le> size_pop pop - 1" "size_pop pop - 1 < int (length iarr1)"
    and idt: "0 \<le> ident" "ident < int (length (entity_array pop))"
      "entity_array pop ! nat ident = Some d"
    and at: "atoms (entity_chunk pop') = removeAll d (atoms (entity_chunk pop))"
    and p: "pop' = pop\<lparr>size_pop := size_pop pop - 1,
                   entity_iarray := iarr1[nat (size_pop pop - 1) := None],
                   entity_array := (entity_array pop)[nat ident := None],
                   entity_chunk := entity_chunk pop'\<rparr>"
    by blast
  define iarr where "iarr = entity_iarray pop"
  define arr where "arr = entity_array pop"
  define k where "k = nat rank"
  define n where "n = nat (size_pop pop)"
  define j where "j = nat ident"
  have kl: "k < length iarr" using rk by (simp add: k_def iarr_def)
  have nl: "n \<le> length iarr" using i(1,2,5) by (simp add: n_def iarr_def)
  have kn: "k < n"
  proof (rule ccontr)
    assume "\<not> k < n"
    then have "k - n < length (drop n iarr)" "drop n iarr ! (k - n) = iarr ! k"
      using kl by simp_all
    then have "iarr ! k \<in> set (drop n iarr)"
      by (metis nth_mem)
    then show False using i(10) dy by (auto simp: n_def iarr_def k_def)
  qed
  show "0 \<le> rank" by (rule rk(1))
  show rs: "rank < size_pop pop" using kn rk(1) by (simp add: k_def n_def)
  define m where "m = n - 1"
  have sz: "nat (size_pop pop - 1) = m" "n = Suc m"
    using st(1) by (auto simp: n_def m_def)
  have sr: "shift_ranks rank (size_pop pop - 1) iarr =
       Inr (take k iarr @ take (nat (size_pop pop - 1 - rank)) (drop (Suc k) iarr)
            @ drop (nat (size_pop pop - 1)) iarr)"
    unfolding k_def
    by (rule shift_ranks_eq) (use rk rs i(2,5) in \<open>auto simp: iarr_def\<close>)
  have nk: "nat (size_pop pop - 1 - rank) = m - k"
    using rs rk(1) sz by (simp add: n_def k_def)
  define A where "A = take k iarr"
  define B where "B = take (m - k) (drop (Suc k) iarr)"
  have i1: "iarr1 = A @ B @ drop m iarr"
    using sh sr by (simp add: iarr_def[symmetric] nk sz(1) A_def B_def)
  have lAB: "length (A @ B) = m"
    using kn nl sz(2) by (auto simp: A_def B_def)
  have dn: "drop m iarr = iarr ! m # drop n iarr"
  proof -
    have "m < length iarr" using nl sz(2) by simp
    then have "drop m iarr = iarr ! m # drop (Suc m) iarr"
      by (rule Cons_nth_drop_Suc[symmetric])
    then show ?thesis unfolding sz(2) .
  qed
  have up: "iarr1[m := None] = A @ B @ None # drop n iarr"
  proof -
    have "iarr1 = (A @ B) @ iarr ! m # drop n iarr" unfolding i1 dn by simp
    moreover have "((A @ B) @ iarr ! m # drop n iarr)[length (A @ B) := None] =
        (A @ B) @ None # drop n iarr"
      by (rule list_update_length)
    ultimately show ?thesis unfolding lAB by simp
  qed
  have B2: "B = drop (Suc k) (take n iarr)"
    by (simp add: B_def drop_take sz(2))
  have A2: "A = take k (take n iarr)"
    using kn by (simp add: A_def min_def)
  have ia: "entity_iarray pop' = A @ B @ None # drop n iarr"
    by (subst p) (simp add: sz(1) up)
  show "entity_iarray pop' =
           take (nat rank) (entity_iarray pop) @ drop (Suc (nat rank)) (ranked pop)
           @ None # drop (nat (size_pop pop)) (entity_iarray pop)"
    using ia by (simp add: A_def B2 ranked_def iarr_def k_def n_def)
  show s': "size_pop pop' = size_pop pop - 1" by (subst p) simp
  define T where "T = take n iarr"
  have T: "T = ranked pop" by (simp add: T_def ranked_def n_def iarr_def)
  have lT: "length T = n" using nl by (simp add: T_def)
  have Tk: "T ! k = Some d" using kn dy by (simp add: T_def iarr_def k_def)
  have Ts: "T = A @ Some d # B"
    using id_take_nth_drop[of k T] kn lT Tk by (simp add: A2 B2 T_def)
  have dT: "distinct T" "None \<notin> set T" using i(7,8) T by simp_all
  have r': "ranked pop' = A @ B"
    unfolding ranked_def s' ia sz(1) using lAB by simp
  have sAB: "set (A @ B) = set T - {Some d}" "distinct (A @ B)" "None \<notin> set (A @ B)"
    using dT unfolding Ts by auto
  have jl: "j < length arr" "arr ! j = Some d"
    using idt by (simp_all add: j_def arr_def)
  note fs = filter_set_None[OF jl]
  have dl: "distinct (filter (\<lambda>x. x \<noteq> None) arr)"
    using pool_inv_distinct_live[OF assms(1)] by (simp add: live_slots_def arr_def)
  have ea: "entity_array pop' = arr[j := None]"
    by (subst p) (simp add: arr_def j_def)
  have l': "live_slots pop' = filter (\<lambda>x. x \<noteq> None) (arr[j := None])"
    by (simp add: live_slots_def ea)
  have ls: "live_slots pop = filter (\<lambda>x. x \<noteq> None) arr"
    by (simp add: live_slots_def arr_def)
  have c1: "length (live_slots pop') = m"
    using fs(1) i(6) sz(2) unfolding l' ls[symmetric] n_def[symmetric] by simp
  have c2: "set (live_slots pop') = set T - {Some d}"
    using fs(3)[OF dl] i(9) unfolding l' ls[symmetric] T by simp
  have v: "\<forall>e. Some e \<in> set (entity_array pop') \<longrightarrow> e \<in> set (atoms (entity_chunk pop'))"
  proof (intro allI impI)
    fix e assume a: "Some e \<in> set (entity_array pop')"
    then have "Some e \<in> set (live_slots pop')" by (simp add: live_slots_def)
    then have "Some e \<in> set T" "e \<noteq> d" using c2 by auto
    then have "Some e \<in> set (live_slots pop)" using i(9) T by simp
    then have "Some e \<in> set (entity_array pop)" by (simp add: live_slots_def)
    then show "e \<in> set (atoms (entity_chunk pop'))"
      using i(11) \<open>e \<noteq> d\<close> at by simp
  qed
  have m': "max_size pop' = max_size pop" by (subst p) simp
  have len: "length (entity_array pop') = nat (max_size pop)"
    "length (entity_iarray pop') = nat (max_size pop)"
    using i(4,5) lAB nl sz(2) unfolding ea ia by (auto simp: arr_def iarr_def)
  have dr: "drop (nat (size_pop pop')) (entity_iarray pop') = None # drop n iarr"
    unfolding s' ia sz(1) using lAB by simp
  have dn0: "\<forall>x \<in> set (drop n iarr). x = None"
    using i(10) by (simp add: n_def iarr_def)
  show "pool_inv pop'"
    unfolding pool_inv_def m' len r' dr c1 c2
    using st(1) rs rk(1) i(2,3) sAB dn0 v s' sz(1)
    by auto
  show "\<exists>d ident. entity_iarray pop ! nat rank = Some d \<and> ident < length (entity_array pop)
           \<and> entity_array pop ! ident = Some d
           \<and> entity_array pop' = (entity_array pop)[ident := None]
           \<and> atoms (entity_chunk pop') = removeAll d (atoms (entity_chunk pop))"
    using dy jl ea at unfolding arr_def by blast
qed

subsection \<open>The pool operations on the example population\<close>

lemmas pool_eval =
  ga_get_free_entity_def ga_get_free_entity_room_def ga_entity_setup_def
  mem_chunk_alloc_def mem_chunk_new_def bindE_def store_def load_def c_int_def c_div_def
  INT_MAX_def INT_MIN_def poke_def peek_def Let_def example_code_def example_header_def
  cells_request_def cells_fit_def

lemma example_get_free_entity_1:
  "ga_get_free_entity example_header example_code example_population = Some (Inr (0, example_pool1))"
  by (simp add: pool_eval example_population_def example_pool1_def find_unused.simps)
     (simp add: eval_nat_numeral)

lemma example_pool_inv:
  "pool_inv example_population" "pool_inv example_pool1" "pool_inv example_pool3"
  by (auto simp: pool_inv_def live_slots_def ranked_def example_population_def
        example_pool1_def example_pool3_def INT_MAX_def mem_chunk_new_def)

lemma example_room_3:
  "ga_get_free_entity_room example_header example_pool3 =
     Inr (example_pool3\<lparr>entity_array := [None, Some 2, Some 1, Some 0, None, None],
                         entity_iarray := [Some 0, Some 1, Some 2, None, None, None],
                         max_size := 6, free_index := 5\<rparr>)"
  by (simp add: ga_get_free_entity_room_def bindE_def c_int_def c_div_def INT_MAX_def INT_MIN_def
        Let_def example_pool3_def example_population_def cells_request_def cells_fit_def)
     (simp add: wipe_entity_arrays_eq s_realloc_def eval_nat_numeral)

lemma example_get_free_entity_3:
  "map_option (map_sum id (\<lambda>(e, p). (e, max_size p, size_pop p, entity_array p, entity_iarray p)))
     (ga_get_free_entity example_header example_code example_pool3) =
   Some (Inr (3, 6, 4, [None, Some 2, Some 1, Some 0, None, Some 3],
              [Some 0, Some 1, Some 2, Some 3, None, None]))"
  by (simp add: ga_get_free_entity_def example_room_3 find_unused.simps)
     (simp add: ga_entity_setup_def
        mem_chunk_alloc_def mem_chunk_new_def bindE_def store_def load_def c_int_def
        INT_MAX_def INT_MIN_def poke_def peek_def Let_def example_code_def example_header_def
  cells_request_def cells_fit_def
        example_population_def example_pool3_def)

lemma example_dereference_1:
  "map_sum id (\<lambda>(ok, p). (ok, max_size p, size_pop p, entity_array p, entity_iarray p,
        atoms (entity_chunk p)))
     (ga_entity_dereference_by_rank example_code example_pool3 1) =
   Inr (True, 4, 2, [None, Some 2, None, Some 0], [Some 0, Some 2, None, None], [2, 0])"
  by (simp add: ga_entity_dereference_by_rank_def pool_eval example_population_def
        example_pool3_def destruct_list_def shift_ranks.simps ga_get_entity_id_def
        ga_get_entity_id_from.simps mem_chunk_free_def)

section \<open>The pool invariant\<close>

lemma map_option_map_sum_Inr:
  "map_option (map_sum f g) m = Some (Inr y) \<Longrightarrow> \<exists>x. m = Some (Inr x) \<and> g x = y"
  by (cases m; cases "the m") auto

lemma map_sum_Inr: "map_sum f g m = Inr y \<Longrightarrow> \<exists>x. m = Inr x \<and> g x = y"
  by (cases m) auto

lemma shifted_nth:
  assumes "k < n" "n \<le> length iarr"
    and "iarr' = take k iarr @ drop (Suc k) (take n iarr) @ None # drop n iarr"
  shows "\<forall>i. i < k \<longrightarrow> iarr' ! i = iarr ! i"
    and "\<forall>i. k \<le> i \<and> i < n - 1 \<longrightarrow> iarr' ! i = iarr ! Suc i"
    and "iarr' ! (n - 1) = None"
proof -
  have lk: "length (take k iarr) = k" using assms(1,2) by simp
  have ld: "length (drop (Suc k) (take n iarr)) = n - Suc k" using assms(1,2) by simp
  show "\<forall>i. i < k \<longrightarrow> iarr' ! i = iarr ! i"
    unfolding assms(3) using lk by (simp add: nth_append)
  show "\<forall>i. k \<le> i \<and> i < n - 1 \<longrightarrow> iarr' ! i = iarr ! Suc i"
  proof (intro allI impI)
    fix i assume a: "k \<le> i \<and> i < n - 1"
    then have "iarr' ! i = (drop (Suc k) (take n iarr) @ None # drop n iarr) ! (i - k)"
      unfolding assms(3) using lk by (simp add: nth_append)
    also have "\<dots> = drop (Suc k) (take n iarr) ! (i - k)"
    proof -
      have "i - k < length (drop (Suc k) (take n iarr))"
        unfolding ld using a assms(1) by linarith
      then show ?thesis by (simp only: nth_append if_True)
    qed
    also have "\<dots> = iarr ! Suc i"
    proof -
      have "Suc i < n" "Suc k + (i - k) = Suc i" using a by linarith+
      then show ?thesis using assms(2) by (simp add: min_def)
    qed
    finally show "iarr' ! i = iarr ! Suc i" .
  qed
  have "iarr' = (take k iarr @ drop (Suc k) (take n iarr)) @ None # drop n iarr"
    unfolding assms(3) by simp
  moreover have "length (take k iarr @ drop (Suc k) (take n iarr)) = n - 1"
    using assms(1,2) by simp
  ultimately show "iarr' ! (n - 1) = None"
    by (metis nth_append_length)
qed

text \<open>
  C1.  The size/rank invariant is kept by the pool operations.  On a population that satisfies
  \<open>pool_inv\<close>, whenever \<open>ga_get_free_entity\<close> returns, the new population satisfies
  \<open>pool_inv\<close> and has one entity more; whenever \<open>ga_entity_dereference_by_rank\<close> returns,
  the new population satisfies \<open>pool_inv\<close>, the rank was that of a live entity, the ranks
  below it are as they were, every rank above it has moved down by one, the last rank is
  NULL, the id cell of the dying entity is NULL, its atom is given back, and the size is one
  less.
\<close>

theorem pool_invariant_preserved:
  assumes "pool_inv pop"
  shows "(\<forall>e pop'. ga_get_free_entity h cm pop = Some (Inr (e, pop')) \<longrightarrow>
            pool_inv pop' \<and> size_pop pop' = size_pop pop + 1)
       \<and> (\<forall>ok pop'. ga_entity_dereference_by_rank cm pop rank = Inr (ok, pop') \<longrightarrow>
            pool_inv pop' \<and> size_pop pop' = size_pop pop - 1
            \<and> 0 \<le> rank \<and> rank < size_pop pop
            \<and> (\<forall>i. i < nat rank \<longrightarrow> entity_iarray pop' ! i = entity_iarray pop ! i)
            \<and> (\<forall>i. nat rank \<le> i \<and> i < nat (size_pop pop) - 1 \<longrightarrow>
                   entity_iarray pop' ! i = entity_iarray pop ! Suc i)
            \<and> entity_iarray pop' ! (nat (size_pop pop) - 1) = None
            \<and> (\<exists>d ident. entity_iarray pop ! nat rank = Some d
                   \<and> ident < length (entity_array pop)
                   \<and> entity_array pop ! ident = Some d
                   \<and> entity_array pop' = (entity_array pop)[ident := None]
                   \<and> atoms (entity_chunk pop') = removeAll d (atoms (entity_chunk pop))))"
proof (intro conjI)
  show "\<forall>e pop'. ga_get_free_entity h cm pop = Some (Inr (e, pop')) \<longrightarrow>
            pool_inv pop' \<and> size_pop pop' = size_pop pop + 1"
    using pool_inv_get_free_entity(1,2)[OF assms] by blast
  show "\<forall>ok pop'. ga_entity_dereference_by_rank cm pop rank = Inr (ok, pop') \<longrightarrow>
            pool_inv pop' \<and> size_pop pop' = size_pop pop - 1
            \<and> 0 \<le> rank \<and> rank < size_pop pop
            \<and> (\<forall>i. i < nat rank \<longrightarrow> entity_iarray pop' ! i = entity_iarray pop ! i)
            \<and> (\<forall>i. nat rank \<le> i \<and> i < nat (size_pop pop) - 1 \<longrightarrow>
                   entity_iarray pop' ! i = entity_iarray pop ! Suc i)
            \<and> entity_iarray pop' ! (nat (size_pop pop) - 1) = None
            \<and> (\<exists>d ident. entity_iarray pop ! nat rank = Some d
                   \<and> ident < length (entity_array pop)
                   \<and> entity_array pop ! ident = Some d
                   \<and> entity_array pop' = (entity_array pop)[ident := None]
                   \<and> atoms (entity_chunk pop') = removeAll d (atoms (entity_chunk pop)))"
  proof (intro allI impI)
    fix ok pop'
    assume a: "ga_entity_dereference_by_rank cm pop rank = Inr (ok, pop')"
    note d = pool_inv_dereference[OF assms a]
    note i = pool_invD[OF assms]
    have kn: "nat rank < nat (size_pop pop)" "nat (size_pop pop) \<le> length (entity_iarray pop)"
      using d(2,3) i(1,2,5) by auto
    note s = shifted_nth[OF kn d(5)[unfolded ranked_def]]
    show "pool_inv pop' \<and> size_pop pop' = size_pop pop - 1
            \<and> 0 \<le> rank \<and> rank < size_pop pop
            \<and> (\<forall>i. i < nat rank \<longrightarrow> entity_iarray pop' ! i = entity_iarray pop ! i)
            \<and> (\<forall>i. nat rank \<le> i \<and> i < nat (size_pop pop) - 1 \<longrightarrow>
                   entity_iarray pop' ! i = entity_iarray pop ! Suc i)
            \<and> entity_iarray pop' ! (nat (size_pop pop) - 1) = None
            \<and> (\<exists>d ident. entity_iarray pop ! nat rank = Some d
                   \<and> ident < length (entity_array pop)
                   \<and> entity_array pop ! ident = Some d
                   \<and> entity_array pop' = (entity_array pop)[ident := None]
                   \<and> atoms (entity_chunk pop') = removeAll d (atoms (entity_chunk pop)))"
      by (intro conjI) (rule d(1) d(4) d(2) d(3) s(1) s(2) s(3) d(6))+
  qed
qed

theorem pool_invariant_preserved_witness:
  "pool_inv example_pool3
   \<and> (\<exists>e pop'. ga_get_free_entity example_header example_code example_pool3 = Some (Inr (e, pop'))
         \<and> pool_inv pop' \<and> size_pop pop' = 4)
   \<and> (\<exists>ok pop'. ga_entity_dereference_by_rank example_code example_pool3 1 = Inr (ok, pop')
         \<and> pool_inv pop' \<and> size_pop pop' = 2
         \<and> entity_iarray pop' ! 0 = Some 0 \<and> entity_iarray pop' ! 1 = Some 2
         \<and> entity_iarray pop' ! 2 = None)"
proof -
  have s: "size_pop example_pool3 = 3" "entity_iarray example_pool3 = [Some 0, Some 1, Some 2, None]"
    by (simp_all add: example_pool3_def)
  obtain e pop1 where g: "ga_get_free_entity example_header example_code example_pool3 = Some (Inr (e, pop1))"
    using map_option_map_sum_Inr[OF example_get_free_entity_3] by auto
  obtain ok pop2 where d: "ga_entity_dereference_by_rank example_code example_pool3 1 = Inr (ok, pop2)"
    using map_sum_Inr[OF example_dereference_1] by auto
  note t = pool_invariant_preserved[OF example_pool_inv(3), of example_header example_code 1]
  have "pool_inv pop1 \<and> size_pop pop1 = 4" using t g s by auto
  moreover have "pool_inv pop2 \<and> size_pop pop2 = 2 \<and> entity_iarray pop2 ! 0 = Some 0
      \<and> entity_iarray pop2 ! 1 = Some 2 \<and> entity_iarray pop2 ! 2 = None"
  proof -
    from t d have u: "pool_inv pop2" "size_pop pop2 = size_pop example_pool3 - 1"
      "\<forall>i. i < nat 1 \<longrightarrow> entity_iarray pop2 ! i = entity_iarray example_pool3 ! i"
      "\<forall>i. nat 1 \<le> i \<and> i < nat (size_pop example_pool3) - 1 \<longrightarrow>
                   entity_iarray pop2 ! i = entity_iarray example_pool3 ! Suc i"
      "entity_iarray pop2 ! (nat (size_pop example_pool3) - 1) = None"
      by blast+
    from u(3) have "entity_iarray pop2 ! 0 = Some 0" by (simp add: s)
    moreover from u(4)[rule_format, of 1] have "entity_iarray pop2 ! 1 = Some 2" by (simp add: s)
    moreover from u(5) have "entity_iarray pop2 ! 2 = None" by (simp add: s)
    ultimately show ?thesis using u(1,2) s by simp
  qed
  ultimately show ?thesis using example_pool_inv(3) g d by blast
qed

section \<open>Seeding\<close>

lemma ga_population_seed_Inr:
  assumes "ga_population_seed h cm pop = Some (Inr (ok, pop'))"
  shows "ok" "\<exists>p f. pop = Some p \<and> seed p = Some f
      \<and> ga_population_seed_loop h cm (nat (stable_size p)) p = Some (Inr pop')"
  using assms
  by (auto simp: ga_population_seed_def split: option.splits sum.splits)

lemma ga_entity_seed_Inr:
  assumes "ga_entity_seed cm (Some p) adam = Inr (ok, p')" "seed p = Some f"
  shows "ok = fst (call_seed cm f p (peek p adam))"
  using assms by (auto simp: ga_entity_seed_def split: prod.splits)

lemma example_seed_loop:
  "ga_population_seed_loop example_header example_code (nat (stable_size example_population))
     example_population = Some (Inr example_pool1)"
proof -
  have s: "nat (stable_size example_population) = Suc 0" "seed example_pool1 = Some (User 1)"
    by (simp_all add: example_population_def example_pool1_def)
  have c: "\<And>f. call_seed example_code f example_pool1 (peek example_pool1 0)
      = (False, peek example_pool1 0)"
    by (simp add: example_code_def)
  have p: "poke example_pool1 0 (peek example_pool1 0) = example_pool1"
    by (simp add: poke_def peek_def)
  show ?thesis
    unfolding s by (simp add: example_get_free_entity_1 s c p)
qed

text \<open>
  C6.  \<open>ga_population_seed\<close> does not pass on what the seed callback returns.  Whenever it
  returns, it returns TRUE, whatever the callback has returned for the entities it seeded:
  the loop calls \<open>pop->seed(pop, adam)\<close> and drops the result, and the function ends with
  \<open>return TRUE\<close>.  \<open>ga_entity_seed\<close>, for one entity, returns what the callback returned.
\<close>

theorem ga_population_seed_returns_true:
  "(\<forall>ok pop'. ga_population_seed h cm pop = Some (Inr (ok, pop')) \<longrightarrow> ok) \<and>
   (\<forall>f ok p'. seed p = Some f \<and> ga_entity_seed cm (Some p) adam = Inr (ok, p') \<longrightarrow>
        ok = fst (call_seed cm f p (peek p adam)))"
  using ga_population_seed_Inr(1) ga_entity_seed_Inr by blast

theorem ga_population_seed_returns_true_witness:
  "fst (call_seed example_code (User 1) example_pool1 (peek example_pool1 0)) = False
   \<and> ga_population_seed example_header example_code (Some example_population)
       = Some (Inr (True, example_pool1))
   \<and> ga_entity_seed example_code (Some example_pool1) 0 = Inr (False, example_pool1)"
proof -
  have c: "\<And>f. call_seed example_code f example_pool1 (peek example_pool1 0)
      = (False, peek example_pool1 0)"
    by (simp add: example_code_def)
  have s: "seed example_population = Some (User 1)" "seed example_pool1 = Some (User 1)"
    by (simp_all add: example_population_def example_pool1_def)
  have p: "poke example_pool1 0 (peek example_pool1 0) = example_pool1"
    by (simp add: poke_def peek_def)
  have a: "\<exists>ok. ga_population_seed example_header example_code (Some example_population)
      = Some (Inr (ok, example_pool1))"
    by (auto simp: ga_population_seed_def s example_seed_loop)
  have b: "\<exists>ok. ga_entity_seed example_code (Some example_pool1) 0 = Inr (ok, example_pool1)"
    by (auto simp: ga_entity_seed_def s c p)
  note t = ga_population_seed_returns_true[where h = example_header and cm = example_code
      and pop = "Some example_population" and p = example_pool1 and adam = 0]
  from a t have a': "ga_population_seed example_header example_code (Some example_population)
      = Some (Inr (True, example_pool1))" by auto
  from b t s(2) c[of "User 1"] have b': "ga_entity_seed example_code (Some example_pool1) 0
      = Inr (False, example_pool1)" by auto
  show ?thesis using a' b' c by simp
qed

section \<open>Getting a free entity\<close>

lemma scan_down_finds:
  "j \<le> n \<Longrightarrow> arr ! j = None \<Longrightarrow> scan_down arr n \<noteq> None"
  by (induction n) (auto simp: le_Suc_eq)

lemma scan_wrapping_finds:
  assumes "j < length arr" "arr ! j = None"
  shows "\<exists>k. scan_wrapping arr c = Some k"
  using scan_down_finds[of j "length arr - 1" arr] assms
  by (auto simp: scan_wrapping_def split: option.splits)

lemma live_slots_free:
  assumes "length (filter (\<lambda>x. x \<noteq> None) xs) < length xs"
  shows "\<exists>j<length xs. xs ! j = None"
proof -
  have "\<not> (\<forall>x\<in>set xs. x \<noteq> None)"
  proof
    assume "\<forall>x\<in>set xs. x \<noteq> None"
    from filter_True[of xs "\<lambda>x. x \<noteq> None", OF this] assms show False
      by (metis less_irrefl)
  qed
  then show ?thesis by (metis in_set_conv_nth)
qed

lemma live_slots_full:
  assumes "length (filter (\<lambda>x. x \<noteq> None) xs) = length xs"
  shows "\<forall>j<length xs. xs ! j \<noteq> None"
proof (intro allI impI)
  fix j assume "j < length xs"
  then have "xs ! j \<in> set xs" by simp
  then show "xs ! j \<noteq> None"
    using assms length_filter_less[of "xs ! j" xs "\<lambda>x. x \<noteq> None"] by auto
qed

lemma ga_get_free_entity_room_returns:
  assumes inv: "pool_inv pop" and lt: "size_pop pop < INT_MAX"
    and g: "max_size pop = size_pop pop + 1 \<longrightarrow>
       max_size pop * 3 \<le> INT_MAX
       \<and> memory_for h (cells_request h ((max_size pop * 3) div 2))
       \<and> cells_fit h ((max_size pop * 3) div 2)"
  shows "\<exists>pop1. ga_get_free_entity_room h pop = Inr pop1"
proof (cases "max_size pop = size_pop pop + 1")
  case False
  then show ?thesis
    using pool_invD(1)[OF inv] lt
    by (simp add: ga_get_free_entity_room_def bindE_def c_int_def INT_MIN_def)
next
  case True
  note d = pool_invD[OF inv]
  define n where "n = (max_size pop * 3) div 2"
  have m0: "0 \<le> max_size pop" using d(1,2) by simp
  have cd: "c_div (max_size pop * 3) 2 = n"
    using m0 by (simp add: c_div_2 n_def)
  have mn: "max_size pop \<le> n" "0 \<le> n" "1 \<le> n" using m0 True d(1) by (auto simp: n_def)
  have r: "max_size pop * 3 \<le> INT_MAX" "memory_for h (cells_request h n)" "cells_fit h n"
    using g True by (auto simp: n_def)
  have n1: "n - 1 \<le> INT_MAX" using r(1) by (auto simp: n_def INT_MAX_def)
  have w: "wipe_entity_arrays (max_size pop) n (s_realloc (entity_array pop) (nat n))
             (s_realloc (entity_iarray pop) (nat n)) =
           Inr (entity_array pop @ replicate (nat (n - max_size pop)) None,
                entity_iarray pop @ replicate (nat (n - max_size pop)) None)"
    by (rule wipe_grown[OF m0 mn(1) d(4,5)])
  have s1: "c_int (size_pop pop + 1) = Inr (max_size pop)"
    using True lt d(1) by (simp add: c_int_def INT_MIN_def)
  have s3: "c_int (max_size pop * 3) = Inr (max_size pop * 3)"
    using r(1) m0 by (simp add: c_int_def INT_MIN_def)
  have s4: "c_int (n - 1) = Inr (n - 1)"
    using n1 mn by (simp add: c_int_def INT_MIN_def)
  have nn: "\<not> n < 0" using mn by simp
  show ?thesis
    unfolding ga_get_free_entity_room_def s1
    by (simp add: bindE_def s3 Let_def cd w s4 r nn)
qed

lemma ga_get_free_entity_returns:
  assumes inv: "pool_inv pop" and lt: "size_pop pop < max_size pop"
    and c: "0 \<le> free_index pop" "free_index pop < max_size pop"
    and cons: "chromosome_constructor pop = Some f"
    and g: "max_size pop = size_pop pop + 1 \<longrightarrow>
       max_size pop * 3 \<le> INT_MAX
       \<and> memory_for h (cells_request h ((max_size pop * 3) div 2))
       \<and> cells_fit h ((max_size pop * 3) div 2)"
  shows "\<exists>e pop'. ga_get_free_entity h cm pop = Some (Inr (e, pop'))"
proof -
  note d = pool_invD[OF inv]
  have "size_pop pop < INT_MAX" using lt d(3) by simp
  from ga_get_free_entity_room_returns[OF inv this g]
  obtain pop1 where room: "ga_get_free_entity_room h pop = Inr pop1" by blast
  note i1 = pool_inv_room[OF inv room]
  note d1 = pool_invD[OF i1(1)]
  have m0: "0 \<le> max_size pop" using d(1,2) by simp
  note r = ga_get_free_entity_room_Inr[OF room m0 d(4,5)]
  have cur: "0 \<le> free_index pop1" "free_index pop1 < max_size pop1"
    and cons1: "chromosome_constructor pop1 = Some f"
    using r c cons d(1) by (cases "max_size pop = size_pop pop + 1"; auto)+
  have lt1: "size_pop pop1 < max_size pop1" using i1(2,4) lt by simp
  have m: "max_size pop1 = int (length (entity_array pop1))"
    using d1(1,2,4) by simp
  have "length (filter (\<lambda>x. x \<noteq> None) (entity_array pop1)) < length (entity_array pop1)"
    using d1(6) d1(4) d1(1) lt1 by (simp add: live_slots_def)
  from live_slots_free[OF this] obtain j where
    "j < length (entity_array pop1)" "entity_array pop1 ! j = None" by blast
  from scan_wrapping_finds[OF this] obtain k where
    k: "scan_wrapping (entity_array pop1) (nat (free_index pop1)) = Some k" by blast
  have fu: "find_unused (entity_array pop1) (max_size pop1) (free_index pop1) = Some (Inr (int k))"
    using find_unused_scan[OF m cur] k by simp
  have kl: "k < length (entity_array pop1)"
    using scan_wrapping_Some(1)[OF k] cur m by simp
  have sz: "0 \<le> size_pop pop1" "size_pop pop1 < int (length (entity_iarray pop1))"
    "size_pop pop1 + 1 \<le> INT_MAX"
    using d1(1,3,5) lt1 by auto
  show ?thesis
    unfolding ga_get_free_entity_def room
    using kl sz cons1
    by (simp add: fu mem_chunk_alloc_def Let_def bindE_def store_def ga_entity_setup_def
        poke_def c_int_def INT_MIN_def)
qed

lemma ga_get_free_entity_full:
  assumes inv: "pool_inv pop" and full: "size_pop pop = max_size pop"
    and c: "0 \<le> free_index pop" "free_index pop < max_size pop"
    and lt: "max_size pop < INT_MAX"
  shows "ga_get_free_entity h cm pop = None"
proof -
  note d = pool_invD[OF inv]
  have room: "ga_get_free_entity_room h pop = Inr pop"
    using full lt d(1)
    by (simp add: ga_get_free_entity_room_def bindE_def c_int_def INT_MIN_def)
  have m: "max_size pop = int (length (entity_array pop))" using d(1,2,4) by simp
  have "length (filter (\<lambda>x. x \<noteq> None) (entity_array pop)) = length (entity_array pop)"
    using d(6) d(4) full by (simp add: live_slots_def)
  note a = live_slots_full[OF this]
  have "find_unused (entity_array pop) (max_size pop) (free_index pop) = None"
  proof (cases "find_unused (entity_array pop) (max_size pop) (free_index pop)")
    case None then show ?thesis .
  next
    case (Some r)
    from find_unused_full[OF Some a m c] show ?thesis ..
  qed
  then show ?thesis
    unfolding ga_get_free_entity_def room by simp
qed


lemma ga_get_free_entity_steps:
  assumes inv: "pool_inv pop" and a: "ga_get_free_entity h cm pop = Some (Inr (e, pop'))"
  shows "\<exists>pop1 fi f ent0 popc.
        (max_size pop \<noteq> size_pop pop + 1 \<longrightarrow> pop1 = pop)
      \<and> (max_size pop = size_pop pop + 1 \<longrightarrow>
           pop1 = pop\<lparr>entity_array := entity_array pop
                          @ replicate (nat ((max_size pop * 3) div 2 - max_size pop)) None,
                        entity_iarray := entity_iarray pop
                          @ replicate (nat ((max_size pop * 3) div 2 - max_size pop)) None,
                        max_size := (max_size pop * 3) div 2,
                        free_index := (max_size pop * 3) div 2 - 1\<rparr>)
      \<and> 0 \<le> free_index pop1 \<and> free_index pop1 < max_size pop1
      \<and> scan_wrapping (entity_array pop1) (nat (free_index pop1)) = Some fi
      \<and> fi < length (entity_array pop1) \<and> entity_array pop1 ! fi = None
      \<and> chromosome_constructor pop = Some f \<and> chromosome ent0 = None
      \<and> peek pop' e = (call_constructor cm f popc ent0)\<lparr>data := [], fitness := GA_MIN_FITNESS h\<rparr>
      \<and> e \<notin> set (atoms (entity_chunk pop))
      \<and> free_index pop' = int fi
      \<and> entity_array pop' = (entity_array pop1)[fi := Some e]
      \<and> entity_iarray pop' = (entity_iarray pop1)[nat (size_pop pop) := Some e]
      \<and> size_pop pop' = size_pop pop + 1 \<and> max_size pop' = max_size pop1"
proof -
  from ga_get_free_entity_Inr[OF a] obtain pop1 fi f ent0 popc where
    room: "ga_get_free_entity_room h pop = Inr pop1"
    and fu: "find_unused (entity_array pop1) (max_size pop1) (free_index pop1) = Some (Inr fi)"
    and cc: "chromosome_constructor pop1 = Some f"
    and e0: "chromosome ent0 = None"
    and pk: "peek pop' e = (call_constructor cm f popc ent0)\<lparr>data := [], fitness := GA_MIN_FITNESS h\<rparr>"
    and p': "pop' = pop1\<lparr>free_index := fi,
                    entity_chunk := entity_chunk pop',
                    entity_array := (entity_array pop1)[nat fi := Some e],
                    entity_iarray := (entity_iarray pop1)[nat (size_pop pop1) := Some e],
                    size_pop := size_pop pop1 + 1\<rparr>"
    by blast
  note d = pool_invD[OF inv]
  have m0: "0 \<le> max_size pop" using d(1,2) by simp
  note r = ga_get_free_entity_room_Inr[OF room m0 d(4,5)]
  note i1 = pool_inv_room[OF inv room]
  note d1 = pool_invD[OF i1(1)]
  have m: "max_size pop1 = int (length (entity_array pop1))" using d1(1,2,4) by simp
  note u = find_unused_Inr[OF fu[unfolded m]]
  have r1: "max_size pop \<noteq> size_pop pop + 1 \<longrightarrow> pop1 = pop" using r by blast
  have r2: "max_size pop = size_pop pop + 1 \<longrightarrow>
           pop1 = pop\<lparr>entity_array := entity_array pop
                          @ replicate (nat ((max_size pop * 3) div 2 - max_size pop)) None,
                        entity_iarray := entity_iarray pop
                          @ replicate (nat ((max_size pop * 3) div 2 - max_size pop)) None,
                        max_size := (max_size pop * 3) div 2,
                        free_index := (max_size pop * 3) div 2 - 1\<rparr>"
    using r by blast
  have c1: "0 \<le> free_index pop1" "free_index pop1 < max_size pop1"
    using u m by auto
  have sw: "scan_wrapping (entity_array pop1) (nat (free_index pop1)) = Some (nat fi)"
    "nat fi < length (entity_array pop1)" "entity_array pop1 ! nat fi = None"
    using u by auto
  have cons: "chromosome_constructor pop = Some f"
    using r cc by (cases "max_size pop = size_pop pop + 1"; auto)
  have ne: "e \<notin> set (atoms (entity_chunk pop))"
    by (rule pool_inv_get_free_entity(3)[OF inv a])
  have fields: "free_index pop' = int (nat fi)"
    "entity_array pop' = (entity_array pop1)[nat fi := Some e]"
    "entity_iarray pop' = (entity_iarray pop1)[nat (size_pop pop) := Some e]"
    "size_pop pop' = size_pop pop + 1" "max_size pop' = max_size pop1"
    using u by (subst p', simp add: i1(2))+
  show ?thesis
    by (intro exI conjI)
       (rule r1 r2 c1 sw cons e0 pk ne fields)+
qed

text \<open>
  C7.  On a population that satisfies the invariant, whenever \<open>ga_get_free_entity\<close> returns:
  when \<open>max_size = size + 1\<close>, that is when one slot is still empty, both arrays have first
  been grown to \<open>(max_size*3)/2\<close> cells with the new cells NULL and the cursor moved to the
  last cell, and otherwise nothing has been grown; the slot taken is the first empty one met
  going down from the cursor and wrapping around at zero; the entity is a fresh atom, set up
  by the chromosome constructor, stored in that slot and at the rank that was the size; the
  size is one more.  The function does return when a slot is empty, the cursor is in range,
  the constructor is set and, for the growth, the host grants the memory.  When every slot
  is taken (\<open>size = max_size\<close>) nothing is grown and the scan never ends.
\<close>

theorem ga_get_free_entity_scan_grow:
  assumes "pool_inv pop"
  shows "(\<forall>e pop'. ga_get_free_entity h cm pop = Some (Inr (e, pop')) \<longrightarrow>
      (\<exists>pop1 fi f ent0 popc.
        (max_size pop \<noteq> size_pop pop + 1 \<longrightarrow> pop1 = pop)
      \<and> (max_size pop = size_pop pop + 1 \<longrightarrow>
           pop1 = pop\<lparr>entity_array := entity_array pop
                          @ replicate (nat ((max_size pop * 3) div 2 - max_size pop)) None,
                        entity_iarray := entity_iarray pop
                          @ replicate (nat ((max_size pop * 3) div 2 - max_size pop)) None,
                        max_size := (max_size pop * 3) div 2,
                        free_index := (max_size pop * 3) div 2 - 1\<rparr>)
      \<and> 0 \<le> free_index pop1 \<and> free_index pop1 < max_size pop1
      \<and> scan_wrapping (entity_array pop1) (nat (free_index pop1)) = Some fi
      \<and> fi < length (entity_array pop1) \<and> entity_array pop1 ! fi = None
      \<and> chromosome_constructor pop = Some f \<and> chromosome ent0 = None
      \<and> peek pop' e = (call_constructor cm f popc ent0)\<lparr>data := [], fitness := GA_MIN_FITNESS h\<rparr>
      \<and> e \<notin> set (atoms (entity_chunk pop))
      \<and> free_index pop' = int fi
      \<and> entity_array pop' = (entity_array pop1)[fi := Some e]
      \<and> entity_iarray pop' = (entity_iarray pop1)[nat (size_pop pop) := Some e]
      \<and> size_pop pop' = size_pop pop + 1 \<and> max_size pop' = max_size pop1))
    \<and> (size_pop pop < max_size pop \<and> 0 \<le> free_index pop \<and> free_index pop < max_size pop
         \<and> chromosome_constructor pop \<noteq> None
         \<and> (max_size pop = size_pop pop + 1 \<longrightarrow>
             max_size pop * 3 \<le> INT_MAX
             \<and> memory_for h (cells_request h ((max_size pop * 3) div 2))
             \<and> cells_fit h ((max_size pop * 3) div 2)) \<longrightarrow>
         (\<exists>e pop'. ga_get_free_entity h cm pop = Some (Inr (e, pop'))))
    \<and> (size_pop pop = max_size pop \<and> 0 \<le> free_index pop \<and> free_index pop < max_size pop
         \<and> max_size pop < INT_MAX \<longrightarrow>
         ga_get_free_entity h cm pop = None)"
proof (intro conjI)
  show "\<forall>e pop'. ga_get_free_entity h cm pop = Some (Inr (e, pop')) \<longrightarrow>
      (\<exists>pop1 fi f ent0 popc.
        (max_size pop \<noteq> size_pop pop + 1 \<longrightarrow> pop1 = pop)
      \<and> (max_size pop = size_pop pop + 1 \<longrightarrow>
           pop1 = pop\<lparr>entity_array := entity_array pop
                          @ replicate (nat ((max_size pop * 3) div 2 - max_size pop)) None,
                        entity_iarray := entity_iarray pop
                          @ replicate (nat ((max_size pop * 3) div 2 - max_size pop)) None,
                        max_size := (max_size pop * 3) div 2,
                        free_index := (max_size pop * 3) div 2 - 1\<rparr>)
      \<and> 0 \<le> free_index pop1 \<and> free_index pop1 < max_size pop1
      \<and> scan_wrapping (entity_array pop1) (nat (free_index pop1)) = Some fi
      \<and> fi < length (entity_array pop1) \<and> entity_array pop1 ! fi = None
      \<and> chromosome_constructor pop = Some f \<and> chromosome ent0 = None
      \<and> peek pop' e = (call_constructor cm f popc ent0)\<lparr>data := [], fitness := GA_MIN_FITNESS h\<rparr>
      \<and> e \<notin> set (atoms (entity_chunk pop))
      \<and> free_index pop' = int fi
      \<and> entity_array pop' = (entity_array pop1)[fi := Some e]
      \<and> entity_iarray pop' = (entity_iarray pop1)[nat (size_pop pop) := Some e]
      \<and> size_pop pop' = size_pop pop + 1 \<and> max_size pop' = max_size pop1)"
    using ga_get_free_entity_steps[OF assms] by blast
  show "size_pop pop < max_size pop \<and> 0 \<le> free_index pop \<and> free_index pop < max_size pop
         \<and> chromosome_constructor pop \<noteq> None
         \<and> (max_size pop = size_pop pop + 1 \<longrightarrow>
             max_size pop * 3 \<le> INT_MAX
             \<and> memory_for h (cells_request h ((max_size pop * 3) div 2))
             \<and> cells_fit h ((max_size pop * 3) div 2)) \<longrightarrow>
         (\<exists>e pop'. ga_get_free_entity h cm pop = Some (Inr (e, pop')))"
  proof
    assume b: "size_pop pop < max_size pop \<and> 0 \<le> free_index pop \<and> free_index pop < max_size pop
         \<and> chromosome_constructor pop \<noteq> None
         \<and> (max_size pop = size_pop pop + 1 \<longrightarrow>
             max_size pop * 3 \<le> INT_MAX
             \<and> memory_for h (cells_request h ((max_size pop * 3) div 2))
             \<and> cells_fit h ((max_size pop * 3) div 2))"
    then obtain f where f: "chromosome_constructor pop = Some f" by blast
    from b have g: "max_size pop = size_pop pop + 1 \<longrightarrow>
             max_size pop * 3 \<le> INT_MAX
             \<and> memory_for h (cells_request h ((max_size pop * 3) div 2))
             \<and> cells_fit h ((max_size pop * 3) div 2)" by blast
    from b have c: "size_pop pop < max_size pop" "0 \<le> free_index pop"
      "free_index pop < max_size pop" by blast+
    show "\<exists>e pop'. ga_get_free_entity h cm pop = Some (Inr (e, pop'))"
      by (rule ga_get_free_entity_returns[OF assms c f g])
  qed
  show "size_pop pop = max_size pop \<and> 0 \<le> free_index pop \<and> free_index pop < max_size pop
         \<and> max_size pop < INT_MAX \<longrightarrow>
         ga_get_free_entity h cm pop = None"
    using ga_get_free_entity_full[OF assms] by blast
qed

lemma example_pool_full_inv: "pool_inv example_pool_full"
  by (auto simp: pool_inv_def live_slots_def ranked_def example_population_def
        example_pool1_def example_pool_full_def INT_MAX_def mem_chunk_new_def)

theorem ga_get_free_entity_scan_grow_witness:
  "pool_inv example_pool3 \<and> size_pop example_pool3 = 3 \<and> max_size example_pool3 = 4
   \<and> (\<exists>e pop'. ga_get_free_entity example_header example_code example_pool3 = Some (Inr (e, pop'))
         \<and> size_pop pop' = 4 \<and> max_size pop' = 6)
   \<and> pool_inv example_pool_full
   \<and> size_pop example_pool_full = max_size example_pool_full
   \<and> ga_get_free_entity example_header example_code example_pool_full = None"
proof -
  note t = ga_get_free_entity_scan_grow[OF example_pool_inv(3), of example_header example_code]
  have s: "size_pop example_pool3 = 3" "max_size example_pool3 = 4"
    "free_index example_pool3 = 1" "chromosome_constructor example_pool3 \<noteq> None"
    by (simp_all add: example_pool3_def example_population_def)
  have g: "max_size example_pool3 * 3 \<le> INT_MAX
      \<and> memory_for example_header (cells_request example_header ((max_size example_pool3 * 3) div 2))
      \<and> cells_fit example_header ((max_size example_pool3 * 3) div 2)"
    using example_cells[of 6] by (simp add: s INT_MAX_def)
  from t s g obtain e pop' where
    r: "ga_get_free_entity example_header example_code example_pool3 = Some (Inr (e, pop'))"
    by auto
  from t[THEN conjunct1, rule_format, OF r] obtain pop1 fi f ent0 popc where
    b: "max_size example_pool3 = size_pop example_pool3 + 1 \<longrightarrow>
           pop1 = example_pool3\<lparr>entity_array := entity_array example_pool3
                          @ replicate (nat ((max_size example_pool3 * 3) div 2 - max_size example_pool3)) None,
                        entity_iarray := entity_iarray example_pool3
                          @ replicate (nat ((max_size example_pool3 * 3) div 2 - max_size example_pool3)) None,
                        max_size := (max_size example_pool3 * 3) div 2,
                        free_index := (max_size example_pool3 * 3) div 2 - 1\<rparr>"
    and c: "size_pop pop' = size_pop example_pool3 + 1" "max_size pop' = max_size pop1"
    by blast
  from b s(1,2) have "max_size pop1 = (max_size example_pool3 * 3) div 2" by simp
  with c
  have a: "size_pop pop' = 4 \<and> max_size pop' = 6" by (simp add: s)
  note t' = ga_get_free_entity_scan_grow[OF example_pool_full_inv, of example_header example_code]
  have s': "size_pop example_pool_full = 1" "max_size example_pool_full = 1"
    "free_index example_pool_full = 0"
    by (simp_all add: example_pool_full_def example_pool1_def example_population_def)
  have b: "ga_get_free_entity example_header example_code example_pool_full = None"
    using t' s' by (simp add: INT_MAX_def)
  show ?thesis using example_pool_inv(3) s(1,2) r a example_pool_full_inv s'(1,2) b by auto
qed

theorem ga_get_free_entity_grows_with_free_slot:
  "size_pop example_pool3 = 3 \<and> max_size example_pool3 = 4
   \<and> entity_array example_pool3 = [None, Some 2, Some 1, Some 0]
   \<and> shape_of_result (ga_get_free_entity example_header example_code example_pool3)
       = Some (Inr (3, 6, 4, [None, Some 2, Some 1, Some 0, None, Some 3],
                    [Some 0, Some 1, Some 2, Some 3, None, None]))"
  using example_get_free_entity_3
  by (simp add: shape_of_result_def example_pool3_def example_population_def)

section \<open>Writing a snapshot\<close>










lemma version_field_length: "length (version_field h) = 64"
  by (simp add: version_field_def Let_def)




section \<open>Reading a snapshot\<close>

lemma fread_append: "length a = n \<Longrightarrow> fread n (a @ s) = Inr (a, s)"
  by (simp add: fread_def)

lemma read_int_append:
  "length (int_rep h x) = sizeof_int h \<Longrightarrow> int_val h (int_rep h x) = x \<Longrightarrow>
   read_int h (int_rep h x @ s) = Inr (x, s)"
  by (simp add: read_int_def fread_append bindE_def)

lemma read_uint_append:
  "length (uint_rep h x) = sizeof_int h \<Longrightarrow> uint_val h (uint_rep h x) = x \<Longrightarrow>
   read_uint h (uint_rep h x @ s) = Inr (x, s)"
  by (simp add: read_uint_def fread_append bindE_def)

lemma read_double_append:
  "length (double_rep h x) = sizeof_double h \<Longrightarrow> double_val h (double_rep h x) = x \<Longrightarrow>
   read_double h (double_rep h x @ s) = Inr (x, s)"
  by (simp add: read_double_def fread_append bindE_def)

lemma read_ints_append:
  "(\<forall>x \<in> set xs. length (int_rep h x) = sizeof_int h \<and> int_val h (int_rep h x) = x) \<Longrightarrow>
   read_ints h (length xs) (concat (map (int_rep h) xs) @ s) = Inr (xs, s)"
  by (induction xs) (simp_all add: read_int_append bindE_def)

lemma le_bytes_length [simp]: "length (le_bytes n x) = n"
  by (simp add: le_bytes_def)

lemma le_val_snoc: "le_val (s @ [c]) = le_val s + 256 ^ length s * of_char c"
  by (induction s) (simp_all add: le_val_def algebra_simps)

lemma le_bytes_Suc: "le_bytes (Suc n) x = le_bytes n x @ [char_of (x div 256 ^ n)]"
  by (simp add: le_bytes_def)

lemma le_val_le_bytes: "le_val (le_bytes n x) = x mod 256 ^ n"
proof (induction n)
  case 0
  then show ?case by (simp add: le_bytes_def le_val_def)
next
  case (Suc n)
  have "le_val (le_bytes (Suc n) x) = x mod 256 ^ n + 256 ^ n * (x div 256 ^ n mod 256)"
    by (simp add: le_bytes_Suc le_val_snoc Suc)
  also have "\<dots> = x mod (256 ^ n * 256)"
    by (simp add: mod_mult2_eq)
  finally show ?case by (simp add: mult.commute)
qed

lemma example_int_rep:
  assumes "INT_MIN \<le> x" "x \<le> INT_MAX"
  shows "length (int_rep example_header x) = sizeof_int example_header"
    "int_val example_header (int_rep example_header x) = x"
proof -
  show "length (int_rep example_header x) = sizeof_int example_header"
    by (simp add: example_header_def)
  have m: "int (nat (x mod 4294967296) mod 256 ^ 4) = x mod 4294967296"
    by simp
  show "int_val example_header (int_rep example_header x) = x"
  proof (cases "0 \<le> x")
    case True
    then have "x mod 4294967296 = x" using assms by (simp add: INT_MAX_def)
    then show ?thesis
      using assms True by (simp add: example_header_def le_val_le_bytes m Let_def INT_MAX_def)
  next
    case False
    have "(x + 4294967296) mod 4294967296 = x + 4294967296"
      by (rule mod_pos_pos_trivial) (use assms False in \<open>auto simp: INT_MIN_def\<close>)
    then have "x mod 4294967296 = x + 4294967296"
      by (simp only: mod_add_self2)
    then show ?thesis
      using assms False by (simp add: example_header_def le_val_le_bytes m Let_def INT_MIN_def)
  qed
qed

lemma example_uint_rep:
  assumes "n < 4294967296"
  shows "length (uint_rep example_header n) = sizeof_int example_header"
    "uint_val example_header (uint_rep example_header n) = n"
  using assms by (simp_all add: example_header_def le_val_le_bytes)

lemma example_double_rep:
  assumes "- 9223372036854775808 \<le> k" "k < 9223372036854775808"
  shows "length (double_rep example_header (real_of_int k)) = sizeof_double example_header"
    "double_val example_header (double_rep example_header (real_of_int k)) = real_of_int k"
proof -
  show "length (double_rep example_header (real_of_int k)) = sizeof_double example_header"
    by (simp add: example_header_def)
  have m: "int (nat (k mod 18446744073709551616) mod 256 ^ 8) = k mod 18446744073709551616"
    by simp
  show "double_val example_header (double_rep example_header (real_of_int k)) = real_of_int k"
  proof (cases "0 \<le> k")
    case True
    then have "k mod 18446744073709551616 = k" using assms by simp
    then show ?thesis
      using assms True by (simp add: example_header_def le_val_le_bytes m Let_def)
  next
    case False
    have "(k + 18446744073709551616) mod 18446744073709551616 = k + 18446744073709551616"
      by (rule mod_pos_pos_trivial) (use assms False in auto)
    then have "k mod 18446744073709551616 = k + 18446744073709551616"
      by (simp only: mod_add_self2)
    then show ?thesis
      using assms False by (simp add: example_header_def le_val_le_bytes m Let_def)
  qed
qed


lemma example_reps_small:
  "length (int_rep example_header 0) = sizeof_int example_header"
  "int_val example_header (int_rep example_header 0) = 0"
  "length (int_rep example_header 1) = sizeof_int example_header"
  "int_val example_header (int_rep example_header 1) = 1"
  "length (int_rep example_header 4) = sizeof_int example_header"
  "int_val example_header (int_rep example_header 4) = 4"
  "length (int_rep example_header (- 1)) = sizeof_int example_header"
  "int_val example_header (int_rep example_header (- 1)) = - 1"
  "length (double_rep example_header 1) = sizeof_double example_header"
  "double_val example_header (double_rep example_header 1) = 1"
  using example_int_rep[of 0] example_int_rep[of 1] example_int_rep[of 4] example_int_rep[of "- 1"]
    example_double_rep[of 1]
  by (simp_all add: INT_MIN_def INT_MAX_def)

lemma set_hooks_zero:
  "set_hooks pop [0, 0, 0, 0, 0, 0, 0, 0, 0, 0, 0, 0, 0, 0, 0, 0, 0, 0] =
     Inr (pop\<lparr>generation_hook := None, iteration_hook := None, data_destructor := None,
              data_ref_incrementor := None, chromosome_constructor := None,
              chromosome_destructor := None, chromosome_replicate := None,
              chromosome_to_bytes := None, chromosome_from_bytes := None,
              chromosome_to_string := None, evaluate := None, seed := None, adapt := None,
              select_one := None, select_two := None, mutate := None, crossover := None,
              replace := None\<rparr>)"
  by (simp add: set_hooks_def bindE_def load_def ga_funclookup_id_to_ptr_def lookup_def)

lemma example_new_0:
  "\<exists>w1 pop. ga_population_new example_header (empty_world :: int list list world) 1 1 4
      = Inr (0, w1) \<and> map_of (pop_heap w1) 0 = Some pop
      \<and> ga_get_population_from_id w1 0 = Some 0"
proof -
  obtain p w1 where n: "ga_population_new example_header (empty_world :: int list list world) 1 1 4
      = Inr (p, w1)"
    using ga_population_new_total[of example_header 1 empty_world 1 4] example_cells[of 4]
    by (auto simp: INT_MAX_def)
  from ga_population_new_Inr[OF n] obtain i newpop where
    p0: "p = fresh_atom (map fst (pop_heap (empty_world :: int list list world)))"
    and a: "pop_table_add ((empty_world :: int list list world)
              \<lparr>pop_heap := (p, newpop) # pop_heap empty_world\<rparr>) p = (i, w1)"
    by blast
  have p: "p = 0" using p0 by (simp add: empty_world_def)
  have i: "i = 0"
    using a by (auto simp: pop_table_add_def empty_world_def table_new_def table_add_def Let_def
        split: prod.splits)
  have m: "map_of (pop_heap w1) p = Some newpop"
    using pop_table_add_heap[OF a] by simp
  show ?thesis
    using n m pop_table_add_new[OF a] unfolding p i by blast
qed

lemma example_read_ids0:
  "read_ints example_header 18 (example_ids0 @ t)
     = Inr ([0, 0, 0, 0, 0, 0, 0, 0, 0, 0, 0, 0, 0, 0, 0, 0, 0, 0], t)"
proof -
  have l: "length [0::int, 0, 0, 0, 0, 0, 0, 0, 0, 0, 0, 0, 0, 0, 0, 0, 0, 0] = 18" by simp
  have "read_ints example_header (length [0::int, 0, 0, 0, 0, 0, 0, 0, 0, 0, 0, 0, 0, 0, 0, 0, 0, 0])
      (concat (map (int_rep example_header) [0, 0, 0, 0, 0, 0, 0, 0, 0, 0, 0, 0, 0, 0, 0, 0, 0, 0])
       @ t) = Inr ([0, 0, 0, 0, 0, 0, 0, 0, 0, 0, 0, 0, 0, 0, 0, 0, 0, 0], t)"
    by (rule read_ints_append) (simp add: example_reps_small)
  then show ?thesis unfolding l example_ids0_def .
qed

lemma example_body_002:
  "\<exists>w'. ga_population_read_body example_header example_code
     (empty_world :: int list list world)
     (example_info @ int_rep example_header (- 1) @ example_ids0 @ t)
     = Some (Inr (0, w', version_field example_header, t))
     \<and> ga_get_population_from_id w' 0 = Some 0"
proof -
  have v: "length (version_field example_header) = 64" by (rule version_field_length)
  from example_new_0 obtain w1 pop where
    n: "ga_population_new example_header (empty_world :: int list list world) 1 1 4 = Inr (0, w1)"
    and m: "map_of (pop_heap w1) 0 = Some pop"
    and g: "ga_get_population_from_id w1 0 = Some 0" by blast
  show ?thesis
    unfolding example_info_def ga_population_read_body_def
    by (simp add: fread_append v read_int_append read_double_append example_reps_small
        bindE_def n m example_read_ids0 set_hooks_zero g)
qed

lemma example_body_001:
  "\<exists>w'. ga_population_read_001_body example_header example_code
     (empty_world :: int list list world) (example_info @ example_ids0 @ t)
     = Some (Inr (0, w', version_field example_header, t))
     \<and> ga_get_population_from_id w' 0 = Some 0"
proof -
  have v: "length (version_field example_header) = 64" by (rule version_field_length)
  from example_new_0 obtain w1 pop where
    n: "ga_population_new example_header (empty_world :: int list list world) 1 1 4 = Inr (0, w1)"
    and m: "map_of (pop_heap w1) 0 = Some pop"
    and g: "ga_get_population_from_id w1 0 = Some 0" by blast
  show ?thesis
    unfolding example_info_def ga_population_read_001_body_def
    by (simp add: fread_append v read_int_append read_double_append example_reps_small
        bindE_def n m example_read_ids0 set_hooks_zero g)
qed

lemma example_file0_eq:
  "example_file0 = format_str_002 @ example_info @ int_rep example_header (- 1) @ example_ids0
     @ ''END'' @ [NUL]"
  by (simp add: example_file0_def snapshot_def example_population_def example_info_def
      example_ids0_def format_str_002_def)

lemma example_cut_files:
  "butlast example_file0 @ ''X''
     = format_str_002 @ example_info @ int_rep example_header (- 1) @ example_ids0 @ ''ENDX''"
  "butlast example_old_file0 @ ''X'' = format_str_001 @ example_info @ example_ids0 @ ''ENDX''"
  by (simp_all add: example_file0_eq example_old_file0_def butlast_append NUL_def
      format_str_002_def format_str_001_def)

lemma example_trailers:
  "\<not> trailer_matches (version_field example_header) ''ENDX''"
  "trailer_matches (version_field example_header) (''END'' @ [NUL])"
  by (simp_all add: trailer_matches_def NUL_def)

section \<open>Corrupt snapshots\<close>

lemma ga_population_read_body_Inr:
  assumes "ga_population_read_body h cm w s = Some (Inr (p, w', buffer, rest))"
  shows "\<exists>s1 sz s2 ss s3 nc s4 lc s5 w1 pop cr s6 mr s7 gr s8 sch s9 el s10 isl s11 ids s12
        pop1 pop2.
      fread 64 s = Inr (buffer, s1) \<and> read_int h s1 = Inr (sz, s2)
    \<and> read_int h s2 = Inr (ss, s3) \<and> read_int h s3 = Inr (nc, s4)
    \<and> read_int h s4 = Inr (lc, s5)
    \<and> ga_population_new h w ss nc lc = Inr (p, w1) \<and> map_of (pop_heap w1) p = Some pop
    \<and> read_double h s5 = Inr (cr, s6) \<and> read_double h s6 = Inr (mr, s7)
    \<and> read_double h s7 = Inr (gr, s8) \<and> read_int h s8 = Inr (sch, s9)
    \<and> read_int h s9 = Inr (el, s10) \<and> read_int h s10 = Inr (isl, s11)
    \<and> read_ints h 18 s11 = Inr (ids, s12)
    \<and> set_hooks (pop\<lparr>crossover_ratio := cr, mutation_ratio := mr, migration_ratio := gr,
                       scheme := sch, elitism := el, island := isl\<rparr>) ids = Inr pop1
    \<and> read_entities h cm (nat sz) pop1 s12 = Some (Inr (pop2, rest))
    \<and> w' = w1\<lparr>pop_heap := (p, pop2) # pop_heap w1\<rparr>"
  using assms unfolding ga_population_read_body_def
  by (auto simp: bindE_def split: sum.splits option.splits prod.splits)

lemma ga_population_read_001_body_Inr:
  assumes "ga_population_read_001_body h cm w s = Some (Inr (p, w', buffer, rest))"
  shows "\<exists>s1 sz s2 ss s3 nc s4 lc s5 w1 pop cr s6 mr s7 gr s8 sch s9 el s10 ids s12
        pop1 pop2.
      fread 64 s = Inr (buffer, s1) \<and> read_int h s1 = Inr (sz, s2)
    \<and> read_int h s2 = Inr (ss, s3) \<and> read_int h s3 = Inr (nc, s4)
    \<and> read_int h s4 = Inr (lc, s5)
    \<and> ga_population_new h w ss nc lc = Inr (p, w1) \<and> map_of (pop_heap w1) p = Some pop
    \<and> read_double h s5 = Inr (cr, s6) \<and> read_double h s6 = Inr (mr, s7)
    \<and> read_double h s7 = Inr (gr, s8) \<and> read_int h s8 = Inr (sch, s9)
    \<and> read_int h s9 = Inr (el, s10)
    \<and> read_ints h 18 s10 = Inr (ids, s12)
    \<and> set_hooks (pop\<lparr>crossover_ratio := cr, mutation_ratio := mr, migration_ratio := gr,
                       scheme := sch, elitism := el\<rparr>) ids = Inr pop1
    \<and> read_entities h cm (nat sz) pop1 s12 = Some (Inr (pop2, rest))
    \<and> w' = w1\<lparr>pop_heap := (p, pop2) # pop_heap w1\<rparr>"
  using assms unfolding ga_population_read_001_body_def
  by (auto simp: bindE_def split: sum.splits option.splits prod.splits)

lemma read_body_registered:
  assumes "ga_population_new h w ss nc lc = Inr (p, w1)"
    and "w' = w1\<lparr>pop_heap := (p, pop2) # pop_heap w1\<rparr>"
  shows "map_of (pop_heap w') p = Some pop2" "\<exists>i. ga_get_population_from_id w' i = Some p"
  using ga_population_new_registered(3)[OF assms(1)] assms(2) by simp_all

lemma ga_population_read_not_NULL:
  assumes "ga_population_read h cm fs w fname = Some (Inr (r, w'))"
  shows "r \<noteq> None"
  using assms
  by (auto simp: ga_population_read_def ga_population_read_001_def
      split: option.splits sum.splits if_splits prod.splits error.splits)

lemma tag_lengths: "length format_str_002 = 27" "length format_str_001 = 27"
  "format_str_002 \<noteq> format_str_001"
  by (simp_all add: format_str_002_def format_str_001_def)

lemma read_dies_footer_002:
  assumes "contents fs name = Some bytes" "take 27 bytes = format_str_002"
    and "ga_population_read_body h cm w (drop 27 bytes) = Some (Inr (p, w', buffer, rest))"
    and "\<not> trailer_matches buffer rest"
  shows "ga_population_read h cm fs w (Some name) = Some (Inl (Die ''Corrupt population file?''))"
  using assms by (simp add: ga_population_read_def tag_lengths)

lemma read_001_footer:
  assumes "contents fs name = Some bytes" "take 27 bytes = format_str_001"
    and "ga_population_read_001_body h cm w (drop 27 bytes) = Some (Inr (p, w', buffer, rest))"
  shows "ga_population_read h cm fs w (Some name) =
     (if \<not> trailer_matches buffer rest then Some (Inl (Die ''Corrupt population file?''))
      else Some (Inr (Some p, w')))"
proof -
  have "take 27 bytes \<noteq> format_str_002" using assms(2) tag_lengths(3) by auto
  then show ?thesis
    using assms by (simp add: ga_population_read_def ga_population_read_001_def tag_lengths)
qed

text \<open>
  C5.  What \<open>ga_population_read\<close> does with a corrupt snapshot.  A file that starts with
  neither format tag makes it die with "Incompatible format for population file.".  A file
  with a tag whose body has been read, but whose footer is not \<open>END\<close>, makes it die with
  "Corrupt population file?"; at that moment the population that the body has built is in
  the memory and in the population table: nothing has destroyed it.  And whenever the
  function returns, it returns a population, not NULL: there is no error return.
\<close>

theorem ga_population_read_corrupt:
  "(contents fs name = Some bytes \<and> take 27 bytes \<noteq> format_str_002
       \<and> take 27 bytes \<noteq> format_str_001 \<longrightarrow>
      ga_population_read h cm fs w (Some name)
        = Some (Inl (Die ''Incompatible format for population file.'')))
   \<and> (contents fs name = Some bytes \<and> take 27 bytes = format_str_002
       \<and> ga_population_read_body h cm w (drop 27 bytes) = Some (Inr (p, w', buffer, rest))
       \<and> \<not> trailer_matches buffer rest \<longrightarrow>
      ga_population_read h cm fs w (Some name) = Some (Inl (Die ''Corrupt population file?''))
      \<and> map_of (pop_heap w') p \<noteq> None
      \<and> (\<exists>i. ga_get_population_from_id w' i = Some p))
   \<and> (contents fs name = Some bytes \<and> take 27 bytes = format_str_001
       \<and> ga_population_read_001_body h cm w (drop 27 bytes) = Some (Inr (p, w', buffer, rest))
       \<and> \<not> trailer_matches buffer rest \<longrightarrow>
      ga_population_read h cm fs w (Some name) = Some (Inl (Die ''Corrupt population file?''))
      \<and> map_of (pop_heap w') p \<noteq> None
      \<and> (\<exists>i. ga_get_population_from_id w' i = Some p))
   \<and> (\<forall>r w''. ga_population_read h cm fs w fname = Some (Inr (r, w'')) \<longrightarrow> r \<noteq> None)"
proof (intro conjI impI allI)
  assume "contents fs name = Some bytes \<and> take 27 bytes \<noteq> format_str_002
       \<and> take 27 bytes \<noteq> format_str_001"
  then show "ga_population_read h cm fs w (Some name)
        = Some (Inl (Die ''Incompatible format for population file.''))"
    by (simp add: ga_population_read_def ga_population_read_001_def tag_lengths)
next
  assume a: "contents fs name = Some bytes \<and> take 27 bytes = format_str_002
       \<and> ga_population_read_body h cm w (drop 27 bytes) = Some (Inr (p, w', buffer, rest))
       \<and> \<not> trailer_matches buffer rest"
  then show "ga_population_read h cm fs w (Some name) = Some (Inl (Die ''Corrupt population file?''))"
    using read_dies_footer_002 by blast
  from a have "ga_population_read_body h cm w (drop 27 bytes) = Some (Inr (p, w', buffer, rest))"
    by simp
  from ga_population_read_body_Inr[OF this] obtain ss nc lc w1 pop2 where
    "ga_population_new h w ss nc lc = Inr (p, w1)"
    "w' = w1\<lparr>pop_heap := (p, pop2) # pop_heap w1\<rparr>" by blast
  note r = read_body_registered[OF this]
  show "map_of (pop_heap w') p \<noteq> None" using r(1) by simp
  show "\<exists>i. ga_get_population_from_id w' i = Some p" by (rule r(2))
next
  assume a: "contents fs name = Some bytes \<and> take 27 bytes = format_str_001
       \<and> ga_population_read_001_body h cm w (drop 27 bytes) = Some (Inr (p, w', buffer, rest))
       \<and> \<not> trailer_matches buffer rest"
  then show "ga_population_read h cm fs w (Some name) = Some (Inl (Die ''Corrupt population file?''))"
    using read_001_footer[of fs name bytes h cm w p w' buffer rest] by simp
  from a have "ga_population_read_001_body h cm w (drop 27 bytes) = Some (Inr (p, w', buffer, rest))"
    by simp
  from ga_population_read_001_body_Inr[OF this] obtain ss nc lc w1 pop2 where
    "ga_population_new h w ss nc lc = Inr (p, w1)"
    "w' = w1\<lparr>pop_heap := (p, pop2) # pop_heap w1\<rparr>" by blast
  note r = read_body_registered[OF this]
  show "map_of (pop_heap w') p \<noteq> None" using r(1) by simp
  show "\<exists>i. ga_get_population_from_id w' i = Some p" by (rule r(2))
next
  fix r w''
  assume "ga_population_read h cm fs w fname = Some (Inr (r, w''))"
  then show "r \<noteq> None" by (rule ga_population_read_not_NULL)
qed


theorem ga_population_read_corrupt_witness:
  "ga_population_read example_header example_code example_files (empty_world :: int list list world)
       (Some ''junk.dat'') = Some (Inl (Die ''Incompatible format for population file.''))
   \<and> ga_population_read example_header example_code example_files (empty_world :: int list list world)
       (Some ''cut.dat'') = Some (Inl (Die ''Corrupt population file?''))
   \<and> ga_population_read example_header example_code example_files (empty_world :: int list list world)
       (Some ''oldcut.dat'') = Some (Inl (Die ''Corrupt population file?''))
   \<and> (\<exists>w'. ga_population_read example_header example_code example_files (empty_world :: int list list world)
       (Some ''old.dat'') = Some (Inr (Some 0, w')))"
proof -
  let ?w = "empty_world :: int list list world"
  have l: "length example_info + length (int_rep example_header (- 1)) + length example_ids0 = 0
      \<longleftrightarrow> False"
    by (simp add: example_info_def version_field_length)
  have c: "contents example_files ''junk.dat'' = Some ''hello''"
    "contents example_files ''cut.dat'' = Some (butlast example_file0 @ ''X'')"
    "contents example_files ''oldcut.dat'' = Some (butlast example_old_file0 @ ''X'')"
    "contents example_files ''old.dat'' = Some example_old_file0"
    by (simp_all add: example_files_def)
  have j: "take 27 ''hello'' \<noteq> format_str_002 \<and> take 27 ''hello'' \<noteq> format_str_001"
    by (simp add: format_str_002_def format_str_001_def)
  have t2: "take 27 (butlast example_file0 @ ''X'') = format_str_002"
    "drop 27 (butlast example_file0 @ ''X'')
       = example_info @ int_rep example_header (- 1) @ example_ids0 @ ''ENDX''"
    by (simp_all add: example_cut_files tag_lengths)
  have t1: "take 27 (butlast example_old_file0 @ ''X'') = format_str_001"
    "drop 27 (butlast example_old_file0 @ ''X'') = example_info @ example_ids0 @ ''ENDX''"
    by (simp_all add: example_cut_files tag_lengths)
  from example_body_002[of "''ENDX''"] obtain w2 where
    b2: "ga_population_read_body example_header example_code ?w
           (drop 27 (butlast example_file0 @ ''X''))
         = Some (Inr (0, w2, version_field example_header, ''ENDX''))"
    unfolding t2(2) by blast
  from example_body_001[of "''ENDX''"] obtain w1 where
    b1: "ga_population_read_001_body example_header example_code ?w
           (drop 27 (butlast example_old_file0 @ ''X''))
         = Some (Inr (0, w1, version_field example_header, ''ENDX''))"
    unfolding t1(2) by blast
  from example_body_001[of "''END'' @ [NUL]"] obtain w0 where
    b0: "ga_population_read_001_body example_header example_code ?w
           (example_info @ example_ids0 @ ''END'' @ [NUL])
         = Some (Inr (0, w0, version_field example_header, ''END'' @ [NUL]))"
    by blast
  have r0: "ga_population_read example_header example_code example_files (empty_world :: int list list world)
       (Some ''old.dat'') = Some (Inr (Some 0, w0))"
    using read_001_footer[OF c(4), of example_header example_code ?w 0 w0
        "version_field example_header" "''END'' @ [NUL]"] b0 example_trailers(2)
    by (simp add: example_old_file0_def tag_lengths)
  have a1: "ga_population_read example_header example_code example_files (empty_world :: int list list world)
       (Some ''junk.dat'') = Some (Inl (Die ''Incompatible format for population file.''))"
    using ga_population_read_corrupt[where fs = example_files and name = "''junk.dat''"
        and bytes = "''hello''" and h = example_header and cm = example_code and w = ?w] c(1) j
    by blast
  have a2: "ga_population_read example_header example_code example_files (empty_world :: int list list world)
       (Some ''cut.dat'') = Some (Inl (Die ''Corrupt population file?''))"
    using ga_population_read_corrupt[where fs = example_files and name = "''cut.dat''"
        and bytes = "butlast example_file0 @ ''X''" and h = example_header and cm = example_code
        and w = ?w and p = 0 and w' = w2 and buffer = "version_field example_header"
        and rest = "''ENDX''"] c(2) t2(1) b2 example_trailers(1)
    by blast
  have a3: "ga_population_read example_header example_code example_files (empty_world :: int list list world)
       (Some ''oldcut.dat'') = Some (Inl (Die ''Corrupt population file?''))"
    using ga_population_read_corrupt[where fs = example_files and name = "''oldcut.dat''"
        and bytes = "butlast example_old_file0 @ ''X''" and h = example_header
        and cm = example_code and w = ?w and p = 0 and w' = w1
        and buffer = "version_field example_header" and rest = "''ENDX''"]
      c(3) t1(1) b1 example_trailers(1)
    by blast
  show ?thesis using a1 a2 a3 r0 by blast
qed

theorem ga_population_read_dies:
  "died_with (ga_population_read example_header example_code example_files (empty_world :: int list list world)
       (Some ''junk.dat'')) ''Incompatible format for population file.''
   \<and> died_with (ga_population_read example_header example_code example_files (empty_world :: int list list world)
       (Some ''cut.dat'')) ''Corrupt population file?''
   \<and> body_population (ga_population_read_body example_header example_code
         (empty_world :: int list list world) (drop 27 (butlast example_file0 @ ''X'')))
       = (Some 0, Some 0, False)"
proof -
  let ?w = "empty_world :: int list list world"
  have c: "contents example_files ''junk.dat'' = Some ''hello''"
    "contents example_files ''cut.dat'' = Some (butlast example_file0 @ ''X'')"
    by (simp_all add: example_files_def)
  have t2: "take 27 (butlast example_file0 @ ''X'') = format_str_002"
    "drop 27 (butlast example_file0 @ ''X'')
       = example_info @ int_rep example_header (- 1) @ example_ids0 @ ''ENDX''"
    by (simp_all add: example_cut_files tag_lengths)
  from example_body_002[of "''ENDX''"] obtain w2 where
    b2: "ga_population_read_body example_header example_code ?w
           (drop 27 (butlast example_file0 @ ''X''))
         = Some (Inr (0, w2, version_field example_header, ''ENDX''))"
    and g: "ga_get_population_from_id w2 0 = Some 0"
    unfolding t2(2) by blast
  have a1: "died_with (ga_population_read example_header example_code example_files (empty_world :: int list list world)
       (Some ''junk.dat'')) ''Incompatible format for population file.''"
    by (simp add: died_with_def ga_population_read_def ga_population_read_001_def c
        format_str_001_def format_str_002_def)
  have a2: "died_with (ga_population_read example_header example_code example_files (empty_world :: int list list world)
       (Some ''cut.dat'')) ''Corrupt population file?''"
    unfolding read_dies_footer_002[OF c(2) t2(1) b2 example_trailers(1)]
    by (simp add: died_with_def)
  have a3: "body_population (ga_population_read_body example_header example_code ?w
         (drop 27 (butlast example_file0 @ ''X''))) = (Some 0, Some 0, False)"
    unfolding b2 using example_trailers(1) by (simp add: body_population_def g)
  show ?thesis using a1 a2 a3 by blast
qed

end
